theory Spec2Isabelle
  imports Complex_Main "HOL-Library.Char_ord" "HOL-Library.List_Lexorder"
begin

section \<open>Python strings\<close>

text \<open>
  Text is modelled as \<^typ>\<open>string\<close>. A character is a Unicode code point below 256, which
  is what the character type holds: ASCII and the Latin-1 supplement. On these
  \<open>str.strip\<close>, \<open>str.lower\<close>, \<open>\s\<close>, \<open>\w\<close>, \<open>\d\<close> and \<open>[^a-z]\<close> are as Python has them.
  Strings compare lexicographically by code point, as Python's \<open>sorted\<close> compares \<open>str\<close>
  values.
\<close>

text \<open>
  \<open>str.isspace\<close>, which \<open>str.strip()\<close> and \<open>\s\<close> use: tab to carriage return, the four
  separators, the space, the next-line control and the no-break space.
\<close>

definition is_space :: "char \<Rightarrow> bool" where
  "is_space c \<longleftrightarrow>
     (CHR 0x09 \<le> c \<and> c \<le> CHR 0x0D) \<or> (CHR 0x1C \<le> c \<and> c \<le> CHR 0x1F) \<or> c = CHR '' ''
     \<or> c = CHR 0x85 \<or> c = CHR 0xA0"

text \<open>
  The characters with a lower-case form: \<open>A\<close> to \<open>Z\<close>, and the capital letters of the
  supplement, which are \<open>0xC0\<close> to \<open>0xDE\<close> without the multiplication sign.
\<close>

definition is_upper :: "char \<Rightarrow> bool" where
  "is_upper c \<longleftrightarrow>
     (CHR ''A'' \<le> c \<and> c \<le> CHR ''Z'') \<or> (CHR 0xC0 \<le> c \<and> c \<le> CHR 0xDE \<and> c \<noteq> CHR 0xD7)"

text \<open>The regular-expression classes \<open>[a-z]\<close> and \<open>\d\<close>.\<close>

definition is_lower :: "char \<Rightarrow> bool" where
  "is_lower c \<longleftrightarrow> CHR ''a'' \<le> c \<and> c \<le> CHR ''z''"

definition is_digit :: "char \<Rightarrow> bool" where
  "is_digit c \<longleftrightarrow> CHR ''0'' \<le> c \<and> c \<le> CHR ''9''"

text \<open>
  A letter changes case by bit 5 of its code. Three small letters have a capital that is
  not a character of the type (the micro sign, the sharp s, whose capital is \<open>SS\<close>, and the
  y with diaeresis); \<open>upper_char\<close> leaves them as they are. \<open>str.upper\<close> is used on grades
  only, where the result is looked up in a table of ASCII keys without an \<open>S\<close>, so the
  lookup is as in Python.
\<close>

definition lower_char :: "char \<Rightarrow> char" where
  "lower_char c =
     (if is_upper c
      then (case c of Char b0 b1 b2 b3 b4 b5 b6 b7 \<Rightarrow> Char b0 b1 b2 b3 b4 True b6 b7)
      else c)"

definition has_capital :: "char \<Rightarrow> bool" where
  "has_capital c \<longleftrightarrow>
     (CHR ''a'' \<le> c \<and> c \<le> CHR ''z'') \<or> (CHR 0xE0 \<le> c \<and> c \<le> CHR 0xFE \<and> c \<noteq> CHR 0xF7)"

definition upper_char :: "char \<Rightarrow> char" where
  "upper_char c =
     (if has_capital c
      then (case c of Char b0 b1 b2 b3 b4 b5 b6 b7 \<Rightarrow> Char b0 b1 b2 b3 b4 False b6 b7)
      else c)"

definition lower :: "string \<Rightarrow> string" where
  "lower s = map lower_char s"

definition upper :: "string \<Rightarrow> string" where
  "upper s = map upper_char s"

definition lstrip :: "string \<Rightarrow> string" where
  "lstrip s = dropWhile is_space s"

definition rstrip :: "string \<Rightarrow> string" where
  "rstrip s = rev (dropWhile is_space (rev s))"

definition strip :: "string \<Rightarrow> string" where
  "strip s = rstrip (lstrip s)"

text \<open>\<open>sep.join(xs)\<close>.\<close>

fun join :: "string \<Rightarrow> string list \<Rightarrow> string" where
  "join sep [] = []"
| "join sep [x] = x"
| "join sep (x # y # ys) = x @ sep @ join sep (y # ys)"

section \<open>Tables\<close>

text \<open>
  A cell of a dataframe: \<open>None\<close>, the float \<open>NaN\<close> that pandas puts in a blank cell, a
  string, an integer, a finite float (carried as the rational it denotes) or a date. A
  column label is a string or, under a multi-level header, a tuple of strings. A frame is
  its column labels and its rows in index order, every row holding one cell per column.
\<close>

datatype cell = CNone | CNaN | CStr string | CInt int | CFloat rat | CDate int int int

datatype label = Name string | Tuple "string list"

record frame =
  columns :: "label list"
  rows :: "cell list list"

text \<open>\<open>df.empty\<close>: some axis has length zero.\<close>

definition df_empty :: "frame \<Rightarrow> bool" where
  "df_empty df \<longleftrightarrow> columns df = [] \<or> rows df = []"

section \<open>data\_handler: column resolution\<close>

definition col_to_text :: "label \<Rightarrow> string" where
  "col_to_text col = (case col of Tuple xs \<Rightarrow> join '' '' xs | Name s \<Rightarrow> s)"

text \<open>The local helpers \<open>norm\<close> and \<open>norm_simple\<close> of \<open>pick_first_available_column\<close>.\<close>

definition norm_col :: "string \<Rightarrow> string" where
  "norm_col s = strip (lower s)"

definition norm_simple :: "string \<Rightarrow> string" where
  "norm_simple s = filter is_lower (norm_col s)"

text \<open>\<open>dict.setdefault\<close>: the first value stored under a key stays.\<close>

definition setdefault :: "('k \<rightharpoonup> 'v) \<Rightarrow> 'k \<Rightarrow> 'v \<Rightarrow> ('k \<rightharpoonup> 'v)" where
  "setdefault m k v = (case m k of None \<Rightarrow> m(k \<mapsto> v) | Some _ \<Rightarrow> m)"

definition build_map :: "(string \<Rightarrow> string) \<Rightarrow> label list \<Rightarrow> (string \<rightharpoonup> label)" where
  "build_map f cols = fold (\<lambda>original m. setdefault m (f (col_to_text original)) original) cols Map.empty"

text \<open>One of the two candidate loops: the first candidate whose key is in the map.\<close>

fun first_hit :: "(string \<rightharpoonup> label) \<Rightarrow> (string \<Rightarrow> string) \<Rightarrow> string list \<Rightarrow> label option" where
  "first_hit m f [] = None"
| "first_hit m f (cand # cands) =
     (case m (f cand) of Some original \<Rightarrow> Some original | None \<Rightarrow> first_hit m f cands)"

definition pick_first_available_column :: "frame option \<Rightarrow> string list \<Rightarrow> label option" where
  "pick_first_available_column df candidates =
     (case df of
        None \<Rightarrow> None
      | Some d \<Rightarrow>
          if df_empty d then None
          else (case first_hit (build_map norm_col (columns d)) norm_col candidates of
                  Some original \<Rightarrow> Some original
                | None \<Rightarrow> first_hit (build_map norm_simple (columns d)) norm_simple candidates))"


section \<open>Library functions taken as parameters\<close>

text \<open>
  The program leans on pandas, numpy and the interpreter for a few conversions whose exact
  results are theirs to define. They are parameters of the model, so every theorem holds
  whatever they compute:
  \<^item> \<open>float_str\<close>: \<open>str(x)\<close> of a finite float;
  \<^item> \<open>to_numeric_text\<close>: what \<open>pd.to_numeric(..., errors="coerce")\<close> makes of a string,
    \<open>None\<close> standing for NaN;
  \<^item> \<open>to_datetime\<close>: \<open>pd.to_datetime(s, errors="coerce").date()\<close> of a value that is
    neither missing nor a date: a date, \<open>NaT\<close>, or \<open>None\<close> when the call raises;
  \<^item> \<open>np_mean\<close>: \<open>float(np.mean(vals))\<close> of a non-empty list;
  \<^item> \<open>round2\<close>: \<open>round(x, 2)\<close>.
\<close>

datatype stamp = Stamp int int int | NaT

record pylib =
  float_str :: "rat \<Rightarrow> string"
  to_numeric_text :: "string \<Rightarrow> rat option"
  to_datetime :: "cell \<Rightarrow> stamp option"
  np_mean :: "rat list \<Rightarrow> rat"
  round2 :: "rat \<Rightarrow> rat"

section \<open>Python values\<close>

definition digit_char :: "nat \<Rightarrow> char" where
  "digit_char d = ''0123456789'' ! d"

function show_nat :: "nat \<Rightarrow> string" where
  "show_nat n = (if n < 10 then [digit_char n] else show_nat (n div 10) @ [digit_char (n mod 10)])"
  by pat_completeness auto
termination
  by (relation "measure id") auto

definition show_int :: "int \<Rightarrow> string" where
  "show_int i = (if i < 0 then CHR ''-'' # show_nat (nat (- i)) else show_nat (nat i))"

text \<open>\<open>str(n).zfill(w)\<close> for a natural number.\<close>

definition zfill :: "nat \<Rightarrow> string \<Rightarrow> string" where
  "zfill w s = replicate (w - length s) CHR ''0'' @ s"

text \<open>\<open>str(x)\<close> of a cell; a date prints in ISO form.\<close>

definition py_str :: "pylib \<Rightarrow> cell \<Rightarrow> string" where
  "py_str L c =
     (case c of
        CNone \<Rightarrow> ''None''
      | CNaN \<Rightarrow> ''nan''
      | CStr s \<Rightarrow> s
      | CInt i \<Rightarrow> show_int i
      | CFloat q \<Rightarrow> float_str L q
      | CDate y m d \<Rightarrow>
          zfill 4 (show_int y) @ ''-'' @ zfill 2 (show_int m) @ ''-'' @ zfill 2 (show_int d))"

text \<open>Truth value of a cell in \<open>if x:\<close>. NaN is a non-zero float, hence true.\<close>

definition truthy :: "cell \<Rightarrow> bool" where
  "truthy c =
     (case c of
        CNone \<Rightarrow> False
      | CNaN \<Rightarrow> True
      | CStr s \<Rightarrow> s \<noteq> []
      | CInt i \<Rightarrow> i \<noteq> 0
      | CFloat q \<Rightarrow> q \<noteq> 0
      | CDate y m d \<Rightarrow> True)"

text \<open>\<open>pd.isna\<close> of a scalar cell.\<close>

definition isna :: "cell \<Rightarrow> bool" where
  "isna c \<longleftrightarrow> c = CNone \<or> c = CNaN"

text \<open>One element of \<open>pd.to_numeric(series, errors="coerce")\<close>; \<open>None\<close> is NaN.\<close>

definition to_numeric :: "pylib \<Rightarrow> cell \<Rightarrow> rat option" where
  "to_numeric L c =
     (case c of
        CInt i \<Rightarrow> Some (of_int i)
      | CFloat q \<Rightarrow> Some q
      | CStr s \<Rightarrow> to_numeric_text L s
      | _ \<Rightarrow> None)"

section \<open>data\_handler: values, dates and grades\<close>

text \<open>\<open>_norm\<close>.\<close>

definition norm_cell :: "pylib \<Rightarrow> cell \<Rightarrow> string option" where
  "norm_cell L s =
     (case s of
        CNone \<Rightarrow> None
      | CInt i \<Rightarrow> Some (strip (show_int i))
      | CFloat q \<Rightarrow> Some (strip (float_str L q))
      | CStr t \<Rightarrow> Some (strip t)
      | _ \<Rightarrow> None)"

text \<open>
  \<open>date.weekday()\<close> in the proleptic Gregorian calendar, Monday being 0, and
  \<open>week_of_month\<close>.
\<close>

definition month_offset :: "int \<Rightarrow> int" where
  "month_offset m =
     (if m = 1 then 0 else if m = 2 then 3 else if m = 3 then 2 else if m = 4 then 5
      else if m = 5 then 0 else if m = 6 then 3 else if m = 7 then 5 else if m = 8 then 1
      else if m = 9 then 4 else if m = 10 then 6 else if m = 11 then 2 else 4)"

definition weekday :: "int \<Rightarrow> int \<Rightarrow> int \<Rightarrow> int" where
  "weekday y m d =
     (let y' = (if m < 3 then y - 1 else y)
      in (y' + y' div 4 - y' div 100 + y' div 400 + month_offset m + d + 6) mod 7)"

definition week_of_month :: "int \<Rightarrow> int \<Rightarrow> int \<Rightarrow> int" where
  "week_of_month y m d = (let adjusted_dom = d + weekday y m 1 in (adjusted_dom + 6) div 7)"

definition to_date :: "pylib \<Rightarrow> cell \<Rightarrow> stamp option" where
  "to_date L s =
     (if isna s then None
      else (case s of CDate y m d \<Rightarrow> Some (Stamp y m d) | _ \<Rightarrow> to_datetime L s))"

definition grade_table :: "(string \<times> rat) list" where
  "grade_table =
     [(''A+'', 5), (''A'', 5), (''A-'', 47 / 10),
      (''B+'', 43 / 10), (''B'', 4), (''B-'', 37 / 10),
      (''C+'', 33 / 10), (''C'', 3), (''C-'', 27 / 10),
      (''D+'', 23 / 10), (''D'', 2), (''D-'', 17 / 10),
      (''E'', 1), (''F'', 0)]"

definition letter_grade_to_score :: "pylib \<Rightarrow> cell \<Rightarrow> rat option" where
  "letter_grade_to_score L val =
     (if val = CNone \<or> val = CNaN then None
      else map_of grade_table (upper (strip (py_str L val))))"

definition average_of_grades :: "pylib \<Rightarrow> cell list \<Rightarrow> rat option" where
  "average_of_grades L series =
     (let s_num = map (to_numeric L) series
      in if \<exists>v\<in>set s_num. v \<noteq> None
         then (let vals = List.map_filter id s_num
               in if vals \<noteq> [] then Some (round2 L (np_mean L vals)) else None)
         else (let mapped = map (letter_grade_to_score L) series;
                   mapped = List.map_filter id mapped
               in if mapped \<noteq> [] then Some (round2 L (np_mean L mapped)) else None))"

text \<open>The entries the claim about averages speaks of: the numeric ones and the letter scores.\<close>

definition numeric_entries :: "pylib \<Rightarrow> cell list \<Rightarrow> rat list" where
  "numeric_entries L series = List.map_filter (to_numeric L) series"

definition letter_scores :: "pylib \<Rightarrow> cell list \<Rightarrow> rat list" where
  "letter_scores L series = List.map_filter (letter_grade_to_score L) series"

section \<open>An instance of the library in exact arithmetic\<close>

text \<open>
  For running the model on examples: decimal literals, ISO dates, the exact mean and
  decimal rounding to the nearest hundredth, ties to even.
\<close>

definition digit_val :: "char \<Rightarrow> nat" where
  "digit_val c = length (takeWhile (\<lambda>d. d \<noteq> c) ''0123456789'')"

definition nat_of_digits :: "string \<Rightarrow> nat" where
  "nat_of_digits ds = fold (\<lambda>c n. 10 * n + digit_val c) ds 0"

definition all_digits :: "string \<Rightarrow> bool" where
  "all_digits s \<longleftrightarrow> s \<noteq> [] \<and> list_all is_digit s"

definition exact_unsigned :: "string \<Rightarrow> rat option" where
  "exact_unsigned s =
     (let ip = takeWhile (\<lambda>c. c \<noteq> CHR ''.'') s; rest = dropWhile (\<lambda>c. c \<noteq> CHR ''.'') s
      in if \<not> all_digits ip then None
         else if rest = [] then Some (of_nat (nat_of_digits ip))
         else if all_digits (tl rest)
         then Some (of_nat (nat_of_digits ip) + of_nat (nat_of_digits (tl rest)) / 10 ^ length (tl rest))
         else None)"

definition exact_numeric_text :: "string \<Rightarrow> rat option" where
  "exact_numeric_text s =
     (case strip s of
        [] \<Rightarrow> None
      | c # cs \<Rightarrow> if c = CHR ''-'' then map_option uminus (exact_unsigned cs) else exact_unsigned (c # cs))"

fun frac_digits :: "nat \<Rightarrow> rat \<Rightarrow> string" where
  "frac_digits 0 r = []"
| "frac_digits (Suc k) r =
     (if r = 0 then []
      else digit_char (nat \<lfloor>r * 10\<rfloor>) # frac_digits k (r * 10 - of_int \<lfloor>r * 10\<rfloor>))"

definition exact_float_str :: "rat \<Rightarrow> string" where
  "exact_float_str q =
     (let a = \<bar>q\<bar>; ip = \<lfloor>a\<rfloor>; fr = a - of_int ip
      in (if q < 0 then ''-'' else []) @ show_int ip @ ''.''
         @ (if fr = 0 then ''0'' else frac_digits 17 fr))"

definition exact_to_datetime :: "cell \<Rightarrow> stamp option" where
  "exact_to_datetime c =
     (case c of
        CStr s \<Rightarrow>
          (let t = strip s
           in if length t = 10 \<and> t ! 4 = CHR ''-'' \<and> t ! 7 = CHR ''-''
                 \<and> all_digits (take 4 t) \<and> all_digits (take 2 (drop 5 t))
                 \<and> all_digits (drop 8 t)
              then Some (Stamp (int (nat_of_digits (take 4 t)))
                               (int (nat_of_digits (take 2 (drop 5 t))))
                               (int (nat_of_digits (drop 8 t))))
              else Some NaT)
      | _ \<Rightarrow> Some NaT)"

definition exact_mean :: "rat list \<Rightarrow> rat" where
  "exact_mean xs = sum_list xs / of_nat (length xs)"

definition exact_round2 :: "rat \<Rightarrow> rat" where
  "exact_round2 q =
     (let n = \<lfloor>q * 100\<rfloor>; r = q * 100 - of_int n
      in if r < 1 / 2 then of_int n / 100
         else if 1 / 2 < r then of_int (n + 1) / 100
         else of_int (if even n then n else n + 1) / 100)"

definition exact_lib :: pylib where
  "exact_lib = \<lparr> float_str = exact_float_str, to_numeric_text = exact_numeric_text,
                  to_datetime = exact_to_datetime, np_mean = exact_mean,
                  round2 = exact_round2 \<rparr>"

section \<open>data\_handler: cleaning text\<close>

text \<open>\<open>pattern in text\<close> and \<open>text.startswith(pattern)\<close>.\<close>

fun startswith :: "string \<Rightarrow> string \<Rightarrow> bool" where
  "startswith s [] = True"
| "startswith [] (p # ps) = False"
| "startswith (c # cs) (p # ps) = (c = p \<and> startswith cs ps)"

fun contains :: "string \<Rightarrow> string \<Rightarrow> bool" where
  "contains [] pat = (pat = [])"
| "contains (c # cs) pat = (startswith (c # cs) pat \<or> contains cs pat)"

text \<open>\<open>text.replace(p, "")\<close> for a non-empty \<open>p\<close>: every occurrence, left to right.\<close>

function remove_all :: "string \<Rightarrow> string \<Rightarrow> string" where
  "remove_all p [] = []"
| "remove_all p (c # cs) =
     (if p \<noteq> [] \<and> startswith (c # cs) p then remove_all p (drop (length p) (c # cs))
      else c # remove_all p cs)"
  by pat_completeness auto
termination
  by (relation "measure (\<lambda>(p, s). length s)") (auto simp: neq_Nil_conv)

definition OUTPUT_PREFIXES :: "string list" where
  "OUTPUT_PREFIXES =
     [''Here is a concise summary of Areas to Improve:'',
      ''Here is a summary of Areas to Improve:'',
      ''Based on the raw comments,'',
      ''Here are the areas to improve:'',
      ''Here are the Areas to Improve:'',
      ''Here is the summary of Areas to Improve:'']"

definition clean_output :: "string \<Rightarrow> string" where
  "clean_output text = (if text = [] then [] else strip (fold remove_all OUTPUT_PREFIXES text))"

text \<open>\<open>s.strip(chars)\<close> and \<open>s.split(sep)\<close> for a one-character separator.\<close>

definition strip_chars :: "char list \<Rightarrow> string \<Rightarrow> string" where
  "strip_chars cs s = rev (dropWhile (\<lambda>c. c \<in> set cs) (rev (dropWhile (\<lambda>c. c \<in> set cs) s)))"

fun split_on :: "char \<Rightarrow> string \<Rightarrow> string list" where
  "split_on sep [] = [[]]"
| "split_on sep (c # cs) =
     (if c = sep then [] # split_on sep cs
      else (case split_on sep cs of [] \<Rightarrow> [[c]] | w # ws \<Rightarrow> (c # w) # ws))"

text \<open>\<open>re.sub(r"\s+", " ", text)\<close>.\<close>

fun squeeze_spaces :: "string \<Rightarrow> string" where
  "squeeze_spaces [] = []"
| "squeeze_spaces [c] = [if is_space c then CHR '' '' else c]"
| "squeeze_spaces (c # d # cs) =
     (if is_space c
      then (if is_space d then squeeze_spaces (d # cs) else CHR '' '' # squeeze_spaces (d # cs))
      else c # squeeze_spaces (d # cs))"

definition CHECKLIST_KEYS :: "string list" where
  "CHECKLIST_KEYS =
     [''checked for previous tickets'', ''preference contact method'',
      ''preferred contact method'', ''contact type'', ''ms teams chat integration'',
      ''ms teams integration'', ''short description'', ''configuration item'', ''category'',
      ''computer name documented'', ''error screenshot attached'', ''ticket state'',
      ''work note documentation'', ''additional assistance'', ''call opening followed'',
      ''user validation procedure'', ''display empathy & assurance'',
      ''call holding procedure'', ''professional and positive tone'', ''sufficient probing'',
      ''proper 3 reminder process'', ''bomgar chat messages attached'',
      ''computer name documented/ bomgar chat messages attached'']"

text \<open>
  The regular expressions. \<open>YESNO_SUFFIX\<close> is searched anywhere in the line, ignoring
  case: a colon, blanks, an optional dash on the first six alternatives, blanks, one of the
  words, and a word boundary. \<open>BULLET_LINE\<close> is matched at the start of the line: blanks,
  then digits with a dot or a closing bracket, or one bullet character, then a blank. Of
  the bullet characters the middle dot is \<open>0xB7\<close>; the round bullet is not a character of
  the type. \<open>\w\<close> is a letter, a digit or another numeric character, or the underscore.
\<close>

definition is_word_char :: "char \<Rightarrow> bool" where
  "is_word_char c \<longleftrightarrow>
     (CHR ''A'' \<le> c \<and> c \<le> CHR ''Z'') \<or> (CHR ''a'' \<le> c \<and> c \<le> CHR ''z'')
     \<or> (CHR ''0'' \<le> c \<and> c \<le> CHR ''9'') \<or> c = CHR ''_''
     \<or> c = CHR 0xAA \<or> c = CHR 0xB2 \<or> c = CHR 0xB3 \<or> c = CHR 0xB5 \<or> c = CHR 0xB9
     \<or> c = CHR 0xBA \<or> (CHR 0xBC \<le> c \<and> c \<le> CHR 0xBE)
     \<or> (CHR 0xC0 \<le> c \<and> c \<noteq> CHR 0xD7 \<and> c \<noteq> CHR 0xF7)"

definition word_here :: "string \<Rightarrow> string \<Rightarrow> bool" where
  "word_here w r \<longleftrightarrow>
     length w \<le> length r \<and> lower (take (length w) r) = w
     \<and> (case drop (length w) r of [] \<Rightarrow> True | c # _ \<Rightarrow> \<not> is_word_char c)"

definition yesno_at :: "string \<Rightarrow> bool" where
  "yesno_at rest =
     (let r1 = dropWhile is_space rest;
          r2 = (case r1 of [] \<Rightarrow> r1 | c # cs \<Rightarrow> if c = CHR ''-'' then dropWhile is_space cs else r1)
      in (\<exists>w\<in>set [''yes'', ''no'', ''yes/no'', ''resolved'', ''escalated'', ''closed'']. word_here w r2)
         \<or> word_here ''accurate'' r1)"

fun yesno_suffix_search :: "string \<Rightarrow> bool" where
  "yesno_suffix_search [] = False"
| "yesno_suffix_search (c # cs) = ((c = CHR '':'' \<and> yesno_at cs) \<or> yesno_suffix_search cs)"

definition bullet_line_match :: "string \<Rightarrow> bool" where
  "bullet_line_match line =
     (case dropWhile is_space line of
        [] \<Rightarrow> False
      | c # cs \<Rightarrow>
          if is_digit c
          then (case dropWhile is_digit cs of
                  [] \<Rightarrow> False
                | p # ps \<Rightarrow> (p = CHR ''.'' \<or> p = CHR '')'') \<and> (case ps of [] \<Rightarrow> False | b # _ \<Rightarrow> is_space b))
          else (c = CHR ''-'' \<or> c = CHR ''*'' \<or> c = CHR 0xB7)
               \<and> (case cs of [] \<Rightarrow> False | b # _ \<Rightarrow> is_space b))"

definition is_checklist_line :: "string \<Rightarrow> bool" where
  "is_checklist_line line =
     (let L = lower (strip_chars [CHR 0x22] (strip line))
      in if L = [] then True
         else if startswith L ''observations'' \<or> contains L ''observation/areas for improvement''
         then True
         else if \<exists>k\<in>set CHECKLIST_KEYS. contains L k then True
         else if yesno_suffix_search line then True
         else if bullet_line_match line then True
         else False)"

definition clean_comment :: "string \<Rightarrow> string" where
  "clean_comment raw =
     (let raw = map (\<lambda>c. if c = CHR 0x0D then CHR 0x0A else c) raw;
          lines = map strip (split_on CHR 0x0A raw);
          kept = map (\<lambda>ln. strip (strip_chars [CHR 0x22] ln))
                   (filter (\<lambda>ln. \<not> is_checklist_line ln
                        \<and> \<not> length (strip_chars [CHR '' '', CHR ''-'', CHR ''*'', CHR 0xB7, CHR 0x09, CHR 0x22,
                                                   CHR 0x27] ln) < 3)
                      lines);
          text = join '' '' kept
      in strip (squeeze_spaces text))"

section \<open>groq\_client\<close>

text \<open>
  The hosted service is outside the program. It is a parameter: \<open>models_list n key\<close> is
  what building a client for \<open>key\<close> and listing the models does when it is the \<open>n\<close>-th
  request sent (\<open>None\<close>: it succeeds; \<open>Some msg\<close>: it raises an exception whose text is
  \<open>msg\<close>), and \<open>chat_create n key system prompt\<close> is what the completion request does:
  it raises, or answers with the contents of its choices (an exception raised while the
  answer is read counts as raised). The session state holds the index of the key in use,
  the rate-limit flags (a \<open>defaultdict(bool)\<close>, hence total) and the number of requests
  sent so far. \<open>api_keys\<close> is what \<open>get_api_keys_from_env\<close> returns. The interpreter
  bounds the depth of the call stack: \<open>stack\<close> is the number of nested calls of
  \<open>get_next_groq_client\<close> that the recursion limit leaves room for where the program
  calls it, and the call that passes it raises \<open>RecursionError\<close>.
\<close>

datatype error = ValueError | IndexError | RecursionError

datatype reply = Raised string | Choices "string option list"

record world =
  models_list :: "nat \<Rightarrow> string \<Rightarrow> string option"
  chat_create :: "nat \<Rightarrow> string \<Rightarrow> string \<Rightarrow> string \<Rightarrow> reply"
  stack :: nat

record session =
  groq_key_index :: "nat option"
  groq_key_limits :: "nat \<Rightarrow> bool"
  requests :: nat

definition RATE_LIMIT_PATTERNS :: "string list" where
  "RATE_LIMIT_PATTERNS =
     [''rate limit'', ''quota'', ''limit exceeded'', ''too many requests'', ''429'',
      ''insufficient_quota'']"

definition is_rate_limit_error :: "string \<Rightarrow> bool" where
  "is_rate_limit_error error_msg =
     (if error_msg = [] then False
      else (let error_lower = lower error_msg
            in \<exists>pattern\<in>set RATE_LIMIT_PATTERNS. contains error_lower pattern))"

text \<open>
  The body of each \<open>try\<close> in \<open>get_next_groq_client\<close>: build the client, list the models;
  on an exception, flag the key if the text is a rate-limit text.
\<close>

definition try_key :: "world \<Rightarrow> string list \<Rightarrow> nat \<Rightarrow> session \<Rightarrow> bool \<times> session" where
  "try_key W api_keys i st =
     (case models_list W (requests st) (api_keys ! i) of
        None \<Rightarrow> (True, st\<lparr>requests := requests st + 1\<rparr>)
      | Some e \<Rightarrow>
          (False,
           (if is_rate_limit_error e
            then st\<lparr>groq_key_limits := (groq_key_limits st)(i := True)\<rparr>
            else st)\<lparr>requests := requests st + 1\<rparr>))"

text \<open>The loop \<open>for i in range(1, len(api_keys))\<close>.\<close>

fun try_others :: "world \<Rightarrow> string list \<Rightarrow> nat \<Rightarrow> nat list \<Rightarrow> session \<Rightarrow> nat option \<times> session" where
  "try_others W api_keys current_index [] st = (None, st)"
| "try_others W api_keys current_index (i # is) st =
     (let next_index = (current_index + i) mod length api_keys;
          next_key = api_keys ! next_index
      in if next_key \<noteq> [] \<and> \<not> groq_key_limits st next_index
         then (let (ok, st') = try_key W api_keys next_index st
               in if ok then (Some next_index, st'\<lparr>groq_key_index := Some next_index\<rparr>)
                  else try_others W api_keys current_index is st')
         else try_others W api_keys current_index is st)"

definition reset_limits :: "nat \<Rightarrow> session \<Rightarrow> session" where
  "reset_limits n st =
     st\<lparr>groq_key_limits := fold (\<lambda>i f. f(i := False)) [0..<n] (groq_key_limits st),
        groq_key_index := Some 0\<rparr>"

text \<open>
  \<open>get_next_groq_client\<close>. A client is represented by its API key. One run of the body
  either returns or, after resetting the flags, calls the function again. Nothing in the
  program bounds the number of such calls; the self-call is outside every \<open>try\<close>, so the
  \<open>RecursionError\<close> of the call that passes the recursion limit goes up to the caller.
\<close>

datatype round = Return "error + string option \<times> session" | Again session

definition client_round :: "world \<Rightarrow> string list \<Rightarrow> session \<Rightarrow> round" where
  "client_round W api_keys st =
     (if api_keys = [] then Return (Inr (None, st))
      else
        let current_index = (case groq_key_index st of None \<Rightarrow> 0 | Some i \<Rightarrow> i);
            st1 = st\<lparr>groq_key_index := Some current_index\<rparr>
        in if length api_keys \<le> current_index then Return (Inl IndexError)
           else
             let current_key = api_keys ! current_index;
                 (ok, st2) =
                   (if current_key \<noteq> [] \<and> \<not> groq_key_limits st1 current_index
                    then try_key W api_keys current_index st1
                    else (False, st1))
             in if ok then Return (Inr (Some current_key, st2))
                else
                  (case try_others W api_keys current_index [1..<length api_keys] st2 of
                     (Some i, st3) \<Rightarrow> Return (Inr (Some (api_keys ! i), st3))
                   | (None, st3) \<Rightarrow>
                       if list_all (groq_key_limits st3) [0..<length api_keys]
                       then Again (reset_limits (length api_keys) st3)
                       else Return (Inr (None, st3))))"

fun client_calls :: "nat \<Rightarrow> world \<Rightarrow> string list \<Rightarrow> session \<Rightarrow> error + string option \<times> session" where
  "client_calls 0 W api_keys st = Inl RecursionError"
| "client_calls (Suc depth) W api_keys st =
     (case client_round W api_keys st of
        Return r \<Rightarrow> r
      | Again st' \<Rightarrow> client_calls depth W api_keys st')"

definition get_next_groq_client :: "world \<Rightarrow> string list \<Rightarrow> session \<Rightarrow> error + string option \<times> session" where
  "get_next_groq_client W api_keys st = client_calls (stack W) W api_keys st"

definition DEFAULT_SYSTEM :: string where
  "DEFAULT_SYSTEM =
     ''You are a QA coaching assistant.'' @ [CHR 0x0A]
     @ ''From the raw comments, output only improvement issues.'' @ [CHR 0x0A]
     @ ''- Each issue: a unique, very short phrase or one short sentence.'' @ [CHR 0x0A]
     @ ''- Merge duplicates; avoid filler and repetition.'' @ [CHR 0x0A]
     @ ''- No strengths, no generic advice, no checklists.'' @ [CHR 0x0A]
     @ ''- If no improvements, respond exactly: '' @ [CHR 0x22]
     @ ''Analyst performed well. No improvement as of now.'' @ [CHR 0x22]"

text \<open>\<open>system or (...)\<close>.\<close>

definition system_or_default :: "string option \<Rightarrow> string" where
  "system_or_default system =
     (case system of None \<Rightarrow> DEFAULT_SYSTEM | Some s \<Rightarrow> if s = [] then DEFAULT_SYSTEM else s)"

text \<open>The \<open>except\<close> block of the completion functions.\<close>

definition on_completion_error :: "string \<Rightarrow> session \<Rightarrow> session" where
  "on_completion_error error_msg st =
     (let current_index = (case groq_key_index st of None \<Rightarrow> 0 | Some i \<Rightarrow> i)
      in if is_rate_limit_error error_msg
         then st\<lparr>groq_key_limits := (groq_key_limits st)(current_index := True)\<rparr>
         else st)"

definition groq_chat_completion ::
  "world \<Rightarrow> string list \<Rightarrow> string \<Rightarrow> string option \<Rightarrow> session \<Rightarrow> error + string \<times> session" where
  "groq_chat_completion W api_keys prompt system st =
     (case get_next_groq_client W api_keys st of
        Inl e \<Rightarrow> Inl e
      | Inr (None, st1) \<Rightarrow> Inr ([], st1)
      | Inr (Some client, st1) \<Rightarrow>
          (let sys_msg = system_or_default system;
               st2 = st1\<lparr>requests := requests st1 + 1\<rparr>
           in case chat_create W (requests st1) client sys_msg prompt of
                Choices [] \<Rightarrow> Inr ([], st2)
              | Choices (content # _) \<Rightarrow>
                  Inr (strip (clean_output (case content of None \<Rightarrow> [] | Some raw \<Rightarrow> raw)), st2)
              | Raised error_msg \<Rightarrow> Inr ([], on_completion_error error_msg st2)))"

section \<open>tracker\<close>

text \<open>
  Column labels are taken to be pairwise distinct, as pandas makes them when it reads a
  sheet; \<open>row.get(label)\<close> is the cell under that label, \<open>None\<close> when there is none.
\<close>

definition cell_at :: "frame \<Rightarrow> cell list \<Rightarrow> label \<Rightarrow> cell" where
  "cell_at df row col = (case map_of (zip (columns df) row) col of Some c \<Rightarrow> c | None \<Rightarrow> CNone)"

definition EMPLOYEE_NAME :: "string list" where
  "EMPLOYEE_NAME = [''Employee Name'', ''Analyst Name'', ''Trainee'', ''Analyst'', ''Name'']"

definition TRAINEE_NAME :: "string list" where
  "TRAINEE_NAME = [''Trainee'', ''Trainee Name'', ''Analyst Name'', ''Employee Name'', ''Analyst'']"

definition ANALYST_NAME :: "string list" where
  "ANALYST_NAME = [''Analyst Name'', ''Employee Name'', ''Analyst'']"

definition TEAM_LEAD :: "string list" where
  "TEAM_LEAD = [''Team Lead'', ''Team Leader'', ''TL'', ''Manager'', ''Reporting Manager'']"

definition MANAGER :: "string list" where
  "MANAGER = [''Manager'', ''Reporting Manager'', ''Supervisor'']"

definition QUALITY_ASSESSOR :: "string list" where
  "QUALITY_ASSESSOR =
     [''Assessor'', ''Quality Assessor'', ''QA'', ''Quality Analyst'', ''Analyst Name'', ''Coach'']"

definition WEEK :: "string list" where
  "WEEK = [''Week'', ''Week Number'', ''Week_of_Month'', ''WOM'']"

definition DATE :: "string list" where
  "DATE = [''Date'', ''Assessed On'', ''Created'', ''Assessment Date'']"

definition SN_RATING :: "string list" where
  "SN_RATING = [''Trainee rating'', ''Trainee Rating'', ''Rating'']"

definition MANUAL_GRADE :: "string list" where
  "MANUAL_GRADE = [''Grade'', ''Score'', ''Marks'']"

definition COMMENTS :: "string list" where
  "COMMENTS = [''Comments'', ''Notes'', ''QA Comments'', ''Reviewer Comments'']"

record people_fields =
  name_col :: "label option"
  tl_col :: "label option"
  qa_col :: "label option"
  week_col :: "label option"
  date_col :: "label option"
  sn_rating_col :: "label option"
  manual_grade_col :: "label option"
  comments_col :: "label option"

text \<open>
  \<open>a or b\<close> on two results of \<open>pick_first_available_column\<close>, and \<open>if col:\<close>. A label
  counts as false when it is \<open>None\<close>, the empty string or the empty tuple.
\<close>

definition label_true :: "label option \<Rightarrow> bool" where
  "label_true col =
     (case col of None \<Rightarrow> False | Some (Name s) \<Rightarrow> s \<noteq> [] | Some (Tuple xs) \<Rightarrow> xs \<noteq> [])"

definition py_or :: "label option \<Rightarrow> label option \<Rightarrow> label option" where
  "py_or a b = (if label_true a then a else b)"

definition extract_people_fields :: "frame \<Rightarrow> people_fields" where
  "extract_people_fields df =
     \<lparr> name_col = py_or (pick_first_available_column (Some df) EMPLOYEE_NAME)
                   (py_or (pick_first_available_column (Some df) TRAINEE_NAME)
                          (pick_first_available_column (Some df) ANALYST_NAME)),
       tl_col = py_or (pick_first_available_column (Some df) TEAM_LEAD)
                      (pick_first_available_column (Some df) MANAGER),
       qa_col = pick_first_available_column (Some df) QUALITY_ASSESSOR,
       week_col = pick_first_available_column (Some df) WEEK,
       date_col = pick_first_available_column (Some df) DATE,
       sn_rating_col = pick_first_available_column (Some df) SN_RATING,
       manual_grade_col = pick_first_available_column (Some df) MANUAL_GRADE,
       comments_col = pick_first_available_column (Some df) COMMENTS \<rparr>"

text \<open>
  The week of a cell of the week column: the first run of digits of its text, as a
  number. The comparison with \<open>week_n\<close> is exact.
\<close>

definition first_digits :: "string \<Rightarrow> string" where
  "first_digits s = takeWhile is_digit (dropWhile (\<lambda>c. \<not> is_digit c) s)"

definition week_matches :: "pylib \<Rightarrow> int \<Rightarrow> cell \<Rightarrow> bool" where
  "week_matches L week_n c =
     (let ds = first_digits (py_str L c)
      in ds \<noteq> [] \<and> int (nat_of_digits ds) = week_n)"

text \<open>
  A row's date is in the target week when its month and its week of the month are the
  target's. A missing date compares as NaN, hence false.
\<close>

definition date_matches :: "int \<Rightarrow> int \<Rightarrow> stamp option \<Rightarrow> bool" where
  "date_matches month_n week_n d =
     (case d of Some (Stamp y m dd) \<Rightarrow> m = month_n \<and> week_of_month y m dd = week_n | _ \<Rightarrow> False)"

text \<open>
  \<open>get_week_filter_mask\<close>. \<open>to_date\<close> hands \<open>NaT\<close> through for a value pandas cannot read
  as a date; \<open>NaT\<close> is true in \<open>if d\<close>, its \<open>day\<close> and \<open>weekday()\<close> are NaN, and
  \<open>math.ceil\<close> of NaN raises \<open>ValueError\<close>.
\<close>

definition get_week_filter_mask ::
  "pylib \<Rightarrow> frame option \<Rightarrow> label option \<Rightarrow> label option \<Rightarrow> int \<Rightarrow> int \<Rightarrow> error + bool list" where
  "get_week_filter_mask L df wk_col dt_col month_n week_n =
     (case df of
        None \<Rightarrow> Inr []
      | Some d \<Rightarrow>
          if df_empty d then Inr []
          else if label_true wk_col \<and> the wk_col \<in> set (columns d)
          then Inr (map (\<lambda>row. week_matches L week_n (cell_at d row (the wk_col))) (rows d))
          else if label_true dt_col \<and> the dt_col \<in> set (columns d)
          then (let dates = map (\<lambda>row. to_date L (cell_at d row (the dt_col))) (rows d)
                in if Some NaT \<in> set dates then Inl ValueError
                   else Inr (map (date_matches month_n week_n) dates))
          else Inr (replicate (length (rows d)) True))"

text \<open>
  \<open>df[mask]\<close>. The mask of an empty frame is the empty, non-boolean series, which selects
  no column and leaves the index as it is.
\<close>

definition select_rows :: "frame \<Rightarrow> bool list \<Rightarrow> frame" where
  "select_rows df m_mask =
     (if df_empty df then df
      else df\<lparr>rows := map fst (filter snd (zip (rows df) m_mask))\<rparr>)"

text \<open>
  The employee key function \<open>build_employee_key\<close> is imported from \<open>data_handler\<close>, which
  does not define it. The tracker takes it as the parameter \<open>bek\<close>: a cell to a key, or to
  \<open>None\<close>.
\<close>

text \<open>\<open>df[name_col].dropna().astype(str).map(build_employee_key)\<close>, then \<open>.dropna()\<close>.\<close>

definition name_keys :: "pylib \<Rightarrow> (cell \<Rightarrow> string option) \<Rightarrow> frame \<Rightarrow> label option \<Rightarrow> string list" where
  "name_keys L bek df col =
     (if label_true col
      then List.map_filter
             (\<lambda>row. let c = cell_at df row (the col) in if isna c then None else bek (CStr (py_str L c)))
             (rows df)
      else [])"

record aggregate =
  team_leads :: "string list"
  assessors :: "string list"
  comments :: "string list"
  sn_ratings :: "cell list"
  manual_grades :: "cell list"

definition empty_aggregate :: aggregate where
  "empty_aggregate = \<lparr> team_leads = [], assessors = [], comments = [], sn_ratings = [], manual_grades = [] \<rparr>"

definition get_opt :: "frame \<Rightarrow> cell list \<Rightarrow> label option \<Rightarrow> cell" where
  "get_opt df row col = (if label_true col then cell_at df row (the col) else CNone)"

text \<open>One turn of the loop over \<open>df.iterrows()\<close> in \<open>per_employee\<close>.\<close>

definition per_employee_row ::
  "pylib \<Rightarrow> (cell \<Rightarrow> string option) \<Rightarrow> frame \<Rightarrow> people_fields \<Rightarrow> cell list
     \<Rightarrow> (string \<Rightarrow> aggregate) \<Rightarrow> (string \<Rightarrow> aggregate)" where
  "per_employee_row L bek df cols row d =
     (case bek (cell_at df row (the (name_col cols))) of
        None \<Rightarrow> d
      | Some name \<Rightarrow>
          if name = [] then d
          else
            let tl = get_opt df row (tl_col cols);
                qa = get_opt df row (qa_col cols);
                cm = get_opt df row (comments_col cols);
                sr = get_opt df row (sn_rating_col cols);
                mg = get_opt df row (manual_grade_col cols);
                a = d name
            in d(name :=
                 \<lparr> team_leads = team_leads a @ (if truthy tl then [py_str L tl] else []),
                   assessors = assessors a @ (if truthy qa then [py_str L qa] else []),
                   comments = comments a @ (if truthy cm then [py_str L cm] else []),
                   sn_ratings = sn_ratings a @ (if sr \<noteq> CNone then [sr] else []),
                   manual_grades = manual_grades a @ (if mg \<noteq> CNone then [mg] else []) \<rparr>))"

definition per_employee ::
  "pylib \<Rightarrow> (cell \<Rightarrow> string option) \<Rightarrow> frame \<Rightarrow> people_fields \<Rightarrow> (string \<Rightarrow> aggregate)" where
  "per_employee L bek df cols =
     (if df_empty df \<or> \<not> label_true (name_col cols) then (\<lambda>name. empty_aggregate)
      else fold (per_employee_row L bek df cols) (rows df) (\<lambda>name. empty_aggregate))"

text \<open>
  \<open>Counter(xs).most_common(1)\<close>: the counts in order of first occurrence, and the first
  entry among those with the highest count.
\<close>

definition counter :: "string list \<Rightarrow> (string \<times> nat) list" where
  "counter xs = map (\<lambda>k. (k, count_list xs k)) (rev (remdups (rev xs)))"

fun most_common1 :: "(string \<times> nat) list \<Rightarrow> (string \<times> nat) option" where
  "most_common1 [] = None"
| "most_common1 (p # ps) =
     (case most_common1 ps of
        None \<Rightarrow> Some p
      | Some q \<Rightarrow> if snd p < snd q then Some q else Some p)"

text \<open>The values \<open>_norm(x)\<close> of a list of strings that are not empty.\<close>

definition normed :: "string list \<Rightarrow> string list" where
  "normed xs = filter (\<lambda>s. s \<noteq> []) (map strip xs)"

definition team_lead_final :: "string list \<Rightarrow> string option" where
  "team_lead_final tls =
     (if tls \<noteq> [] then map_option fst (most_common1 (counter (normed tls))) else None)"

definition assessors_final :: "string list \<Rightarrow> string option" where
  "assessors_final as =
     (let joined = join '', '' (sorted_list_of_set (set (normed as)))
      in if joined = [] then None else Some joined)"

text \<open>
  The prompt. The source spells the dash between 2 and 3 as three characters: a with
  circumflex, the euro sign and a left quotation mark. The last two are not characters of
  the type and are written as \<open>0x80\<close> and \<open>0x93\<close>, which like them are neither blank nor
  digit nor letter. The text goes to the service only.
\<close>

definition user_prompt :: "string \<Rightarrow> string" where
  "user_prompt combined =
     ''Raw observations (cleaned): '' @ combined @ [CHR 0x0A]
     @ ''Write only 2'' @ [CHR 0xE2, CHR 0x80, CHR 0x93]
     @ ''3 sentences focusing on specific improvement actions and missed steps. ''
     @ ''Avoid strengths, disclaimers, or generic best practices. ''
     @ ''Do not include personally identifiable customer data.''"

text \<open>The comments that \<open>_norm\<close> does not make empty, each cleaned and trimmed.\<close>

definition cleaned_bits :: "string list \<Rightarrow> string list" where
  "cleaned_bits all_comments =
     map (\<lambda>c. strip (clean_comment c)) (filter (\<lambda>c. strip c \<noteq> []) all_comments)"

definition synthesize_areas_to_improve ::
  "world \<Rightarrow> string list \<Rightarrow> string list \<Rightarrow> string \<Rightarrow> string list \<Rightarrow> session
     \<Rightarrow> error + string \<times> session" where
  "synthesize_areas_to_improve W api_keys all_comments employee_name seed_examples st =
     (if cleaned_bits all_comments = [] then Inr ([], st)
      else groq_chat_completion W api_keys
             (user_prompt (join '' '' (cleaned_bits all_comments))) None st)"

text \<open>\<open>dt.date(1900, month_n, 1).strftime('%b')\<close>; the constructor raises outside 1..12.\<close>

definition month_abbr :: "int \<Rightarrow> error + string" where
  "month_abbr month_n =
     (if 1 \<le> month_n \<and> month_n \<le> 12
      then Inr ([''Jan'', ''Feb'', ''Mar'', ''Apr'', ''May'', ''Jun'', ''Jul'', ''Aug'', ''Sep'',
                 ''Oct'', ''Nov'', ''Dec''] ! nat (month_n - 1))
      else Inl ValueError)"

record tracker_row =
  employee_name :: string
  emp_id :: string
  organization :: string
  team_lead :: string
  status :: string
  quality_assessors :: string
  week :: string
  sn_count :: cell
  sn_avg :: cell
  manual_count :: cell
  manual_avg :: cell
  areas_to_improve :: string

text \<open>
  The body of the loop \<open>for name in all_names\<close>: the values computed from the two
  aggregates and the dictionary \<open>rec\<close> built from them and the synthesized text.
\<close>

definition service_now_ratings :: "pylib \<Rightarrow> aggregate \<Rightarrow> rat list" where
  "service_now_ratings L a = List.map_filter (to_numeric L) (sn_ratings a)"

definition service_now_avg :: "pylib \<Rightarrow> aggregate \<Rightarrow> rat option" where
  "service_now_avg L a =
     (if service_now_ratings L a \<noteq> [] then Some (round2 L (np_mean L (service_now_ratings L a)))
      else None)"

definition manual_average :: "pylib \<Rightarrow> aggregate \<Rightarrow> rat option" where
  "manual_average L a =
     (let manual_cnt = (if manual_grades a \<noteq> [] then length (manual_grades a) else 0)
      in if manual_cnt \<noteq> 0 then average_of_grades L (manual_grades a) else None)"

definition make_rec ::
  "pylib \<Rightarrow> string \<Rightarrow> int \<Rightarrow> aggregate \<Rightarrow> aggregate \<Rightarrow> string \<Rightarrow> string \<Rightarrow> tracker_row" where
  "make_rec L mon week_n am as name areas_text =
     \<lparr> employee_name = name, emp_id = [], organization = [],
       team_lead = (case team_lead_final (team_leads am @ team_leads as) of None \<Rightarrow> [] | Some t \<Rightarrow> t),
       status = [],
       quality_assessors =
         (case assessors_final (assessors am @ assessors as) of None \<Rightarrow> [] | Some a \<Rightarrow> a),
       week = mon @ '' - Week '' @ show_int week_n,
       sn_count = (if length (service_now_ratings L as) \<noteq> 0
                   then CInt (int (length (service_now_ratings L as))) else CStr []),
       sn_avg = (case service_now_avg L as of Some q \<Rightarrow> CFloat q | None \<Rightarrow> CStr []),
       manual_count = (if length (manual_grades am) \<noteq> 0
                       then CInt (int (length (manual_grades am))) else CStr []),
       manual_avg = (case manual_average L am of Some q \<Rightarrow> CFloat q | None \<Rightarrow> CStr []),
       areas_to_improve = areas_text \<rparr>"

definition tracker_record ::
  "pylib \<Rightarrow> world \<Rightarrow> string list \<Rightarrow> int \<Rightarrow> int \<Rightarrow> string list
     \<Rightarrow> (string \<Rightarrow> aggregate) \<Rightarrow> (string \<Rightarrow> aggregate) \<Rightarrow> string \<Rightarrow> session
     \<Rightarrow> error + tracker_row \<times> session" where
  "tracker_record L W api_keys month_n week_n seed_examples agg_manual agg_sn name st =
     (case synthesize_areas_to_improve W api_keys
             (comments (agg_manual name) @ comments (agg_sn name)) name seed_examples st of
        Inl e \<Rightarrow> Inl e
      | Inr (areas_text, st') \<Rightarrow>
          (case month_abbr month_n of
             Inl e \<Rightarrow> Inl e
           | Inr mon \<Rightarrow>
               Inr (make_rec L mon week_n (agg_manual name) (agg_sn name) name areas_text, st')))"

fun tracker_records ::
  "pylib \<Rightarrow> world \<Rightarrow> string list \<Rightarrow> int \<Rightarrow> int \<Rightarrow> string list
     \<Rightarrow> (string \<Rightarrow> aggregate) \<Rightarrow> (string \<Rightarrow> aggregate) \<Rightarrow> string list \<Rightarrow> session
     \<Rightarrow> error + tracker_row list \<times> session" where
  "tracker_records L W api_keys month_n week_n seed agg_manual agg_sn [] st = Inr ([], st)"
| "tracker_records L W api_keys month_n week_n seed agg_manual agg_sn (name # names) st =
     (case tracker_record L W api_keys month_n week_n seed agg_manual agg_sn name st of
        Inl e \<Rightarrow> Inl e
      | Inr (rec, st') \<Rightarrow>
          (case tracker_records L W api_keys month_n week_n seed agg_manual agg_sn names st' of
             Inl e \<Rightarrow> Inl e
           | Inr (recs, st'') \<Rightarrow> Inr (rec # recs, st'')))"

definition col_order :: "string list" where
  "col_order =
     [''Employee Name'', ''Emp ID'', ''Organization'', ''Team Lead'', ''Status'',
      ''Quality Assessors'', ''Week'', ''Service Now Assessments Count'',
      ''Service Now Assessments Average Rating'', ''Manual Assessments Count'',
      ''Manual Assessments Average Rating'', ''Areas to Improve'']"

text \<open>\<open>pd.DataFrame.from_records(records).reindex(columns=col_order)\<close>.\<close>

definition record_cells :: "tracker_row \<Rightarrow> cell list" where
  "record_cells r =
     [CStr (employee_name r), CStr (emp_id r), CStr (organization r), CStr (team_lead r),
      CStr (status r), CStr (quality_assessors r), CStr (week r), sn_count r, sn_avg r,
      manual_count r, manual_avg r, CStr (areas_to_improve r)]"

definition tracker_frame :: "tracker_row list \<Rightarrow> frame" where
  "tracker_frame records = \<lparr> columns = map Name col_order, rows = map record_cells records \<rparr>"

text \<open>
  The two tables after the week filter, the sorted employee keys, and \<open>generate_tracker\<close>
  itself. Its result is \<open>Inl\<close> an exception that leaves it, \<open>Inr\<close> the returned dataframe
  with the session state.
\<close>

definition filtered :: "pylib \<Rightarrow> frame \<Rightarrow> int \<Rightarrow> int \<Rightarrow> error + frame" where
  "filtered L df month_n week_n =
     (let cols = extract_people_fields df
      in case get_week_filter_mask L (Some df) (week_col cols) (date_col cols) month_n week_n of
           Inl e \<Rightarrow> Inl e
         | Inr m_mask \<Rightarrow> Inr (if length (rows df) \<noteq> 0 then select_rows df m_mask else df))"

definition all_names ::
  "pylib \<Rightarrow> (cell \<Rightarrow> string option) \<Rightarrow> frame \<Rightarrow> people_fields \<Rightarrow> frame \<Rightarrow> people_fields \<Rightarrow> string list" where
  "all_names L bek mdf m_cols sdf s_cols =
     sorted_list_of_set (set (name_keys L bek mdf (name_col m_cols))
                         \<union> set (name_keys L bek sdf (name_col s_cols)))"

definition generate_records ::
  "pylib \<Rightarrow> (cell \<Rightarrow> string option) \<Rightarrow> world \<Rightarrow> string list \<Rightarrow> frame \<Rightarrow> frame \<Rightarrow> int \<Rightarrow> int
     \<Rightarrow> string list \<Rightarrow> session \<Rightarrow> error + tracker_row list \<times> session" where
  "generate_records L bek W api_keys manual_df sn_df month_n week_n seed_examples st =
     (let m_cols = extract_people_fields manual_df;
          s_cols = extract_people_fields sn_df
      in case filtered L manual_df month_n week_n of
           Inl e \<Rightarrow> Inl e
         | Inr mdf \<Rightarrow>
             (case filtered L sn_df month_n week_n of
                Inl e \<Rightarrow> Inl e
              | Inr sdf \<Rightarrow>
                  tracker_records L W api_keys month_n week_n seed_examples
                    (per_employee L bek mdf m_cols) (per_employee L bek sdf s_cols)
                    (all_names L bek mdf m_cols sdf s_cols) st))"

definition generate_tracker ::
  "pylib \<Rightarrow> (cell \<Rightarrow> string option) \<Rightarrow> world \<Rightarrow> string list \<Rightarrow> frame \<Rightarrow> frame \<Rightarrow> int \<Rightarrow> int
     \<Rightarrow> string list \<Rightarrow> session \<Rightarrow> error + frame \<times> session" where
  "generate_tracker L bek W api_keys manual_df sn_df month_n week_n seed_examples st =
     (case generate_records L bek W api_keys manual_df sn_df month_n week_n seed_examples st of
        Inl e \<Rightarrow> Inl e
      | Inr (records, st') \<Rightarrow> Inr (tracker_frame records, st'))"

section \<open>The employee key\<close>

text \<open>
  Modelled from the spec: \<open>build_employee_key\<close> is imported by \<open>tracker.py\<close> from
  \<open>data_handler.py\<close>, which does not define it. The spec says that employee identity keys
  are case- and whitespace-normalized for matching across sources: the key of a name is
  the name trimmed and in lower case, the empty string when there is no name.
\<close>

definition build_employee_key :: "pylib \<Rightarrow> cell \<Rightarrow> string option" where
  "build_employee_key L name = Some (case norm_cell L name of None \<Rightarrow> [] | Some s \<Rightarrow> lower s)"

section \<open>Completions that return\<close>

text \<open>
  The text completions return: from every session state that satisfies \<open>I\<close>,
  \<open>groq_chat_completion\<close> returns a text and a state that satisfies \<open>I\<close> again.
\<close>

definition llm_returns :: "world \<Rightarrow> string list \<Rightarrow> (session \<Rightarrow> bool) \<Rightarrow> bool" where
  "llm_returns W api_keys I \<longleftrightarrow>
     (\<forall>prompt st. I st \<longrightarrow>
        (\<exists>t st'. groq_chat_completion W api_keys prompt None st = Inr (t, st') \<and> I st'))"

section \<open>Example inputs\<close>

definition people_frame :: frame where
  "people_frame =
     \<lparr> columns = [Name ''Analyst'', Name '' team lead'', Name ''Team-Lead'', Name ''Employee_Name''],
       rows = [[CStr ''Bob'', CStr ''Alice'', CStr ''Carol'', CStr ''Bob B.'']] \<rparr>"

text \<open>
  A fresh session, three keys, and three services: one that answers, one whose completion
  requests fail, and one that turns every request down for its rate limit.
\<close>

definition fresh :: session where
  "fresh = \<lparr> groq_key_index = None, groq_key_limits = (\<lambda>i. False), requests = 0 \<rparr>"

definition three_keys :: "string list" where
  "three_keys = [''gsk_a'', ''gsk_b'', ''gsk_c'']"

definition answering :: world where
  "answering = \<lparr> models_list = (\<lambda>n key. None),
                  chat_create = (\<lambda>n key system prompt. Choices [Some '' Verify the user first. '']),
                  stack = 900 \<rparr>"

definition failing :: world where
  "failing = \<lparr> models_list = (\<lambda>n key. None),
                chat_create = (\<lambda>n key system prompt. Raised ''Connection error.''),
                stack = 900 \<rparr>"

definition throttled :: world where
  "throttled = \<lparr> models_list = (\<lambda>n key. if key = ''gsk_b'' then Some ''Error code: 429'' else None),
                  chat_create = (\<lambda>n key system prompt. Raised ''Rate limit reached for model''),
                  stack = 900 \<rparr>"


text \<open>A session on its third key, with the third and the first key flagged.\<close>

definition worn :: session where
  "worn = \<lparr> groq_key_index = Some 2, groq_key_limits = (\<lambda>i. i = 2 \<or> i = 0), requests = 5 \<rparr>"

text \<open>
  Two sheets for March, week 2. In the manual sheet Bob is written in two ways, Carol's
  team-lead cell is blank and Dave was assessed in week 3. In the ticketing export the
  dates are dates or ISO text, one rating is not a number and one assessment is of week 4.
\<close>

definition manual_sheet :: frame where
  "manual_sheet =
     \<lparr> columns = [Name ''Employee Name'', Name ''Team Lead'', Name ''Assessor'', Name ''Week'',
                  Name ''Grade'', Name ''Comments''],
       rows = [[CStr ''Bob '', CStr ''Alice'', CStr ''Quinn'', CInt 2, CStr ''A'',
                CStr ''Did not verify the user.''],
               [CStr ''bob'', CStr ''Alice'', CStr ''Rae'', CStr ''Week 2'', CInt 4,
                CStr ''Escalated late.''],
               [CStr ''Carol'', CNaN, CStr ''Quinn'', CInt 2, CStr ''B+'',
                CStr ''Ticket notes were incomplete.''],
               [CStr ''Dave'', CStr ''Alice'', CStr ''Quinn'', CInt 3, CStr ''C'',
                CStr ''Late follow-up.'']] \<rparr>"

definition sn_sheet :: frame where
  "sn_sheet =
     \<lparr> columns = [Name ''Analyst Name'', Name ''Manager'', Name ''QA'', Name ''Date'',
                  Name ''Trainee rating'', Name ''Notes''],
       rows = [[CStr ''BOB'', CStr ''Alice'', CStr ''Quinn'', CDate 2024 3 5, CStr ''4.5'',
                CStr ''Probing was thin.''],
               [CStr ''Carol '', CStr ''Zed'', CStr ''Rae'', CDate 2024 3 6, CInt 4,
                CStr ''Hold time was long.''],
               [CStr ''Bob'', CStr ''Alice'', CStr ''Quinn'', CDate 2024 3 20, CInt 5,
                CStr ''Good call.''],
               [CStr ''Erin'', CStr ''Zed'', CStr ''Rae'', CStr ''2024-03-07'', CStr ''n/a'',
                CStr ''Summary was missing.'']] \<rparr>"

text \<open>A frame with an index of length one and no column.\<close>

definition hollow_frame :: frame where
  "hollow_frame = \<lparr> columns = [], rows = [[]] \<rparr>"

text \<open>What the week filter keeps of the two sheets.\<close>

definition manual_week2 :: frame where
  "manual_week2 = manual_sheet\<lparr>rows := take 3 (rows manual_sheet)\<rparr>"

definition sn_week2 :: frame where
  "sn_week2 = sn_sheet\<lparr>rows := [rows sn_sheet ! 0, rows sn_sheet ! 1, rows sn_sheet ! 3]\<rparr>"

text \<open>The aggregates of the two sheets for that week, by employee key.\<close>

definition manual_aggregates :: "string \<Rightarrow> aggregate" where
  "manual_aggregates =
     (\<lambda>name. empty_aggregate)
       (''bob'' := \<lparr> team_leads = [''Alice'', ''Alice''], assessors = [''Quinn'', ''Rae''],
                     comments = [''Did not verify the user.'', ''Escalated late.''],
                     sn_ratings = [], manual_grades = [CStr ''A'', CInt 4] \<rparr>,
        ''carol'' := \<lparr> team_leads = [''nan''], assessors = [''Quinn''],
                       comments = [''Ticket notes were incomplete.''],
                       sn_ratings = [], manual_grades = [CStr ''B+''] \<rparr>)"

definition sn_aggregates :: "string \<Rightarrow> aggregate" where
  "sn_aggregates =
     (\<lambda>name. empty_aggregate)
       (''bob'' := \<lparr> team_leads = [''Alice''], assessors = [''Quinn''],
                     comments = [''Probing was thin.''],
                     sn_ratings = [CStr ''4.5''], manual_grades = [] \<rparr>,
        ''carol'' := \<lparr> team_leads = [''Zed''], assessors = [''Rae''],
                       comments = [''Hold time was long.''],
                       sn_ratings = [CInt 4], manual_grades = [] \<rparr>,
        ''erin'' := \<lparr> team_leads = [''Zed''], assessors = [''Rae''],
                      comments = [''Summary was missing.''],
                      sn_ratings = [CStr ''n/a''], manual_grades = [] \<rparr>)"

text \<open>
  The sessions in which the answering service keeps answering: the first key is the
  current one, or none is yet, and it is not flagged.
\<close>

definition steady :: "session \<Rightarrow> bool" where
  "steady st \<longleftrightarrow> (groq_key_index st = None \<or> groq_key_index st = Some 0) \<and> \<not> groq_key_limits st 0"

text \<open>The three rows of the tracker of the two sheets.\<close>

definition bob_row :: tracker_row where
  "bob_row = \<lparr> employee_name = ''bob'', emp_id = [], organization = [], team_lead = ''Alice'',
      status = [], quality_assessors = ''Quinn, Rae'', week = ''Mar - Week 2'',
      sn_count = CInt 1, sn_avg = CFloat (9 / 2), manual_count = CInt 2, manual_avg = CFloat 4,
      areas_to_improve = ''Verify the user first.'' \<rparr>"

definition carol_row :: tracker_row where
  "carol_row = \<lparr> employee_name = ''carol'', emp_id = [], organization = [], team_lead = ''nan'',
      status = [], quality_assessors = ''Quinn, Rae'', week = ''Mar - Week 2'',
      sn_count = CInt 1, sn_avg = CFloat 4, manual_count = CInt 1, manual_avg = CFloat (43 / 10),
      areas_to_improve = ''Verify the user first.'' \<rparr>"

definition erin_row :: tracker_row where
  "erin_row = \<lparr> employee_name = ''erin'', emp_id = [], organization = [], team_lead = ''Zed'',
      status = [], quality_assessors = ''Rae'', week = ''Mar - Week 2'',
      sn_count = CStr [], sn_avg = CStr [], manual_count = CStr [], manual_avg = CStr [],
      areas_to_improve = ''Verify the user first.'' \<rparr>"

text \<open>
  Small sheets: a frame with no column and no row; a manual sheet whose week column has a
  header that no candidate matches; a sheet with a week and a date column whose row is of
  week 2 and dated in February; a ticketing export with a manager and a rating; a sheet
  with blank team-lead and assessor cells; a sheet of names only.
\<close>

definition no_frame :: frame where
  "no_frame = \<lparr> columns = [], rows = [] \<rparr>"

definition wk_sheet :: frame where
  "wk_sheet = \<lparr> columns = [Name ''Employee Name'', Name ''Wk'', Name ''Grade''],
                 rows = [[CStr ''Bob'', CInt 3, CStr ''A'']] \<rparr>"

definition lead_export :: frame where
  "lead_export = \<lparr> columns = [Name ''Employee Name'', Name ''Manager'', Name ''Rating''],
                    rows = [[CStr ''bob'', CStr ''Alice'', CInt 4]] \<rparr>"

definition blank_lead_sheet :: frame where
  "blank_lead_sheet = \<lparr> columns = [Name ''Employee Name'', Name ''Team Lead'', Name ''Assessor''],
                         rows = [[CStr ''Carol'', CNaN, CNaN]] \<rparr>"

definition dated_sheet :: frame where
  "dated_sheet = \<lparr> columns = [Name ''Employee Name'', Name ''Week'', Name ''Date''],
                    rows = [[CStr ''Bob'', CInt 2, CDate 2024 2 6]] \<rparr>"

definition name_sheet :: frame where
  "name_sheet = \<lparr> columns = [Name ''Employee Name''], rows = [[CStr ''Bob'']] \<rparr>"

text \<open>No column resolved, and a tracker row with a name and a week only.\<close>

definition no_fields :: people_fields where
  "no_fields = \<lparr> name_col = None, tl_col = None, qa_col = None, week_col = None, date_col = None,
       sn_rating_col = None, manual_grade_col = None, comments_col = None \<rparr>"

definition blank_row :: "string \<Rightarrow> tracker_row" where
  "blank_row name = \<lparr> employee_name = name, emp_id = [], organization = [], team_lead = [],
      status = [], quality_assessors = [], week = ''Mar - Week 2'',
      sn_count = CStr [], sn_avg = CStr [], manual_count = CStr [], manual_avg = CStr [],
      areas_to_improve = [] \<rparr>"

section \<open>Column resolution: properties\<close>

lemma fold_setdefault:
  "fold (\<lambda>original m. setdefault m (g original) original) cols m0 k =
     (case m0 k of Some v \<Rightarrow> Some v | None \<Rightarrow> find (\<lambda>c. g c = k) cols)"
proof (induction cols arbitrary: m0)
  case Nil
  then show ?case by (simp split: option.splits)
next
  case (Cons c cols)
  then show ?case by (auto simp: setdefault_def split: option.splits)
qed

lemma build_map_find: "build_map f cols k = find (\<lambda>c. f (col_to_text c) = k) cols"
  by (simp add: build_map_def fold_setdefault)

lemma first_hit_find:
  "first_hit (build_map f cols) f cands =
     (case find (\<lambda>cand. \<exists>c\<in>set cols. f (col_to_text c) = f cand) cands of
        Some cand \<Rightarrow> find (\<lambda>c. f (col_to_text c) = f cand) cols
      | None \<Rightarrow> None)"
proof (induction cands)
  case Nil
  then show ?case by simp
next
  case (Cons cand cands)
  show ?case
  proof (cases "find (\<lambda>c. f (col_to_text c) = f cand) cols")
    case None
    then have "\<not> (\<exists>c\<in>set cols. f (col_to_text c) = f cand)"
      by (simp add: find_None_iff)
    with None Cons show ?thesis by (simp add: build_map_find)
  next
    case (Some c)
    then have "\<exists>c\<in>set cols. f (col_to_text c) = f cand"
      by (auto simp: find_Some_iff)
    with Some show ?thesis by (simp add: build_map_find)
  qed
qed

lemma first_hit_in_columns:
  "first_hit (build_map f cols) f cands = Some c \<Longrightarrow> c \<in> set cols"
  by (induction cands) (auto simp: build_map_find find_Some_iff split: option.splits)


section \<open>Claim C7: resolving a column\<close>

text \<open>
  C7. \<open>pick_first_available_column\<close> returns \<open>None\<close> on a \<open>None\<close> or empty dataframe.
  Otherwise it takes the first candidate, in candidate-list order, that equals some column
  name after lower-casing and trimming both, and returns the first column that matches
  this candidate; only if no candidate matches that way does it do the same with all
  characters but the letters a-z removed. What it returns is a column of the dataframe,
  or \<open>None\<close>.
\<close>

theorem pick_first_available_column_spec:
  "pick_first_available_column None cands = None
   \<and> (df_empty d \<longrightarrow> pick_first_available_column (Some d) cands = None)
   \<and> (\<not> df_empty d \<longrightarrow>
        pick_first_available_column (Some d) cands =
          (case find (\<lambda>cand. \<exists>c\<in>set (columns d). norm_col (col_to_text c) = norm_col cand) cands of
             Some cand \<Rightarrow> find (\<lambda>c. norm_col (col_to_text c) = norm_col cand) (columns d)
           | None \<Rightarrow>
               (case find (\<lambda>cand. \<exists>c\<in>set (columns d).
                                norm_simple (col_to_text c) = norm_simple cand) cands of
                  Some cand \<Rightarrow> find (\<lambda>c. norm_simple (col_to_text c) = norm_simple cand) (columns d)
                | None \<Rightarrow> None)))
   \<and> (\<forall>c. pick_first_available_column (Some d) cands = Some c \<longrightarrow> c \<in> set (columns d))"
proof -
  let ?lower = "find (\<lambda>cand. \<exists>c\<in>set (columns d). norm_col (col_to_text c) = norm_col cand) cands"
  have none: "pick_first_available_column None cands = None"
    by (simp add: pick_first_available_column_def)
  have empty: "df_empty d \<longrightarrow> pick_first_available_column (Some d) cands = None"
    by (simp add: pick_first_available_column_def)
  have order: "pick_first_available_column (Some d) cands =
          (case ?lower of
             Some cand \<Rightarrow> find (\<lambda>c. norm_col (col_to_text c) = norm_col cand) (columns d)
           | None \<Rightarrow>
               (case find (\<lambda>cand. \<exists>c\<in>set (columns d).
                                norm_simple (col_to_text c) = norm_simple cand) cands of
                  Some cand \<Rightarrow> find (\<lambda>c. norm_simple (col_to_text c) = norm_simple cand) (columns d)
                | None \<Rightarrow> None))" if ne: "\<not> df_empty d"
  proof (cases ?lower)
    case None
    with ne show ?thesis
      by (simp add: pick_first_available_column_def first_hit_find)
  next
    case (Some cand)
    then obtain c where "c \<in> set (columns d)" "norm_col (col_to_text c) = norm_col cand"
      by (auto simp: find_Some_iff)
    then have "find (\<lambda>c. norm_col (col_to_text c) = norm_col cand) (columns d) \<noteq> None"
      by (auto simp: find_None_iff)
    with ne Some show ?thesis
      by (auto simp: pick_first_available_column_def first_hit_find)
  qed
  have member: "\<forall>c. pick_first_available_column (Some d) cands = Some c \<longrightarrow> c \<in> set (columns d)"
    by (auto simp: pick_first_available_column_def dest: first_hit_in_columns
        split: if_splits option.splits)
  from none empty order member show ?thesis by blast
qed

theorem pick_first_available_column_spec_witness:
  "pick_first_available_column (Some people_frame) [''Team Leader'', ''Team Lead'', ''TL'']
     = Some (Name '' team lead'')
   \<and> pick_first_available_column (Some people_frame) [''Employee Name'', ''Analyst'']
     = Some (Name ''Analyst'')
   \<and> pick_first_available_column (Some people_frame) [''Employee Name'', ''Trainee'']
     = Some (Name ''Employee_Name'')
   \<and> pick_first_available_column (Some people_frame) [''Week''] = None
   \<and> Name '' team lead'' \<in> set (columns people_frame)
   \<and> pick_first_available_column (Some (people_frame\<lparr>rows := []\<rparr>)) [''Team Lead''] = None"
  using pick_first_available_column_spec [of "[''Team Leader'', ''Team Lead'', ''TL'']" people_frame]
  by (simp add: people_frame_def pick_first_available_column_def df_empty_def build_map_def
      setdefault_def col_to_text_def norm_col_def norm_simple_def strip_def lstrip_def
      rstrip_def lower_def lower_char_def is_upper_def is_lower_def is_space_def)

section \<open>Claim C10: numeric entries first, letter grades otherwise\<close>

lemma map_filter_id_map: "List.map_filter id (map f xs) = List.map_filter f xs"
  by (induction xs) (simp_all add: List.map_filter_simps split: option.splits)

lemma map_filter_eq_Nil_iff: "List.map_filter f xs = [] \<longleftrightarrow> (\<forall>x\<in>set xs. f x = None)"
  by (induction xs) (auto simp: List.map_filter_simps split: option.splits)

lemma map_filter_filter_Some:
  "List.map_filter f (filter (\<lambda>x. f x \<noteq> None) xs) = List.map_filter f xs"
  by (induction xs) (auto simp: List.map_filter_simps split: option.splits)

lemma average_of_grades_eq:
  "average_of_grades L series =
     (if numeric_entries L series \<noteq> [] then Some (round2 L (np_mean L (numeric_entries L series)))
      else if letter_scores L series \<noteq> [] then Some (round2 L (np_mean L (letter_scores L series)))
      else None)"
proof -
  have "(\<exists>v\<in>set (map (to_numeric L) series). v \<noteq> None) \<longleftrightarrow> numeric_entries L series \<noteq> []"
    by (auto simp: numeric_entries_def map_filter_eq_Nil_iff)
  then show ?thesis
    by (simp add: average_of_grades_def Let_def map_filter_id_map numeric_entries_def
        letter_scores_def)
qed

text \<open>
  C10. If at least one entry of the series is numeric, \<open>average_of_grades\<close> is the rounded
  mean of the numeric entries alone, and the same as on the series with every non-numeric
  entry (so every letter grade) taken out. Letter grades are averaged only when no entry
  is numeric, and a series with neither gives \<open>None\<close>.
\<close>

theorem average_of_grades_numeric_first:
  "(numeric_entries L series \<noteq> [] \<longrightarrow>
      average_of_grades L series = Some (round2 L (np_mean L (numeric_entries L series)))
      \<and> average_of_grades L (filter (\<lambda>c. to_numeric L c \<noteq> None) series)
          = average_of_grades L series)
   \<and> (numeric_entries L series = [] \<and> letter_scores L series \<noteq> [] \<longrightarrow>
      average_of_grades L series = Some (round2 L (np_mean L (letter_scores L series))))
   \<and> (numeric_entries L series = [] \<and> letter_scores L series = [] \<longrightarrow>
      average_of_grades L series = None)"
proof -
  have "numeric_entries L (filter (\<lambda>c. to_numeric L c \<noteq> None) series) = numeric_entries L series"
    by (simp only: numeric_entries_def map_filter_filter_Some)
  then show ?thesis
    by (simp add: average_of_grades_eq)
qed


theorem average_of_grades_numeric_first_witness:
  "numeric_entries exact_lib [CStr ''A'', CInt 4, CFloat (9 / 2), CNaN] = [4, 9 / 2]
   \<and> average_of_grades exact_lib [CStr ''A'', CInt 4, CFloat (9 / 2), CNaN] = Some (17 / 4)
   \<and> average_of_grades exact_lib [CInt 4, CFloat (9 / 2)] = Some (17 / 4)
   \<and> numeric_entries exact_lib [CStr ''a+'', CNaN, CStr '' B ''] = []
   \<and> letter_scores exact_lib [CStr ''a+'', CNaN, CStr '' B ''] = [5, 4]
   \<and> average_of_grades exact_lib [CStr ''a+'', CNaN, CStr '' B ''] = Some (9 / 2)
   \<and> average_of_grades exact_lib [CNaN, CStr ''n/a''] = None"
proof -
  have n1: "numeric_entries exact_lib [CStr ''A'', CInt 4, CFloat (9 / 2), CNaN] = [4, 9 / 2]"
    by (simp add: numeric_entries_def List.map_filter_simps to_numeric_def exact_lib_def
        exact_numeric_text_def exact_unsigned_def all_digits_def is_digit_def strip_def
        lstrip_def rstrip_def is_space_def)
  have n2: "numeric_entries exact_lib [CStr ''a+'', CNaN, CStr '' B ''] = []"
    by (simp add: numeric_entries_def List.map_filter_simps to_numeric_def exact_lib_def
        exact_numeric_text_def exact_unsigned_def all_digits_def is_digit_def strip_def
        lstrip_def rstrip_def is_space_def)
  have l2: "letter_scores exact_lib [CStr ''a+'', CNaN, CStr '' B ''] = [5, 4]"
    by (simp add: letter_scores_def List.map_filter_simps letter_grade_to_score_def
        grade_table_def py_str_def upper_def upper_char_def has_capital_def is_lower_def strip_def
        lstrip_def rstrip_def is_space_def)
  have n3: "numeric_entries exact_lib [CNaN, CStr ''n/a''] = []"
    by (simp add: numeric_entries_def List.map_filter_simps to_numeric_def exact_lib_def
        exact_numeric_text_def exact_unsigned_def all_digits_def is_digit_def strip_def
        lstrip_def rstrip_def is_space_def)
  have l3: "letter_scores exact_lib [CNaN, CStr ''n/a''] = []"
    by (simp add: letter_scores_def List.map_filter_simps letter_grade_to_score_def
        grade_table_def py_str_def upper_def upper_char_def has_capital_def is_lower_def strip_def
        lstrip_def rstrip_def is_space_def)
  have r1: "round2 exact_lib (np_mean exact_lib [4, 9 / 2]) = 17 / 4"
    by (simp add: exact_lib_def exact_mean_def exact_round2_def Let_def)
  have r2: "round2 exact_lib (np_mean exact_lib [5, 4]) = 9 / 2"
    by (simp add: exact_lib_def exact_mean_def exact_round2_def Let_def)
  have t: "to_numeric exact_lib (CStr ''A'') = None" "to_numeric exact_lib (CInt 4) = Some 4"
    "to_numeric exact_lib (CFloat (9 / 2)) = Some (9 / 2)" "to_numeric exact_lib CNaN = None"
    by (simp_all add: to_numeric_def exact_lib_def exact_numeric_text_def exact_unsigned_def
        all_digits_def is_digit_def strip_def lstrip_def rstrip_def is_space_def)
  have f1: "filter (\<lambda>c. to_numeric exact_lib c \<noteq> None) [CStr ''A'', CInt 4, CFloat (9 / 2), CNaN]
              = [CInt 4, CFloat (9 / 2)]"
    by (simp only: filter.simps t) simp
  have a: "average_of_grades exact_lib [CStr ''A'', CInt 4, CFloat (9 / 2), CNaN] = Some (17 / 4)
      \<and> average_of_grades exact_lib [CInt 4, CFloat (9 / 2)]
          = average_of_grades exact_lib [CStr ''A'', CInt 4, CFloat (9 / 2), CNaN]"
    using average_of_grades_numeric_first [of exact_lib "[CStr ''A'', CInt 4, CFloat (9 / 2), CNaN]"]
    unfolding f1 n1 r1 by simp
  have b: "average_of_grades exact_lib [CStr ''a+'', CNaN, CStr '' B ''] = Some (9 / 2)"
    using average_of_grades_numeric_first [of exact_lib "[CStr ''a+'', CNaN, CStr '' B '']"]
    unfolding n2 l2 r2 by simp
  have c: "average_of_grades exact_lib [CNaN, CStr ''n/a''] = None"
    using average_of_grades_numeric_first [of exact_lib "[CNaN, CStr ''n/a'']"]
    unfolding n3 l3 by simp
  from a b c n1 n2 l2 show ?thesis by simp
qed




section \<open>Claim C9: no week column and no date column\<close>

lemma select_all_rows: "map fst (filter snd (zip xs (replicate (length xs) True))) = xs"
  by (induction xs) simp_all

lemma select_rows_all_True:
  "select_rows df (if df_empty df then [] else replicate (length (rows df)) True) = df"
  by (simp add: select_rows_def select_all_rows)

text \<open>
  C9, as stated, fails on a frame that pandas counts as empty although its index is not:
  the guard at the top of \<open>get_week_filter_mask\<close> returns the mask of length zero.
\<close>

theorem get_week_filter_mask_length_counterexample:
  "week_col (extract_people_fields hollow_frame) = None
   \<and> date_col (extract_people_fields hollow_frame) = None
   \<and> get_week_filter_mask exact_lib (Some hollow_frame)
        (week_col (extract_people_fields hollow_frame))
        (date_col (extract_people_fields hollow_frame)) 3 2
      \<noteq> Inr (replicate (length (rows hollow_frame)) True)"
  by (simp add: hollow_frame_def extract_people_fields_def pick_first_available_column_def
      df_empty_def get_week_filter_mask_def)

text \<open>
  C9, amended. If neither a week column nor a date column is resolved,
  \<open>get_week_filter_mask\<close> returns an all-True mask: of the table's length when the table
  is not empty, of length zero when it is (no row or no column). Either way the filter
  excludes no row, so the entire table goes into the aggregation.
\<close>

theorem get_week_filter_mask_unresolved:
  "(\<not> label_true wk \<and> \<not> label_true dt \<longrightarrow>
      get_week_filter_mask L (Some df) wk dt month_n week_n
        = Inr (if df_empty df then [] else replicate (length (rows df)) True))
   \<and> (\<not> label_true (week_col (extract_people_fields df))
        \<and> \<not> label_true (date_col (extract_people_fields df)) \<longrightarrow>
      filtered L df month_n week_n = Inr df)"
proof -
  have m: "get_week_filter_mask L (Some df) wk dt month_n week_n
        = Inr (if df_empty df then [] else replicate (length (rows df)) True)"
    if "\<not> label_true wk" "\<not> label_true dt" for wk dt
    using that by (simp add: get_week_filter_mask_def)
  have "filtered L df month_n week_n = Inr df"
    if "\<not> label_true (week_col (extract_people_fields df))"
       "\<not> label_true (date_col (extract_people_fields df))"
    using m [OF that] select_rows_all_True [of df]
    by (simp add: filtered_def Let_def)
  with m show ?thesis by blast
qed

theorem get_week_filter_mask_unresolved_witness:
  "\<not> label_true (week_col (extract_people_fields people_frame))
   \<and> \<not> label_true (date_col (extract_people_fields people_frame))
   \<and> get_week_filter_mask exact_lib (Some people_frame) None None 3 2 = Inr [True]
   \<and> filtered exact_lib people_frame 3 2 = Inr people_frame"
proof -
  have w: "week_col (extract_people_fields people_frame) = None"
    by (simp add: people_frame_def extract_people_fields_def WEEK_def
        pick_first_available_column_def df_empty_def build_map_def
        setdefault_def col_to_text_def norm_col_def norm_simple_def strip_def lstrip_def
        rstrip_def lower_def lower_char_def is_upper_def is_lower_def is_space_def)
  have d: "date_col (extract_people_fields people_frame) = None"
    by (simp add: people_frame_def extract_people_fields_def DATE_def
        pick_first_available_column_def df_empty_def build_map_def
        setdefault_def col_to_text_def norm_col_def norm_simple_def strip_def lstrip_def
        rstrip_def lower_def lower_char_def is_upper_def is_lower_def is_space_def)
  have e: "\<not> df_empty people_frame" "length (rows people_frame) = 1"
    by (simp_all add: people_frame_def df_empty_def)
  show ?thesis
    using get_week_filter_mask_unresolved [of None None exact_lib people_frame 3 2]
    by (simp add: w d e label_true_def)
qed


section \<open>The client: acquiring a key\<close>

lemma try_key_index: "try_key W ks i st = (ok, st') \<Longrightarrow> groq_key_index st' = groq_key_index st"
  by (auto simp: try_key_def split: option.splits if_splits)

lemma try_key_requests: "try_key W ks i st = (ok, st') \<Longrightarrow> requests st' = requests st + 1"
  by (auto simp: try_key_def split: option.splits if_splits)

lemma try_others_Some:
  "try_others W ks cur is st = (Some i, st') \<Longrightarrow> ks \<noteq> [] \<Longrightarrow>
     groq_key_index st' = Some i \<and> i < length ks"
proof (induction "is" arbitrary: st)
  case Nil
  then show ?case by simp
next
  case (Cons j js)
  then show ?case
    by (auto simp: Let_def split: if_splits prod.splits dest: try_key_index)
qed

lemma client_round_client:
  assumes "client_round W ks st = Return (Inr (Some client, st'))"
  shows "\<exists>i<length ks. groq_key_index st' = Some i \<and> client = ks ! i"
proof -
  from assms have ne: "ks \<noteq> []"
    by (auto simp: client_round_def)
  show ?thesis
    using assms ne
    by (auto simp: client_round_def Let_def not_le
        split: if_splits prod.splits option.splits
        dest!: try_key_index try_others_Some)
qed

lemma client_round_error:
  "client_round W ks st = Return (Inl e) \<Longrightarrow>
     e = IndexError \<and> ks \<noteq> [] \<and> (\<exists>i. groq_key_index st = Some i \<and> length ks \<le> i)"
  by (auto simp: client_round_def Let_def split: if_splits prod.splits option.splits)

lemma client_round_Again:
  assumes "client_round W ks st = Again st'"
  shows "ks \<noteq> [] \<and> groq_key_index st' = Some 0
         \<and> (\<exists>st3. list_all (groq_key_limits st3) [0..<length ks]
                    \<and> st' = reset_limits (length ks) st3)"
  using assms
  by (auto simp: client_round_def Let_def reset_limits_def
      split: if_splits prod.splits option.splits)

lemma client_calls_Return:
  "client_round W ks st = Return r \<Longrightarrow> 0 < depth \<Longrightarrow> client_calls depth W ks st = r"
  by (cases depth) simp_all

lemma get_next_Return:
  "client_round W ks st = Return r \<Longrightarrow> 0 < stack W \<Longrightarrow> get_next_groq_client W ks st = r"
  by (simp add: get_next_groq_client_def client_calls_Return)

lemma client_calls_client:
  "client_calls depth W ks st = Inr (Some client, st') \<Longrightarrow>
     \<exists>i<length ks. groq_key_index st' = Some i \<and> client = ks ! i"
proof (induction depth arbitrary: st)
  case 0
  then show ?case by simp
next
  case (Suc depth)
  show ?case
  proof (cases "client_round W ks st")
    case (Return r)
    with Suc.prems show ?thesis
      by (auto dest: client_round_client)
  next
    case (Again st2)
    with Suc.prems have "client_calls depth W ks st2 = Inr (Some client, st')" by simp
    then show ?thesis by (rule Suc.IH)
  qed
qed

lemma get_next_client:
  "get_next_groq_client W ks st = Inr (Some client, st') \<Longrightarrow>
     \<exists>i<length ks. groq_key_index st' = Some i \<and> client = ks ! i"
  unfolding get_next_groq_client_def by (rule client_calls_client)

text \<open>
  The exceptions that leave: the \<open>IndexError\<close> of a session index beyond the key list, in
  the first run of the body, and the \<open>RecursionError\<close> of the self-call, when the stack has
  no room left or the run of the body found every key flagged at its end and started over.
\<close>

lemma client_calls_error:
  "client_calls depth W ks st = Inl e \<Longrightarrow>
     (e = IndexError \<and> (\<exists>i. groq_key_index st = Some i \<and> length ks \<le> i))
     \<or> (e = RecursionError
        \<and> (depth = 0
           \<or> (\<exists>st3. client_round W ks st = Again (reset_limits (length ks) st3)
                     \<and> list_all (groq_key_limits st3) [0..<length ks])))"
proof (induction depth arbitrary: st)
  case 0
  then show ?case by simp
next
  case (Suc depth)
  show ?case
  proof (cases "client_round W ks st")
    case (Return r)
    with Suc.prems show ?thesis
      by (auto dest: client_round_error)
  next
    case (Again st2)
    from client_round_Again [OF Again] obtain st3 where
      a: "ks \<noteq> []" "groq_key_index st2 = Some 0"
        "list_all (groq_key_limits st3) [0..<length ks]" "st2 = reset_limits (length ks) st3"
      by blast
    from Again Suc.prems have "client_calls depth W ks st2 = Inl e" by simp
    from Suc.IH [OF this] a have "e = RecursionError"
      by auto
    with Again a show ?thesis by auto
  qed
qed

lemma get_next_error:
  "get_next_groq_client W ks st = Inl e \<Longrightarrow>
     (e = IndexError \<and> (\<exists>i. groq_key_index st = Some i \<and> length ks \<le> i))
     \<or> (e = RecursionError
        \<and> (stack W = 0
           \<or> (\<exists>st3. client_round W ks st = Again (reset_limits (length ks) st3)
                     \<and> list_all (groq_key_limits st3) [0..<length ks])))"
  unfolding get_next_groq_client_def by (rule client_calls_error)

lemma try_others_skip:
  "\<forall>i\<in>set is. groq_key_limits st ((cur + i) mod length ks) \<Longrightarrow>
     try_others W ks cur (is @ rest) st = try_others W ks cur rest st"
  by (induction "is") (simp_all add: Let_def)

lemma try_key_ok:
  "models_list W (requests st) (ks ! i) = None \<Longrightarrow>
     try_key W ks i st = (True, st\<lparr>requests := requests st + 1\<rparr>)"
  by (simp add: try_key_def)

lemma try_key_rate_limited:
  "models_list W (requests st) (ks ! i) = Some msg \<Longrightarrow> is_rate_limit_error msg \<Longrightarrow>
     try_key W ks i st
       = (False, st\<lparr>groq_key_limits := (groq_key_limits st)(i := True), requests := requests st + 1\<rparr>)"
  by (simp add: try_key_def)

lemma upt_split:
  assumes "0 < j" "j < n"
  shows "[1..<n] = [1..<j] @ j # [Suc j..<n]"
proof -
  from assms have "[1..<j + (n - j)] = [1..<j] @ [j..<j + (n - j)]"
    by (intro upt_add_eq_append) simp
  with assms show ?thesis by (simp add: upt_conv_Cons)
qed

lemma rotation_round:
  assumes idx: "groq_key_index st = Some cur" and cur: "cur < length ks"
    and lim: "groq_key_limits st cur"
    and j: "0 < j" "j < length ks"
    and skipped: "\<forall>i. 0 < i \<and> i < j \<longrightarrow> groq_key_limits st ((cur + i) mod length ks)"
    and free: "\<not> groq_key_limits st ((cur + j) mod length ks)"
    and key: "ks ! ((cur + j) mod length ks) \<noteq> []"
    and ok: "models_list W (requests st) (ks ! ((cur + j) mod length ks)) = None"
  shows "client_round W ks st
     = Return (Inr (Some (ks ! ((cur + j) mod length ks)),
                    st\<lparr>requests := requests st + 1, groq_key_index := Some ((cur + j) mod length ks)\<rparr>))"
proof -
  have st1: "st\<lparr>groq_key_index := Some cur\<rparr> = st"
    using idx by simp
  have "\<forall>i\<in>set [1..<j]. groq_key_limits st ((cur + i) mod length ks)"
    using skipped by auto
  then have "try_others W ks cur [1..<length ks] st
      = try_others W ks cur (j # [Suc j..<length ks]) st"
    unfolding upt_split [OF j] by (rule try_others_skip)
  also have "\<dots> = (Some ((cur + j) mod length ks),
      st\<lparr>requests := requests st + 1, groq_key_index := Some ((cur + j) mod length ks)\<rparr>)"
    using free key try_key_ok [OF ok] by (simp add: Let_def)
  finally show ?thesis
    using cur lim idx by (auto simp: client_round_def Let_def st1)
qed

lemma completion_raised:
  assumes "get_next_groq_client W api_keys st = Inr (Some client, st1)"
    and "chat_create W (requests st1) client (system_or_default system) prompt = Raised error_msg"
  shows "groq_chat_completion W api_keys prompt system st
     = Inr ([], on_completion_error error_msg (st1\<lparr>requests := requests st1 + 1\<rparr>))"
  using assms by (simp add: groq_chat_completion_def Let_def)

lemma completion_error:
  assumes "groq_chat_completion W ks prompt system st = Inl e"
  shows "get_next_groq_client W ks st = Inl e"
  using assms
  by (auto simp: groq_chat_completion_def Let_def
      split: option.splits sum.splits prod.splits reply.splits list.splits)






section \<open>Claim C4: a failing completion gives the empty text\<close>

text \<open>
  C4. For every comment bundle and every prompt: when a client has been acquired and the
  text-completion call raises an exception, whatever its text, \<open>groq_chat_completion\<close>
  and with it \<open>synthesize_areas_to_improve\<close> return the empty string; nothing is raised.
\<close>

theorem completion_exception_gives_empty_text:
  "(get_next_groq_client W api_keys st = Inr (Some client, st1)
      \<and> chat_create W (requests st1) client (system_or_default system) prompt = Raised error_msg
    \<longrightarrow> groq_chat_completion W api_keys prompt system st
          = Inr ([], on_completion_error error_msg (st1\<lparr>requests := requests st1 + 1\<rparr>)))
   \<and> (get_next_groq_client W api_keys st = Inr (Some client, st1)
      \<and> cleaned_bits all_comments \<noteq> []
      \<and> chat_create W (requests st1) client DEFAULT_SYSTEM
           (user_prompt (join '' '' (cleaned_bits all_comments))) = Raised error_msg
    \<longrightarrow> synthesize_areas_to_improve W api_keys all_comments name seed st
          = Inr ([], on_completion_error error_msg (st1\<lparr>requests := requests st1 + 1\<rparr>)))"
proof -
  have "synthesize_areas_to_improve W api_keys all_comments name seed st
          = Inr ([], on_completion_error error_msg (st1\<lparr>requests := requests st1 + 1\<rparr>))"
    if "get_next_groq_client W api_keys st = Inr (Some client, st1)"
      and "cleaned_bits all_comments \<noteq> []"
      and "chat_create W (requests st1) client DEFAULT_SYSTEM
           (user_prompt (join '' '' (cleaned_bits all_comments))) = Raised error_msg"
    using that completion_raised [of W api_keys st client st1 None]
    by (simp add: synthesize_areas_to_improve_def system_or_default_def)
  then show ?thesis
    using completion_raised by blast
qed

lemma first_key_acquired:
  "get_next_groq_client failing three_keys fresh
     = Inr (Some ''gsk_a'', fresh\<lparr>groq_key_index := Some 0, requests := 1\<rparr>)"
  by (rule get_next_Return)
     (simp_all add: client_round_def try_key_def failing_def three_keys_def fresh_def)

theorem completion_exception_gives_empty_text_witness:
  "groq_chat_completion failing three_keys ''Raw observations'' None fresh
     = Inr ([], fresh\<lparr>groq_key_index := Some 0, requests := 2\<rparr>)
   \<and> synthesize_areas_to_improve failing three_keys [''The analyst did not verify the user.'']
        ''bob'' [] fresh
     = Inr ([], fresh\<lparr>groq_key_index := Some 0, requests := 2\<rparr>)"
proof -
  have c: "cleaned_bits [''The analyst did not verify the user.''] \<noteq> []"
    by (simp add: cleaned_bits_def strip_def lstrip_def rstrip_def is_space_def)
  have r: "chat_create failing n key system prompt = Raised ''Connection error.''"
    for n key system prompt
    by (simp add: failing_def)
  have e: "\<not> is_rate_limit_error ''Connection error.''"
    by (simp add: is_rate_limit_error_def RATE_LIMIT_PATTERNS_def lower_def lower_char_def
        is_upper_def)
  show ?thesis
    using completion_exception_gives_empty_text
      [of failing three_keys fresh "''gsk_a''" "fresh\<lparr>groq_key_index := Some 0, requests := 1\<rparr>"
        None "''Raw observations''" "''Connection error.''"
        "[''The analyst did not verify the user.'']" "''bob''" "[]"]
    by (simp add: first_key_acquired c r e on_completion_error_def)
qed

section \<open>Rate limits: flagging, rotation and exhaustion\<close>

text \<open>
  (1) When the completion request fails with a rate-limit text, the key of the client in
  use is flagged and the caller gets the empty string. (2) When the test of a key fails
  with a rate-limit text, that key is flagged and the test reports failure. (3) When the
  current key is flagged, the next acquisition walks the other keys in the order
  \<open>current + 1, current + 2, ...\<close> modulo the number of keys, passes over the flagged ones
  and returns the first unflagged key whose test succeeds, which becomes the current key.
  (4) No exception of the service leaves either function: what can leave is the
  \<open>IndexError\<close> of a session index beyond the key list and the \<open>RecursionError\<close> of the
  self-call that starts over when every key is flagged.
\<close>

lemma rate_limit_marks_and_rotates:
  "(get_next_groq_client W ks st = Inr (Some client, st1)
      \<and> chat_create W (requests st1) client (system_or_default system) prompt = Raised msg
      \<and> is_rate_limit_error msg
    \<longrightarrow> (\<exists>i<length ks. groq_key_index st1 = Some i \<and> ks ! i = client
          \<and> groq_chat_completion W ks prompt system st
              = Inr ([], st1\<lparr>requests := requests st1 + 1,
                             groq_key_limits := (groq_key_limits st1)(i := True)\<rparr>)))
   \<and> (models_list W (requests st) (ks ! k) = Some msg \<and> is_rate_limit_error msg
    \<longrightarrow> try_key W ks k st
          = (False, st\<lparr>groq_key_limits := (groq_key_limits st)(k := True),
                       requests := requests st + 1\<rparr>))
   \<and> (groq_key_index st = Some cur \<and> cur < length ks \<and> groq_key_limits st cur
      \<and> 0 < j \<and> j < length ks
      \<and> (\<forall>i. 0 < i \<and> i < j \<longrightarrow> groq_key_limits st ((cur + i) mod length ks))
      \<and> \<not> groq_key_limits st ((cur + j) mod length ks)
      \<and> ks ! ((cur + j) mod length ks) \<noteq> []
      \<and> models_list W (requests st) (ks ! ((cur + j) mod length ks)) = None
      \<and> 0 < stack W
    \<longrightarrow> get_next_groq_client W ks st
          = Inr (Some (ks ! ((cur + j) mod length ks)),
                 st\<lparr>requests := requests st + 1,
                    groq_key_index := Some ((cur + j) mod length ks)\<rparr>))
   \<and> (\<forall>e. get_next_groq_client W ks st = Inl e
            \<or> groq_chat_completion W ks prompt system st = Inl e
        \<longrightarrow> (e = IndexError \<and> (\<exists>i. groq_key_index st = Some i \<and> length ks \<le> i))
            \<or> (e = RecursionError
               \<and> (stack W = 0
                  \<or> (\<exists>st3. client_round W ks st = Again (reset_limits (length ks) st3)
                            \<and> list_all (groq_key_limits st3) [0..<length ks]))))"
proof -
  have a: "\<exists>i<length ks. groq_key_index st1 = Some i \<and> ks ! i = client
          \<and> groq_chat_completion W ks prompt system st
              = Inr ([], st1\<lparr>requests := requests st1 + 1,
                             groq_key_limits := (groq_key_limits st1)(i := True)\<rparr>)"
    if acq: "get_next_groq_client W ks st = Inr (Some client, st1)"
      and r: "chat_create W (requests st1) client (system_or_default system) prompt = Raised msg"
      and m: "is_rate_limit_error msg"
  proof -
    from get_next_client [OF acq] obtain i where
      i: "i < length ks" "groq_key_index st1 = Some i" "client = ks ! i"
      by auto
    from completion_raised [OF acq r] m i
    have "groq_chat_completion W ks prompt system st
              = Inr ([], st1\<lparr>requests := requests st1 + 1,
                             groq_key_limits := (groq_key_limits st1)(i := True)\<rparr>)"
      by (simp add: on_completion_error_def)
    with i show ?thesis by auto
  qed
  have c: "get_next_groq_client W ks st
          = Inr (Some (ks ! ((cur + j) mod length ks)),
                 st\<lparr>requests := requests st + 1,
                    groq_key_index := Some ((cur + j) mod length ks)\<rparr>)"
    if "groq_key_index st = Some cur" "cur < length ks" "groq_key_limits st cur"
      "0 < j" "j < length ks"
      "\<forall>i. 0 < i \<and> i < j \<longrightarrow> groq_key_limits st ((cur + i) mod length ks)"
      "\<not> groq_key_limits st ((cur + j) mod length ks)"
      "ks ! ((cur + j) mod length ks) \<noteq> []"
      "models_list W (requests st) (ks ! ((cur + j) mod length ks)) = None"
      "0 < stack W"
    using rotation_round [OF that(1-9)] that(10) by (rule get_next_Return)
  have d: "(e = IndexError \<and> (\<exists>i. groq_key_index st = Some i \<and> length ks \<le> i))
            \<or> (e = RecursionError
               \<and> (stack W = 0
                  \<or> (\<exists>st3. client_round W ks st = Again (reset_limits (length ks) st3)
                            \<and> list_all (groq_key_limits st3) [0..<length ks])))"
    if "get_next_groq_client W ks st = Inl e \<or> groq_chat_completion W ks prompt system st = Inl e"
    for e
    using that get_next_error completion_error by blast
  from a c try_key_rate_limited d show ?thesis
    by blast
qed

lemma first_key_acquired_throttled:
  "get_next_groq_client throttled three_keys fresh
     = Inr (Some ''gsk_a'', fresh\<lparr>groq_key_index := Some 0, requests := 1\<rparr>)"
  by (rule get_next_Return)
     (simp_all add: client_round_def try_key_def throttled_def three_keys_def fresh_def)

lemma rate_limit_marks_and_rotates_example:
  "groq_chat_completion throttled three_keys ''Raw observations'' None fresh
     = Inr ([], fresh\<lparr>groq_key_index := Some 0, requests := 2,
                     groq_key_limits := (groq_key_limits fresh)(0 := True)\<rparr>)
   \<and> try_key throttled three_keys 1 fresh
     = (False, fresh\<lparr>groq_key_limits := (groq_key_limits fresh)(1 := True), requests := 1\<rparr>)
   \<and> get_next_groq_client answering three_keys worn
     = Inr (Some ''gsk_b'', worn\<lparr>requests := 6, groq_key_index := Some 1\<rparr>)"
proof -
  have m: "is_rate_limit_error ''Rate limit reached for model''" "is_rate_limit_error ''Error code: 429''"
    by (simp_all add: is_rate_limit_error_def RATE_LIMIT_PATTERNS_def lower_def lower_char_def
        is_upper_def)
  have r: "chat_create throttled n key system prompt = Raised ''Rate limit reached for model''"
    for n key system prompt
    by (simp add: throttled_def)
  have t: "models_list throttled n (three_keys ! Suc 0) = Some ''Error code: 429''" for n
    by (simp add: throttled_def three_keys_def)
  have f: "requests fresh = 0"
    by (simp add: fresh_def)
  have k: "three_keys ! 0 = ''gsk_a''" "three_keys ! Suc 0 = ''gsk_b''" "length three_keys = 3"
    by (simp_all add: three_keys_def)
  have w: "groq_key_index worn = Some 2" "groq_key_limits worn 2" "groq_key_limits worn 0"
    "\<not> groq_key_limits worn (Suc 0)" "requests worn = 5"
    by (simp_all add: worn_def)
  have skipped: "\<forall>i. 0 < i \<and> i < 2 \<longrightarrow> groq_key_limits worn ((2 + i) mod 3)"
  proof (intro allI impI)
    fix i :: nat assume "0 < i \<and> i < 2"
    then have "i = 1" by simp
    then show "groq_key_limits worn ((2 + i) mod 3)" by (simp add: w)
  qed
  have ok: "models_list answering n key = None" "0 < stack answering" for n key
    by (simp_all add: answering_def)
  have a: "groq_chat_completion throttled three_keys ''Raw observations'' None fresh
     = Inr ([], fresh\<lparr>groq_key_index := Some 0, requests := 2,
                     groq_key_limits := (groq_key_limits fresh)(0 := True)\<rparr>)"
    using rate_limit_marks_and_rotates
      [of throttled three_keys fresh "''gsk_a''" "fresh\<lparr>groq_key_index := Some 0, requests := 1\<rparr>"
        None "''Raw observations''" "''Rate limit reached for model''"]
    by (auto simp: first_key_acquired_throttled m r k)
  have b: "try_key throttled three_keys 1 fresh
     = (False, fresh\<lparr>groq_key_limits := (groq_key_limits fresh)(1 := True), requests := 1\<rparr>)"
    using rate_limit_marks_and_rotates
      [where W = throttled and ks = three_keys and st = fresh and k = 1
        and msg = "''Error code: 429''"]
    by (simp add: m t f)
  have c: "get_next_groq_client answering three_keys worn
     = Inr (Some ''gsk_b'', worn\<lparr>requests := 6, groq_key_index := Some 1\<rparr>)"
    using rate_limit_marks_and_rotates
      [where W = answering and ks = three_keys and st = worn and cur = 2 and j = 2] skipped
    by (simp add: w k ok)
  from a b c show ?thesis by simp
qed

section \<open>The tracker: records, rows kept and fields read\<close>

lemma tracker_record_Inr:
  assumes "tracker_record L W ks m w seed am as name st = Inr (r, st')"
  shows "\<exists>mon. month_abbr m = Inr mon
           \<and> synthesize_areas_to_improve W ks (comments (am name) @ comments (as name)) name seed st
               = Inr (areas_to_improve r, st')
           \<and> r = make_rec L mon w (am name) (as name) name (areas_to_improve r)"
  using assms
  by (auto simp: tracker_record_def make_rec_def split: option.splits sum.splits prod.splits)

lemma tracker_records_Inr:
  assumes "tracker_records L W ks m w seed am as names st = Inr (recs, st')"
  shows "list_all2 (\<lambda>name r. \<exists>mon st1 st2. month_abbr m = Inr mon
           \<and> synthesize_areas_to_improve W ks (comments (am name) @ comments (as name)) name seed st1
               = Inr (areas_to_improve r, st2)
           \<and> r = make_rec L mon w (am name) (as name) name (areas_to_improve r)) names recs"
  using assms
proof (induction names arbitrary: st recs)
  case Nil
  then show ?case by simp
next
  case (Cons name names)
  from Cons.prems obtain r st1 rs where
    r: "tracker_record L W ks m w seed am as name st = Inr (r, st1)"
    and rs: "tracker_records L W ks m w seed am as names st1 = Inr (rs, st')"
    and recs: "recs = r # rs"
    by (auto split: option.splits sum.splits prod.splits)
  from tracker_record_Inr [OF r] Cons.IH [OF rs] recs show ?case
    by auto
qed

lemma make_rec_name [simp]: "employee_name (make_rec L mon w a b name t) = name"
  by (simp add: make_rec_def)

lemma tracker_records_names:
  assumes "tracker_records L W ks m w seed am as names st = Inr (recs, st')"
  shows "map employee_name recs = names"
proof -
  from tracker_records_Inr [OF assms]
  have "list_all2 (\<lambda>name r. employee_name r = name) names recs"
    by (rule list_all2_mono) (metis make_rec_name)
  then show ?thesis
    by (induction names recs rule: list_all2_induct) auto
qed

lemma synthesize_returns:
  assumes "llm_returns W ks I" "I st"
  shows "\<exists>t st'. synthesize_areas_to_improve W ks cs name seed st = Inr (t, st') \<and> I st'"
  using assms by (auto simp: synthesize_areas_to_improve_def llm_returns_def)

lemma tracker_records_returns:
  assumes llm: "llm_returns W ks I" and "I st" and m: "1 \<le> m" "m \<le> 12"
  shows "\<exists>recs st'. tracker_records L W ks m w seed am as names st = Inr (recs, st') \<and> I st'"
  using \<open>I st\<close>
proof (induction names arbitrary: st)
  case Nil
  then show ?case by simp
next
  case (Cons name names)
  from synthesize_returns [OF llm Cons.prems]
  obtain t st1 where
    s: "synthesize_areas_to_improve W ks (comments (am name) @ comments (as name)) name seed st
          = Inr (t, st1)" and i: "I st1"
    by blast
  from m obtain mon where mon: "month_abbr m = Inr mon"
    by (auto simp: month_abbr_def)
  from Cons.IH [OF i] obtain rs st2 where
    "tracker_records L W ks m w seed am as names st1 = Inr (rs, st2)" "I st2"
    by blast
  with s mon show ?case
    by (simp add: tracker_record_def)
qed

lemma select_by_predicate: "map fst (filter snd (zip xs (map p xs))) = filter p xs"
  by (induction xs) simp_all

lemma filter_True_conv: "filter (\<lambda>x. True) xs = xs"
  by simp

lemma resolved_in_columns:
  "pick_first_available_column (Some d) cands = Some c \<Longrightarrow> c \<in> set (columns d)"
  by (auto simp: pick_first_available_column_def
      split: if_splits option.splits dest: first_hit_in_columns)

lemma week_col_in_columns:
  "label_true (week_col (extract_people_fields df)) \<Longrightarrow>
     the (week_col (extract_people_fields df)) \<in> set (columns df)"
  by (cases "week_col (extract_people_fields df)")
     (auto simp: extract_people_fields_def label_true_def dest: resolved_in_columns)

lemma date_col_in_columns:
  "label_true (date_col (extract_people_fields df)) \<Longrightarrow>
     the (date_col (extract_people_fields df)) \<in> set (columns df)"
  by (cases "date_col (extract_people_fields df)")
     (auto simp: extract_people_fields_def label_true_def dest: resolved_in_columns)

lemma empty_frame_unresolved:
  "df_empty df \<Longrightarrow>
     \<not> label_true (week_col (extract_people_fields df))
     \<and> \<not> label_true (date_col (extract_people_fields df))"
  by (simp add: extract_people_fields_def pick_first_available_column_def label_true_def)

lemma select_by_predicate2:
  "map fst (filter snd (zip xs (map (g \<circ> h) xs))) = filter (\<lambda>x. g (h x)) xs"
  by (induction xs) simp_all

lemma filtered_rows:
  assumes "filtered L df month_n week_n = Inr f"
  shows "columns f = columns df
     \<and> (label_true (week_col (extract_people_fields df)) \<longrightarrow>
          rows f = filter (\<lambda>row. week_matches L week_n
                                   (cell_at df row (the (week_col (extract_people_fields df)))))
                     (rows df))
     \<and> (\<not> label_true (week_col (extract_people_fields df))
          \<and> label_true (date_col (extract_people_fields df)) \<longrightarrow>
          rows f = filter (\<lambda>row. date_matches month_n week_n
                                   (to_date L (cell_at df row (the (date_col (extract_people_fields df))))))
                     (rows df))
     \<and> (\<not> label_true (week_col (extract_people_fields df))
          \<and> \<not> label_true (date_col (extract_people_fields df)) \<longrightarrow>
          rows f = rows df)"
proof (cases "df_empty df")
  case True
  with assms have "f = df"
    by (auto simp: filtered_def get_week_filter_mask_def select_rows_def Let_def)
  with empty_frame_unresolved [OF True] show ?thesis by simp
next
  case False
  let ?cols = "extract_people_fields df"
  from False have ne: "rows df \<noteq> []" by (simp add: df_empty_def)
  show ?thesis
  proof (cases "label_true (week_col ?cols)")
    case True
    with False assms week_col_in_columns [OF True] ne show ?thesis
      by (auto simp: filtered_def get_week_filter_mask_def select_rows_def Let_def
          select_by_predicate)
  next
    case nw: False
    show ?thesis
    proof (cases "label_true (date_col ?cols)")
      case True
      with nw False assms date_col_in_columns [OF True] ne show ?thesis
        by (auto simp: filtered_def get_week_filter_mask_def select_rows_def Let_def
            select_by_predicate2 split: if_splits)
    next
      case nd: False
      with nw False assms ne show ?thesis
        by (auto simp: filtered_def get_week_filter_mask_def select_rows_def Let_def
            select_all_rows)
    qed
  qed
qed

lemma fold_per_employee_inv:
  assumes "\<And>row d. P d \<Longrightarrow> P (per_employee_row L bek df cols row d)" and "P d0"
  shows "P (fold (per_employee_row L bek df cols) rs d0)"
  using assms(2) by (induction rs arbitrary: d0) (simp_all add: assms(1))

lemma per_employee_inv:
  assumes "\<And>row d. P d \<Longrightarrow> P (per_employee_row L bek df cols row d)"
    and "P (\<lambda>name. empty_aggregate)"
  shows "P (per_employee L bek df cols)"
  unfolding per_employee_def using assms by (simp add: fold_per_employee_inv)

lemma get_opt_unresolved: "\<not> label_true col \<Longrightarrow> get_opt df row col = CNone"
  by (simp add: get_opt_def)

lemma no_team_lead_column:
  assumes "\<not> label_true (tl_col cols)"
  shows "team_leads (per_employee L bek df cols name) = []"
proof -
  have "\<forall>name. team_leads (per_employee L bek df cols name) = []"
    by (rule per_employee_inv)
       (auto simp: per_employee_row_def Let_def get_opt_unresolved [OF assms] truthy_def
          empty_aggregate_def split: option.splits)
  then show ?thesis by simp
qed

lemma no_assessor_column:
  assumes "\<not> label_true (qa_col cols)"
  shows "assessors (per_employee L bek df cols name) = []"
proof -
  have "\<forall>name. assessors (per_employee L bek df cols name) = []"
    by (rule per_employee_inv)
       (auto simp: per_employee_row_def Let_def get_opt_unresolved [OF assms] truthy_def
          empty_aggregate_def split: option.splits)
  then show ?thesis by simp
qed

lemma no_comments_column:
  assumes "\<not> label_true (comments_col cols)"
  shows "comments (per_employee L bek df cols name) = []"
proof -
  have "\<forall>name. comments (per_employee L bek df cols name) = []"
    by (rule per_employee_inv)
       (auto simp: per_employee_row_def Let_def get_opt_unresolved [OF assms] truthy_def
          empty_aggregate_def split: option.splits)
  then show ?thesis by simp
qed

lemma no_rating_column:
  assumes "\<not> label_true (sn_rating_col cols)"
  shows "sn_ratings (per_employee L bek df cols name) = []"
proof -
  have "\<forall>name. sn_ratings (per_employee L bek df cols name) = []"
    by (rule per_employee_inv)
       (auto simp: per_employee_row_def Let_def get_opt_unresolved [OF assms]
          empty_aggregate_def split: option.splits)
  then show ?thesis by simp
qed

lemma no_grade_column:
  assumes "\<not> label_true (manual_grade_col cols)"
  shows "manual_grades (per_employee L bek df cols name) = []"
proof -
  have "\<forall>name. manual_grades (per_employee L bek df cols name) = []"
    by (rule per_employee_inv)
       (auto simp: per_employee_row_def Let_def get_opt_unresolved [OF assms]
          empty_aggregate_def split: option.splits)
  then show ?thesis by simp
qed

lemma no_name_column:
  "\<not> label_true (name_col cols) \<Longrightarrow> per_employee L bek df cols name = empty_aggregate"
  by (simp add: per_employee_def)

lemma no_name_keys: "\<not> label_true col \<Longrightarrow> name_keys L bek df col = []"
  by (simp add: name_keys_def)

lemma synthesize_nothing:
  "synthesize_areas_to_improve W ks [] name seed st = Inr ([], st)"
  by (simp add: synthesize_areas_to_improve_def cleaned_bits_def)

lemma generate_records_Inr:
  assumes "generate_records L bek W ks manual_df sn_df m w seed st = Inr (recs, st')"
  obtains mdf sdf where
    "filtered L manual_df m w = Inr mdf" "filtered L sn_df m w = Inr sdf"
    "tracker_records L W ks m w seed
       (per_employee L bek mdf (extract_people_fields manual_df))
       (per_employee L bek sdf (extract_people_fields sn_df))
       (all_names L bek mdf (extract_people_fields manual_df) sdf (extract_people_fields sn_df)) st
     = Inr (recs, st')"
  using assms by (auto simp: generate_records_def Let_def split: sum.splits)

lemma generate_tracker_Inr:
  assumes "generate_tracker L bek W ks manual_df sn_df m w seed st = Inr (out, st')"
  obtains recs where "out = tracker_frame recs"
    "generate_records L bek W ks manual_df sn_df m w seed st = Inr (recs, st')"
  using assms by (auto simp: generate_tracker_def split: option.splits sum.splits prod.splits)

lemma generate_records_returns:
  assumes "filtered L manual_df m w = Inr mdf" "filtered L sn_df m w = Inr sdf"
    and "1 \<le> m" "m \<le> 12" and "llm_returns W ks I" "I st"
  shows "\<exists>recs st'. generate_records L bek W ks manual_df sn_df m w seed st = Inr (recs, st')
            \<and> I st'"
  using assms(1,2) tracker_records_returns [OF assms(5,6,3,4)]
  by (simp add: generate_records_def Let_def)

lemma records_are_made:
  assumes "tracker_records L W ks m w seed am as names st = Inr (recs, st')"
  shows "\<forall>r\<in>set recs. employee_name r \<in> set names \<and> (\<exists>mon st1 st2. month_abbr m = Inr mon
           \<and> synthesize_areas_to_improve W ks
                 (comments (am (employee_name r)) @ comments (as (employee_name r)))
                 (employee_name r) seed st1
               = Inr (areas_to_improve r, st2)
           \<and> r = make_rec L mon w (am (employee_name r)) (as (employee_name r)) (employee_name r)
                   (areas_to_improve r))"
  using assms
proof (induction names arbitrary: st recs)
  case Nil
  then show ?case by simp
next
  case (Cons name names)
  from Cons.prems obtain r st1 rs where
    r: "tracker_record L W ks m w seed am as name st = Inr (r, st1)"
    and rs: "tracker_records L W ks m w seed am as names st1 = Inr (rs, st')"
    and recs: "recs = r # rs"
    by (auto split: option.splits sum.splits prod.splits)
  from tracker_record_Inr [OF r] obtain mon where
    mon: "month_abbr m = Inr mon"
    and syn: "synthesize_areas_to_improve W ks (comments (am name) @ comments (as name)) name seed st
               = Inr (areas_to_improve r, st1)"
    and mk: "r = make_rec L mon w (am name) (as name) name (areas_to_improve r)"
    by blast
  from mk have n: "employee_name r = name"
    by (metis make_rec_name)
  from mon syn mk n have "employee_name r \<in> set (name # names) \<and> (\<exists>mon st1 st2. month_abbr m = Inr mon
           \<and> synthesize_areas_to_improve W ks
                 (comments (am (employee_name r)) @ comments (as (employee_name r)))
                 (employee_name r) seed st1
               = Inr (areas_to_improve r, st2)
           \<and> r = make_rec L mon w (am (employee_name r)) (as (employee_name r)) (employee_name r)
                   (areas_to_improve r))"
    by auto
  with Cons.IH [OF rs] recs show ?case
    by auto
qed

lemma make_rec_sn_avg:
  "sn_avg (make_rec L mon w am as name t) =
     (if numeric_entries L (sn_ratings as) = [] then CStr []
      else CFloat (round2 L (np_mean L (numeric_entries L (sn_ratings as)))))"
  by (simp add: make_rec_def service_now_avg_def service_now_ratings_def numeric_entries_def)

lemma letter_scores_nil [simp]: "letter_scores L [] = []" "numeric_entries L [] = []"
  by (simp_all add: letter_scores_def numeric_entries_def List.map_filter_simps)

lemma make_rec_manual_avg:
  "manual_avg (make_rec L mon w am as name t) =
     (if numeric_entries L (manual_grades am) \<noteq> []
      then CFloat (round2 L (np_mean L (numeric_entries L (manual_grades am))))
      else if letter_scores L (manual_grades am) \<noteq> []
      then CFloat (round2 L (np_mean L (letter_scores L (manual_grades am))))
      else CStr [])"
  by (cases "manual_grades am = []")
     (simp_all add: make_rec_def manual_average_def average_of_grades_eq)

lemma letter_scores_in_table: "set (letter_scores L grades) \<subseteq> snd ` set grade_table"
proof
  fix q assume "q \<in> set (letter_scores L grades)"
  then obtain c where "letter_grade_to_score L c = Some q"
    by (auto simp: letter_scores_def List.map_filter_def)
  then have "\<exists>s. map_of grade_table s = Some q"
    by (auto simp: letter_grade_to_score_def split: if_splits)
  then show "q \<in> snd ` set grade_table"
    by (force dest: map_of_SomeD)
qed

section \<open>The two example sheets, evaluated\<close>

lemmas text_defs = strip_def lstrip_def rstrip_def lower_def lower_char_def upper_def
  upper_char_def has_capital_def is_upper_def is_lower_def is_space_def is_digit_def

lemmas pick_defs = pick_first_available_column_def df_empty_def build_map_def
  setdefault_def col_to_text_def norm_col_def norm_simple_def py_or_def label_true_def

lemma manual_fields:
  "extract_people_fields manual_sheet =
     \<lparr> name_col = Some (Name ''Employee Name''), tl_col = Some (Name ''Team Lead''),
       qa_col = Some (Name ''Assessor''), week_col = Some (Name ''Week''), date_col = None,
       sn_rating_col = None, manual_grade_col = Some (Name ''Grade''),
       comments_col = Some (Name ''Comments'') \<rparr>"
  by (simp add: extract_people_fields_def manual_sheet_def pick_defs text_defs
      EMPLOYEE_NAME_def TRAINEE_NAME_def ANALYST_NAME_def TEAM_LEAD_def MANAGER_def
      QUALITY_ASSESSOR_def WEEK_def DATE_def SN_RATING_def MANUAL_GRADE_def COMMENTS_def)

lemma sn_fields:
  "extract_people_fields sn_sheet =
     \<lparr> name_col = Some (Name ''Analyst Name''), tl_col = Some (Name ''Manager''),
       qa_col = Some (Name ''QA''), week_col = None, date_col = Some (Name ''Date''),
       sn_rating_col = Some (Name ''Trainee rating''), manual_grade_col = None,
       comments_col = Some (Name ''Notes'') \<rparr>"
  by (simp add: extract_people_fields_def sn_sheet_def pick_defs text_defs
      EMPLOYEE_NAME_def TRAINEE_NAME_def ANALYST_NAME_def TEAM_LEAD_def MANAGER_def
      QUALITY_ASSESSOR_def WEEK_def DATE_def SN_RATING_def MANUAL_GRADE_def COMMENTS_def)

lemma show_nat_digit: "n < 10 \<Longrightarrow> show_nat n = [digit_char n]"
  by (simp add: show_nat.simps)

lemma manual_shape:
  "columns manual_sheet = [Name ''Employee Name'', Name ''Team Lead'', Name ''Assessor'', Name ''Week'',
                  Name ''Grade'', Name ''Comments'']"
  "rows manual_sheet = [[CStr ''Bob '', CStr ''Alice'', CStr ''Quinn'', CInt 2, CStr ''A'',
                CStr ''Did not verify the user.''],
               [CStr ''bob'', CStr ''Alice'', CStr ''Rae'', CStr ''Week 2'', CInt 4,
                CStr ''Escalated late.''],
               [CStr ''Carol'', CNaN, CStr ''Quinn'', CInt 2, CStr ''B+'',
                CStr ''Ticket notes were incomplete.''],
               [CStr ''Dave'', CStr ''Alice'', CStr ''Quinn'', CInt 3, CStr ''C'',
                CStr ''Late follow-up.'']]"
  by (simp_all add: manual_sheet_def)

lemma sn_shape:
  "columns sn_sheet = [Name ''Analyst Name'', Name ''Manager'', Name ''QA'', Name ''Date'',
                  Name ''Trainee rating'', Name ''Notes'']"
  "rows sn_sheet = [[CStr ''BOB'', CStr ''Alice'', CStr ''Quinn'', CDate 2024 3 5, CStr ''4.5'',
                CStr ''Probing was thin.''],
               [CStr ''Carol '', CStr ''Zed'', CStr ''Rae'', CDate 2024 3 6, CInt 4,
                CStr ''Hold time was long.''],
               [CStr ''Bob'', CStr ''Alice'', CStr ''Quinn'', CDate 2024 3 20, CInt 5,
                CStr ''Good call.''],
               [CStr ''Erin'', CStr ''Zed'', CStr ''Rae'', CStr ''2024-03-07'', CStr ''n/a'',
                CStr ''Summary was missing.'']]"
  by (simp_all add: sn_sheet_def)

lemma manual_filtered: "filtered exact_lib manual_sheet 3 2 = Inr manual_week2"
  by (simp add: filtered_def manual_fields get_week_filter_mask_def select_rows_def
      manual_week2_def manual_shape df_empty_def label_true_def cell_at_def week_matches_def
      first_digits_def py_str_def show_int_def show_nat_digit digit_char_def nat_of_digits_def
      digit_val_def is_digit_def)

lemma wom: "week_of_month 2024 3 5 = 2" "week_of_month 2024 3 6 = 2" "week_of_month 2024 3 20 = 4"
  "week_of_month 2024 3 7 = 2"
  by (simp_all add: week_of_month_def weekday_def month_offset_def)

lemma iso: "exact_to_datetime (CStr ''2024-03-07'') = Some (Stamp 2024 3 7)"
  by (simp add: exact_to_datetime_def all_digits_def nat_of_digits_def
      digit_val_def is_digit_def text_defs)

lemma to_date_CDate: "to_date L (CDate y m d) = Some (Stamp y m d)"
  by (simp add: to_date_def isna_def)

lemma to_date_iso: "to_date exact_lib (CStr ''2024-03-07'') = Some (Stamp 2024 3 7)"
  by (simp add: to_date_def isna_def exact_lib_def iso)

lemma sn_dates:
  "map (\<lambda>row. to_date exact_lib (cell_at sn_sheet row (Name ''Date''))) (rows sn_sheet)
     = [Some (Stamp 2024 3 5), Some (Stamp 2024 3 6), Some (Stamp 2024 3 20), Some (Stamp 2024 3 7)]"
  by (simp add: sn_shape cell_at_def to_date_CDate to_date_iso)

lemma sn_mask:
  "get_week_filter_mask exact_lib (Some sn_sheet) None (Some (Name ''Date'')) 3 2
     = Inr [True, True, False, True]"
proof -
  have e: "\<not> df_empty sn_sheet" "Name ''Date'' \<in> set (columns sn_sheet)"
    by (simp_all add: df_empty_def sn_shape)
  show ?thesis
    unfolding get_week_filter_mask_def
    by (simp add: e label_true_def sn_dates date_matches_def wom)
qed

lemma sn_filtered: "filtered exact_lib sn_sheet 3 2 = Inr sn_week2"
  by (simp add: filtered_def sn_fields sn_mask select_rows_def sn_week2_def sn_shape df_empty_def)

lemma week2_shape:
  "columns manual_week2 = columns manual_sheet"
  "rows manual_week2 = take 3 (rows manual_sheet)"
  "columns sn_week2 = columns sn_sheet"
  "rows sn_week2 = [rows sn_sheet ! 0, rows sn_sheet ! 1, rows sn_sheet ! 3]"
  by (simp_all add: manual_week2_def sn_week2_def)

lemma keys:
  "build_employee_key exact_lib (CStr ''Bob '') = Some ''bob''"
  "build_employee_key exact_lib (CStr ''bob'') = Some ''bob''"
  "build_employee_key exact_lib (CStr ''BOB'') = Some ''bob''"
  "build_employee_key exact_lib (CStr ''Carol'') = Some ''carol''"
  "build_employee_key exact_lib (CStr ''Carol '') = Some ''carol''"
  "build_employee_key exact_lib (CStr ''Erin'') = Some ''erin''"
  by (simp_all add: build_employee_key_def norm_cell_def text_defs)

lemma manual_keys:
  "name_keys exact_lib (build_employee_key exact_lib) manual_week2 (Some (Name ''Employee Name''))
     = [''bob'', ''bob'', ''carol'']"
  by (simp add: name_keys_def label_true_def week2_shape manual_shape cell_at_def isna_def
      py_str_def keys List.map_filter_simps)

lemma sn_keys:
  "name_keys exact_lib (build_employee_key exact_lib) sn_week2 (Some (Name ''Analyst Name''))
     = [''bob'', ''carol'', ''erin'']"
  by (simp add: name_keys_def label_true_def week2_shape sn_shape cell_at_def isna_def
      py_str_def keys List.map_filter_simps)

lemma all_names_sort:
  "all_names L bek mdf mc sdf sc
     = sort (remdups (name_keys L bek mdf (name_col mc) @ name_keys L bek sdf (name_col sc)))"
  unfolding all_names_def set_append [symmetric] by (rule sorted_list_of_set_sort_remdups)

lemma names:
  "all_names exact_lib (build_employee_key exact_lib) manual_week2 (extract_people_fields manual_sheet)
     sn_week2 (extract_people_fields sn_sheet) = [''bob'', ''carol'', ''erin'']"
  by (simp add: all_names_sort manual_fields sn_fields manual_keys sn_keys)

lemma manual_per_employee:
  "per_employee exact_lib (build_employee_key exact_lib) manual_week2 (extract_people_fields manual_sheet)
     = manual_aggregates"
proof -
  have e: "\<not> df_empty manual_week2"
    by (simp add: df_empty_def week2_shape manual_shape)
  show ?thesis
    unfolding per_employee_def manual_fields manual_aggregates_def
    by (simp add: e label_true_def week2_shape manual_shape per_employee_row_def cell_at_def
        get_opt_def keys truthy_def py_str_def empty_aggregate_def fun_upd_twist)
qed

lemma sn_per_employee:
  "per_employee exact_lib (build_employee_key exact_lib) sn_week2 (extract_people_fields sn_sheet)
     = sn_aggregates"
proof -
  have e: "\<not> df_empty sn_week2"
    by (simp add: df_empty_def week2_shape sn_shape)
  show ?thesis
    unfolding per_employee_def sn_fields sn_aggregates_def
    by (simp add: e label_true_def week2_shape sn_shape per_employee_row_def cell_at_def
        get_opt_def keys truthy_def py_str_def empty_aggregate_def)
qed

lemma numbers:
  "to_numeric exact_lib (CStr ''4.5'') = Some (9 / 2)"
  "to_numeric exact_lib (CStr ''n/a'') = None"
  "to_numeric exact_lib (CStr ''A'') = None"
  "to_numeric exact_lib (CStr ''B+'') = None"
  "to_numeric exact_lib (CInt 4) = Some 4"
  by (simp_all add: to_numeric_def exact_lib_def exact_numeric_text_def exact_unsigned_def
      all_digits_def nat_of_digits_def digit_val_def is_digit_def text_defs)

lemma letters:
  "letter_grade_to_score exact_lib (CStr ''B+'') = Some (43 / 10)"
  by (simp add: letter_grade_to_score_def grade_table_def py_str_def text_defs)

lemma lib_ops:
  "round2 exact_lib (np_mean exact_lib [9 / 2]) = 9 / 2"
  "round2 exact_lib (np_mean exact_lib [4]) = 4"
  "round2 exact_lib (np_mean exact_lib [43 / 10]) = 43 / 10"
  by (simp_all add: exact_lib_def exact_mean_def exact_round2_def Let_def)

lemma assessors_final_sort:
  "assessors_final as =
     (let joined = join '', '' (sort (remdups (normed as)))
      in if joined = [] then None else Some joined)"
  by (simp add: assessors_final_def sorted_list_of_set_sort_remdups)

lemma leads:
  "team_lead_final [''Alice'', ''Alice'', ''Alice''] = Some ''Alice''"
  "team_lead_final [''nan'', ''Zed''] = Some ''nan''"
  "team_lead_final [''Zed''] = Some ''Zed''"
  by (simp_all add: team_lead_final_def counter_def normed_def text_defs)

lemma assessor_lists:
  "assessors_final [''Quinn'', ''Rae'', ''Quinn''] = Some ''Quinn, Rae''"
  "assessors_final [''Quinn'', ''Rae''] = Some ''Quinn, Rae''"
  "assessors_final [''Rae''] = Some ''Rae''"
  by (simp_all add: assessors_final_sort normed_def text_defs)

lemma answering_client:
  assumes "steady st"
  shows "get_next_groq_client answering three_keys st
     = Inr (Some ''gsk_a'', st\<lparr>groq_key_index := Some 0, requests := requests st + 1\<rparr>)"
proof (rule get_next_Return)
  show "client_round answering three_keys st
     = Return (Inr (Some ''gsk_a'', st\<lparr>groq_key_index := Some 0, requests := requests st + 1\<rparr>))"
    using assms
    by (auto simp: steady_def client_round_def try_key_def answering_def three_keys_def)
  show "0 < stack answering"
    by (simp add: answering_def)
qed

lemma cleaned_answer: "strip (clean_output '' Verify the user first. '') = ''Verify the user first.''"
  by (simp add: clean_output_def OUTPUT_PREFIXES_def text_defs)

lemma answering_completion:
  assumes "steady st"
  shows "groq_chat_completion answering three_keys prompt None st
     = Inr (''Verify the user first.'', st\<lparr>groq_key_index := Some 0, requests := requests st + 2\<rparr>)"
proof -
  have "chat_create answering n key sys prompt = Choices [Some '' Verify the user first. '']"
    for n key sys
    by (simp add: answering_def)
  then show ?thesis
    by (simp add: groq_chat_completion_def answering_client [OF assms] cleaned_answer)
qed

lemma answering_returns: "llm_returns answering three_keys steady"
  unfolding llm_returns_def
proof (intro allI impI)
  fix prompt st assume s: "steady st"
  then have "steady (st\<lparr>groq_key_index := Some 0, requests := requests st + 2\<rparr>)"
    by (simp add: steady_def)
  with answering_completion [OF s, of prompt]
  show "\<exists>t st'. groq_chat_completion answering three_keys prompt None st = Inr (t, st') \<and> steady st'"
    by blast
qed

lemma steady_fresh: "steady fresh"
  by (simp add: steady_def fresh_def)

lemma aggregates_at:
  "manual_aggregates ''bob'' = \<lparr> team_leads = [''Alice'', ''Alice''], assessors = [''Quinn'', ''Rae''],
                     comments = [''Did not verify the user.'', ''Escalated late.''],
                     sn_ratings = [], manual_grades = [CStr ''A'', CInt 4] \<rparr>"
  "manual_aggregates ''carol'' = \<lparr> team_leads = [''nan''], assessors = [''Quinn''],
                       comments = [''Ticket notes were incomplete.''],
                       sn_ratings = [], manual_grades = [CStr ''B+''] \<rparr>"
  "manual_aggregates ''erin'' = empty_aggregate"
  "sn_aggregates ''bob'' = \<lparr> team_leads = [''Alice''], assessors = [''Quinn''],
                     comments = [''Probing was thin.''],
                     sn_ratings = [CStr ''4.5''], manual_grades = [] \<rparr>"
  "sn_aggregates ''carol'' = \<lparr> team_leads = [''Zed''], assessors = [''Rae''],
                       comments = [''Hold time was long.''],
                       sn_ratings = [CInt 4], manual_grades = [] \<rparr>"
  "sn_aggregates ''erin'' = \<lparr> team_leads = [''Zed''], assessors = [''Rae''],
                      comments = [''Summary was missing.''],
                      sn_ratings = [CStr ''n/a''], manual_grades = [] \<rparr>"
  by (simp_all add: manual_aggregates_def sn_aggregates_def)

lemma week_label: "month_abbr 3 = Inr ''Mar''" "show_int 2 = ''2''"
  by (simp_all add: month_abbr_def show_int_def show_nat_digit digit_char_def)

lemma bob_rec:
  "make_rec exact_lib ''Mar'' 2 (manual_aggregates ''bob'') (sn_aggregates ''bob'') ''bob'' t
     = bob_row\<lparr>areas_to_improve := t\<rparr>"
  by (simp add: make_rec_def aggregates_at leads assessor_lists week_label bob_row_def
      service_now_ratings_def service_now_avg_def manual_average_def average_of_grades_def
      List.map_filter_simps numbers lib_ops)

lemma carol_rec:
  "make_rec exact_lib ''Mar'' 2 (manual_aggregates ''carol'') (sn_aggregates ''carol'') ''carol'' t
     = carol_row\<lparr>areas_to_improve := t\<rparr>"
  by (simp add: make_rec_def aggregates_at leads assessor_lists week_label carol_row_def
      service_now_ratings_def service_now_avg_def manual_average_def average_of_grades_def
      List.map_filter_simps numbers letters lib_ops)

lemma erin_rec:
  "make_rec exact_lib ''Mar'' 2 (manual_aggregates ''erin'') (sn_aggregates ''erin'') ''erin'' t
     = erin_row\<lparr>areas_to_improve := t\<rparr>"
  by (simp add: make_rec_def aggregates_at leads assessor_lists week_label erin_row_def
      service_now_ratings_def service_now_avg_def manual_average_def average_of_grades_def
      List.map_filter_simps numbers letters lib_ops empty_aggregate_def)

lemma example_synthesis:
  assumes "steady st" "filter (\<lambda>c. strip c \<noteq> []) cs \<noteq> []"
  shows "synthesize_areas_to_improve answering three_keys cs name seed st
     = Inr (''Verify the user first.'', st\<lparr>groq_key_index := Some 0, requests := requests st + 2\<rparr>)"
  using assms by (simp add: synthesize_areas_to_improve_def cleaned_bits_def answering_completion)

lemma example_record:
  assumes "steady st" "filter (\<lambda>c. strip c \<noteq> []) (comments (am name) @ comments (as name)) \<noteq> []"
  shows "tracker_record exact_lib answering three_keys 3 2 seed am as name st
     = Inr (make_rec exact_lib ''Mar'' 2 (am name) (as name) name ''Verify the user first.'',
                  st\<lparr>groq_key_index := Some 0, requests := requests st + 2\<rparr>)"
  using assms by (simp add: tracker_record_def example_synthesis week_label)

lemma example_records:
  "tracker_records exact_lib answering three_keys 3 2 [] manual_aggregates sn_aggregates
     [''bob'', ''carol'', ''erin''] fresh
   = Inr ([bob_row, carol_row, erin_row], fresh\<lparr>groq_key_index := Some 0, requests := 6\<rparr>)"
proof -
  have s: "steady fresh" "steady (fresh\<lparr>groq_key_index := Some 0, requests := 2\<rparr>)"
    "steady (fresh\<lparr>groq_key_index := Some 0, requests := 4\<rparr>)"
    by (simp_all add: steady_def fresh_def)
  have c: "filter (\<lambda>c. strip c \<noteq> []) (comments (manual_aggregates name) @ comments (sn_aggregates name)) \<noteq> []"
    if "name \<in> {''bob'', ''carol'', ''erin''}" for name
    using that by (auto simp: aggregates_at empty_aggregate_def text_defs)
  have f: "requests fresh = 0"
    by (simp add: fresh_def)
  have b: "bob_row\<lparr>areas_to_improve := ''Verify the user first.''\<rparr> = bob_row"
    "carol_row\<lparr>areas_to_improve := ''Verify the user first.''\<rparr> = carol_row"
    "erin_row\<lparr>areas_to_improve := ''Verify the user first.''\<rparr> = erin_row"
    by (simp_all add: bob_row_def carol_row_def erin_row_def)
  have r1: "tracker_record exact_lib answering three_keys 3 2 [] manual_aggregates sn_aggregates
      ''bob'' fresh = Inr (bob_row, fresh\<lparr>groq_key_index := Some 0, requests := 2\<rparr>)"
    using example_record [where st = "fresh" and am = manual_aggregates and as = sn_aggregates
        and name = "''bob''" and seed = "[]"] s c [of "''bob''"]
    by (simp add: bob_rec b f)
  have r2: "tracker_record exact_lib answering three_keys 3 2 [] manual_aggregates sn_aggregates
      ''carol'' (fresh\<lparr>groq_key_index := Some 0, requests := 2\<rparr>)
      = Inr (carol_row, fresh\<lparr>groq_key_index := Some 0, requests := 4\<rparr>)"
    using example_record [where st = "fresh\<lparr>groq_key_index := Some 0, requests := 2\<rparr>" and am = manual_aggregates and as = sn_aggregates
        and name = "''carol''" and seed = "[]"] s c [of "''carol''"]
    by (simp add: carol_rec b)
  have r3: "tracker_record exact_lib answering three_keys 3 2 [] manual_aggregates sn_aggregates
      ''erin'' (fresh\<lparr>groq_key_index := Some 0, requests := 4\<rparr>)
      = Inr (erin_row, fresh\<lparr>groq_key_index := Some 0, requests := 6\<rparr>)"
    using example_record [where st = "fresh\<lparr>groq_key_index := Some 0, requests := 4\<rparr>" and am = manual_aggregates and as = sn_aggregates
        and name = "''erin''" and seed = "[]"] s c [of "''erin''"]
    by (simp add: erin_rec b)
  have t0: "tracker_records exact_lib answering three_keys 3 2 [] manual_aggregates sn_aggregates
     [] st = Inr ([], st)" for st
    by simp
  have t3: "tracker_records exact_lib answering three_keys 3 2 [] manual_aggregates sn_aggregates
     [''erin''] (fresh\<lparr>groq_key_index := Some 0, requests := 4\<rparr>)
     = Inr ([erin_row], fresh\<lparr>groq_key_index := Some 0, requests := 6\<rparr>)"
    by (subst tracker_records.simps) (simp only: r3 t0 option.case sum.case prod.case)
  have t2: "tracker_records exact_lib answering three_keys 3 2 [] manual_aggregates sn_aggregates
     [''carol'', ''erin''] (fresh\<lparr>groq_key_index := Some 0, requests := 2\<rparr>)
     = Inr ([carol_row, erin_row], fresh\<lparr>groq_key_index := Some 0, requests := 6\<rparr>)"
    by (subst tracker_records.simps) (simp only: r2 t3 option.case sum.case prod.case)
  show ?thesis
    by (subst tracker_records.simps) (simp only: r1 t2 option.case sum.case prod.case)
qed

lemma example_run:
  "generate_records exact_lib (build_employee_key exact_lib) answering three_keys
     manual_sheet sn_sheet 3 2 [] fresh
   = Inr ([bob_row, carol_row, erin_row], fresh\<lparr>groq_key_index := Some 0, requests := 6\<rparr>)"
  by (simp add: generate_records_def manual_filtered sn_filtered manual_per_employee
      sn_per_employee names example_records del: tracker_records.simps)

section \<open>Claim C5: when every key is turned down\<close>





section \<open>Claim C8: averages are numbers or empty\<close>

text \<open>
  C8. In every row of a tracker that \<open>generate_tracker\<close> returns, the Service Now average
  is the rounded mean of the ratings that \<open>pd.to_numeric\<close> coerces to a number (the others
  are dropped), or the empty string when there is none; the Manual average is the rounded
  mean of the numeric grades, or else of the letter grades mapped through the fixed table,
  or else the empty string. So both fields are a number or the empty string.
\<close>

theorem tracker_averages_numeric_or_empty:
  "generate_tracker L bek W ks manual_df sn_df m w seed st = Inr (out, st') \<longrightarrow>
     (\<exists>mdf sdf recs.
        out = tracker_frame recs
        \<and> filtered L manual_df m w = Inr mdf \<and> filtered L sn_df m w = Inr sdf
        \<and> (\<forall>r\<in>set recs.
              (let ratings = sn_ratings (per_employee L bek sdf (extract_people_fields sn_df)
                                           (employee_name r));
                   grades = manual_grades (per_employee L bek mdf (extract_people_fields manual_df)
                                             (employee_name r))
               in sn_avg r =
                    (if numeric_entries L ratings = [] then CStr []
                     else CFloat (round2 L (np_mean L (numeric_entries L ratings))))
                  \<and> manual_avg r =
                    (if numeric_entries L grades \<noteq> []
                     then CFloat (round2 L (np_mean L (numeric_entries L grades)))
                     else if letter_scores L grades \<noteq> []
                     then CFloat (round2 L (np_mean L (letter_scores L grades)))
                     else CStr [])
                  \<and> set (letter_scores L grades) \<subseteq> snd ` set grade_table
                  \<and> (sn_avg r = CStr [] \<or> (\<exists>q. sn_avg r = CFloat q))
                  \<and> (manual_avg r = CStr [] \<or> (\<exists>q. manual_avg r = CFloat q)))))"
proof
  assume run: "generate_tracker L bek W ks manual_df sn_df m w seed st = Inr (out, st')"
  then obtain recs where out: "out = tracker_frame recs"
    and recs: "generate_records L bek W ks manual_df sn_df m w seed st = Inr (recs, st')"
    by (rule generate_tracker_Inr)
  from recs obtain mdf sdf where
    f: "filtered L manual_df m w = Inr mdf" "filtered L sn_df m w = Inr sdf"
    and t: "tracker_records L W ks m w seed
       (per_employee L bek mdf (extract_people_fields manual_df))
       (per_employee L bek sdf (extract_people_fields sn_df))
       (all_names L bek mdf (extract_people_fields manual_df) sdf (extract_people_fields sn_df)) st
     = Inr (recs, st')"
    by (rule generate_records_Inr)
  have "let ratings = sn_ratings (per_employee L bek sdf (extract_people_fields sn_df)
                                           (employee_name r));
            grades = manual_grades (per_employee L bek mdf (extract_people_fields manual_df)
                                             (employee_name r))
        in sn_avg r =
                    (if numeric_entries L ratings = [] then CStr []
                     else CFloat (round2 L (np_mean L (numeric_entries L ratings))))
                  \<and> manual_avg r =
                    (if numeric_entries L grades \<noteq> []
                     then CFloat (round2 L (np_mean L (numeric_entries L grades)))
                     else if letter_scores L grades \<noteq> []
                     then CFloat (round2 L (np_mean L (letter_scores L grades)))
                     else CStr [])
                  \<and> set (letter_scores L grades) \<subseteq> snd ` set grade_table
                  \<and> (sn_avg r = CStr [] \<or> (\<exists>q. sn_avg r = CFloat q))
                  \<and> (manual_avg r = CStr [] \<or> (\<exists>q. manual_avg r = CFloat q))"
    if "r \<in> set recs" for r
  proof -
    from records_are_made [OF t] that obtain mon where
      "r = make_rec L mon w
             (per_employee L bek mdf (extract_people_fields manual_df) (employee_name r))
             (per_employee L bek sdf (extract_people_fields sn_df) (employee_name r))
             (employee_name r) (areas_to_improve r)"
      by blast
    then have
      "sn_avg r = sn_avg (make_rec L mon w
             (per_employee L bek mdf (extract_people_fields manual_df) (employee_name r))
             (per_employee L bek sdf (extract_people_fields sn_df) (employee_name r))
             (employee_name r) (areas_to_improve r))"
      "manual_avg r = manual_avg (make_rec L mon w
             (per_employee L bek mdf (extract_people_fields manual_df) (employee_name r))
             (per_employee L bek sdf (extract_people_fields sn_df) (employee_name r))
             (employee_name r) (areas_to_improve r))"
      by simp_all
    then show ?thesis
      using letter_scores_in_table
      by (simp add: make_rec_sn_avg make_rec_manual_avg Let_def)
  qed
  with out f show "\<exists>mdf sdf recs.
        out = tracker_frame recs
        \<and> filtered L manual_df m w = Inr mdf \<and> filtered L sn_df m w = Inr sdf
        \<and> (\<forall>r\<in>set recs.
              (let ratings = sn_ratings (per_employee L bek sdf (extract_people_fields sn_df)
                                           (employee_name r));
                   grades = manual_grades (per_employee L bek mdf (extract_people_fields manual_df)
                                             (employee_name r))
               in sn_avg r =
                    (if numeric_entries L ratings = [] then CStr []
                     else CFloat (round2 L (np_mean L (numeric_entries L ratings))))
                  \<and> manual_avg r =
                    (if numeric_entries L grades \<noteq> []
                     then CFloat (round2 L (np_mean L (numeric_entries L grades)))
                     else if letter_scores L grades \<noteq> []
                     then CFloat (round2 L (np_mean L (letter_scores L grades)))
                     else CStr [])
                  \<and> set (letter_scores L grades) \<subseteq> snd ` set grade_table
                  \<and> (sn_avg r = CStr [] \<or> (\<exists>q. sn_avg r = CFloat q))
                  \<and> (manual_avg r = CStr [] \<or> (\<exists>q. manual_avg r = CFloat q))))"
    by blast
qed

lemma example_tracker:
  "generate_tracker exact_lib (build_employee_key exact_lib) answering three_keys
     manual_sheet sn_sheet 3 2 [] fresh
   = Inr (tracker_frame [bob_row, carol_row, erin_row],
                fresh\<lparr>groq_key_index := Some 0, requests := 6\<rparr>)"
  by (simp add: generate_tracker_def example_run)

theorem tracker_averages_numeric_or_empty_witness:
  "generate_tracker exact_lib (build_employee_key exact_lib) answering three_keys
     manual_sheet sn_sheet 3 2 [] fresh
   = Inr (tracker_frame [bob_row, carol_row, erin_row],
                fresh\<lparr>groq_key_index := Some 0, requests := 6\<rparr>)
   \<and> map sn_avg [bob_row, carol_row, erin_row] = [CFloat (9 / 2), CFloat 4, CStr []]
   \<and> map manual_avg [bob_row, carol_row, erin_row] = [CFloat 4, CFloat (43 / 10), CStr []]
   \<and> numeric_entries exact_lib (manual_grades (manual_aggregates ''bob'')) = [4]
   \<and> letter_scores exact_lib (manual_grades (manual_aggregates ''carol'')) = [43 / 10]
   \<and> numeric_entries exact_lib (sn_ratings (sn_aggregates ''erin'')) = []"
proof -
  note tracker_averages_numeric_or_empty
    [of exact_lib "build_employee_key exact_lib" answering three_keys manual_sheet sn_sheet 3 2 "[]"
      fresh "tracker_frame [bob_row, carol_row, erin_row]"
      "fresh\<lparr>groq_key_index := Some 0, requests := 6\<rparr>"]
  with example_tracker have "\<exists>recs. tracker_frame [bob_row, carol_row, erin_row] = tracker_frame recs"
    by blast
  moreover have "map sn_avg [bob_row, carol_row, erin_row] = [CFloat (9 / 2), CFloat 4, CStr []]"
    "map manual_avg [bob_row, carol_row, erin_row] = [CFloat 4, CFloat (43 / 10), CStr []]"
    by (simp_all add: bob_row_def carol_row_def erin_row_def)
  moreover have "numeric_entries exact_lib (manual_grades (manual_aggregates ''bob'')) = [4]"
    "letter_scores exact_lib (manual_grades (manual_aggregates ''carol'')) = [43 / 10]"
    "numeric_entries exact_lib (sn_ratings (sn_aggregates ''erin'')) = []"
    by (simp_all add: numeric_entries_def letter_scores_def aggregates_at List.map_filter_simps
        numbers letters)
  ultimately show ?thesis
    using example_tracker by simp
qed

section \<open>The small sheets, evaluated\<close>

lemmas candidate_defs = EMPLOYEE_NAME_def TRAINEE_NAME_def ANALYST_NAME_def TEAM_LEAD_def MANAGER_def
      QUALITY_ASSESSOR_def WEEK_def DATE_def SN_RATING_def MANUAL_GRADE_def COMMENTS_def

lemma no_frame_fields: "extract_people_fields no_frame = no_fields"
  by (simp add: extract_people_fields_def no_frame_def no_fields_def pick_defs)

lemma wk_fields:
  "extract_people_fields wk_sheet
     = no_fields\<lparr>name_col := Some (Name ''Employee Name''), manual_grade_col := Some (Name ''Grade'')\<rparr>"
  by (simp add: extract_people_fields_def wk_sheet_def no_fields_def pick_defs text_defs
      candidate_defs)

lemma lead_fields:
  "extract_people_fields lead_export
     = no_fields\<lparr>name_col := Some (Name ''Employee Name''), tl_col := Some (Name ''Manager''),
         sn_rating_col := Some (Name ''Rating'')\<rparr>"
  by (simp add: extract_people_fields_def lead_export_def no_fields_def pick_defs text_defs
      candidate_defs)

lemma blank_fields:
  "extract_people_fields blank_lead_sheet
     = no_fields\<lparr>name_col := Some (Name ''Employee Name''), tl_col := Some (Name ''Team Lead''),
         qa_col := Some (Name ''Assessor'')\<rparr>"
  by (simp add: extract_people_fields_def blank_lead_sheet_def no_fields_def pick_defs text_defs
      candidate_defs)

lemma name_fields:
  "extract_people_fields name_sheet = no_fields\<lparr>name_col := Some (Name ''Employee Name'')\<rparr>"
  by (simp add: extract_people_fields_def name_sheet_def no_fields_def pick_defs text_defs
      candidate_defs)

lemma unresolved_mask:
  "\<not> label_true wk \<Longrightarrow> \<not> label_true dt \<Longrightarrow>
     get_week_filter_mask L (Some df) wk dt month_n week_n
       = Inr (if df_empty df then [] else replicate (length (rows df)) True)"
  by (simp add: get_week_filter_mask_def)

lemma unresolved_filtered:
  assumes "\<not> label_true (week_col (extract_people_fields df))"
    "\<not> label_true (date_col (extract_people_fields df))"
  shows "filtered L df month_n week_n = Inr df"
  using unresolved_mask [OF assms] select_rows_all_True [of df]
  by (simp add: filtered_def Let_def)

lemma small_filtered:
  "filtered L no_frame m w = Inr no_frame"
  "filtered L wk_sheet m w = Inr wk_sheet"
  "filtered L lead_export m w = Inr lead_export"
  "filtered L blank_lead_sheet m w = Inr blank_lead_sheet"
  "filtered L name_sheet m w = Inr name_sheet"
  by (rule unresolved_filtered;
      simp add: no_frame_fields wk_fields lead_fields blank_fields name_fields no_fields_def
        label_true_def)+

lemma small_shape:
  "columns no_frame = []" "rows no_frame = []"
  "columns wk_sheet = [Name ''Employee Name'', Name ''Wk'', Name ''Grade'']"
  "rows wk_sheet = [[CStr ''Bob'', CInt 3, CStr ''A'']]"
  "columns lead_export = [Name ''Employee Name'', Name ''Manager'', Name ''Rating'']"
  "rows lead_export = [[CStr ''bob'', CStr ''Alice'', CInt 4]]"
  "columns blank_lead_sheet = [Name ''Employee Name'', Name ''Team Lead'', Name ''Assessor'']"
  "rows blank_lead_sheet = [[CStr ''Carol'', CNaN, CNaN]]"
  "columns name_sheet = [Name ''Employee Name'']"
  "rows name_sheet = [[CStr ''Bob'']]"
  by (simp_all add: no_frame_def wk_sheet_def lead_export_def blank_lead_sheet_def name_sheet_def)

lemma small_keys:
  "build_employee_key exact_lib (CStr ''Bob'') = Some ''bob''"
  by (simp_all add: build_employee_key_def norm_cell_def text_defs)

lemma small_names:
  "all_names exact_lib (build_employee_key exact_lib) wk_sheet (extract_people_fields wk_sheet)
     no_frame (extract_people_fields no_frame) = [''bob'']"
  "all_names exact_lib (build_employee_key exact_lib) wk_sheet (extract_people_fields wk_sheet)
     lead_export (extract_people_fields lead_export) = [''bob'']"
  "all_names exact_lib (build_employee_key exact_lib) blank_lead_sheet
     (extract_people_fields blank_lead_sheet) no_frame (extract_people_fields no_frame) = [''carol'']"
  "all_names exact_lib (build_employee_key exact_lib) name_sheet (extract_people_fields name_sheet)
     no_frame (extract_people_fields no_frame) = [''bob'']"
  "all_names exact_lib (build_employee_key exact_lib) no_frame (extract_people_fields no_frame)
     no_frame (extract_people_fields no_frame) = []"
  by (simp_all add: all_names_sort no_frame_fields wk_fields lead_fields blank_fields name_fields
      no_fields_def name_keys_def label_true_def small_shape cell_at_def isna_def py_str_def
      keys small_keys List.map_filter_simps)

lemma small_aggregates:
  "per_employee exact_lib (build_employee_key exact_lib) no_frame (extract_people_fields no_frame) name
     = empty_aggregate"
  "per_employee exact_lib (build_employee_key exact_lib) wk_sheet (extract_people_fields wk_sheet) ''bob''
     = empty_aggregate\<lparr>manual_grades := [CStr ''A'']\<rparr>"
  "per_employee exact_lib (build_employee_key exact_lib) lead_export (extract_people_fields lead_export) ''bob''
     = empty_aggregate\<lparr>team_leads := [''Alice''], sn_ratings := [CInt 4]\<rparr>"
  "per_employee exact_lib (build_employee_key exact_lib) blank_lead_sheet
     (extract_people_fields blank_lead_sheet) ''carol''
     = empty_aggregate\<lparr>team_leads := [''nan''], assessors := [''nan'']\<rparr>"
  "per_employee exact_lib (build_employee_key exact_lib) name_sheet (extract_people_fields name_sheet) ''bob''
     = empty_aggregate"
  by (simp_all add: per_employee_def no_frame_fields wk_fields lead_fields blank_fields name_fields
      no_fields_def label_true_def df_empty_def small_shape per_employee_row_def cell_at_def
      get_opt_def keys small_keys truthy_def py_str_def empty_aggregate_def)

lemma dated_fields:
  "extract_people_fields dated_sheet
     = no_fields\<lparr>name_col := Some (Name ''Employee Name''), week_col := Some (Name ''Week''),
         date_col := Some (Name ''Date'')\<rparr>"
  by (simp add: extract_people_fields_def dated_sheet_def no_fields_def pick_defs text_defs
      candidate_defs)

lemma dated_shape:
  "columns dated_sheet = [Name ''Employee Name'', Name ''Week'', Name ''Date'']"
  "rows dated_sheet = [[CStr ''Bob'', CInt 2, CDate 2024 2 6]]"
  by (simp_all add: dated_sheet_def)

lemma dated_filtered: "filtered exact_lib dated_sheet 3 2 = Inr dated_sheet"
proof -
  have "select_rows dated_sheet [True] = dated_sheet"
    by (simp add: select_rows_def dated_shape)
  then show ?thesis
    by (simp add: filtered_def dated_fields no_fields_def get_week_filter_mask_def
        dated_shape df_empty_def label_true_def cell_at_def week_matches_def
        first_digits_def py_str_def show_int_def show_nat_digit digit_char_def nat_of_digits_def
        digit_val_def is_digit_def)
qed

lemma dated_names:
  "all_names exact_lib (build_employee_key exact_lib) dated_sheet (extract_people_fields dated_sheet)
     no_frame (extract_people_fields no_frame) = [''bob'']"
  by (simp add: all_names_sort no_frame_fields dated_fields
      no_fields_def name_keys_def label_true_def small_shape dated_shape cell_at_def isna_def
      py_str_def keys small_keys List.map_filter_simps)

lemma dated_aggregates:
  "per_employee exact_lib (build_employee_key exact_lib) dated_sheet
     (extract_people_fields dated_sheet) ''bob'' = empty_aggregate"
  by (simp add: per_employee_def dated_fields
      no_fields_def label_true_def df_empty_def dated_shape per_employee_row_def cell_at_def
      get_opt_def keys small_keys truthy_def py_str_def empty_aggregate_def)

lemma more_values:
  "letter_grade_to_score exact_lib (CStr ''A'') = Some 5"
  "round2 exact_lib (np_mean exact_lib [5]) = 5"
  "team_lead_final [] = None" "team_lead_final [''Alice''] = Some ''Alice''"
  "team_lead_final [''nan''] = Some ''nan''"
  "assessors_final [] = None" "assessors_final [''nan''] = Some ''nan''"
  by (simp_all add: letter_grade_to_score_def grade_table_def py_str_def text_defs
      exact_lib_def exact_mean_def exact_round2_def Let_def team_lead_final_def counter_def
      normed_def assessors_final_sort)

lemma small_recs:
  "make_rec exact_lib ''Mar'' 2 (empty_aggregate\<lparr>manual_grades := [CStr ''A'']\<rparr>) empty_aggregate
     ''bob'' [] = (blank_row ''bob'')\<lparr>manual_count := CInt 1, manual_avg := CFloat 5\<rparr>"
  "make_rec exact_lib ''Mar'' 2 (empty_aggregate\<lparr>manual_grades := [CStr ''A'']\<rparr>)
     (empty_aggregate\<lparr>team_leads := [''Alice''], sn_ratings := [CInt 4]\<rparr>) ''bob'' []
     = (blank_row ''bob'')\<lparr>team_lead := ''Alice'', sn_count := CInt 1, sn_avg := CFloat 4,
          manual_count := CInt 1, manual_avg := CFloat 5\<rparr>"
  "make_rec exact_lib ''Mar'' 2 (empty_aggregate\<lparr>team_leads := [''nan''], assessors := [''nan'']\<rparr>)
     empty_aggregate ''carol'' []
     = (blank_row ''carol'')\<lparr>team_lead := ''nan'', quality_assessors := ''nan''\<rparr>"
  "make_rec exact_lib ''Mar'' 2 empty_aggregate empty_aggregate ''bob'' [] = blank_row ''bob''"
  by (simp_all add: make_rec_def blank_row_def empty_aggregate_def more_values week_label
      service_now_ratings_def service_now_avg_def manual_average_def average_of_grades_def
      List.map_filter_simps numbers lib_ops)

lemma empty_comments: "comments empty_aggregate = []"
  by (simp add: empty_aggregate_def)

lemma silent_record:
  assumes "comments (am name) = []" "comments (as name) = []"
  shows "tracker_record exact_lib W ks 3 2 seed am as name st
     = Inr (make_rec exact_lib ''Mar'' 2 (am name) (as name) name [], st)"
  using assms by (simp add: tracker_record_def synthesize_nothing week_label)

lemma wk_run:
  "generate_records exact_lib (build_employee_key exact_lib) answering three_keys
     wk_sheet no_frame 3 2 [] fresh
   = Inr ([(blank_row ''bob'')\<lparr>manual_count := CInt 1, manual_avg := CFloat 5\<rparr>], fresh)"
  by (simp add: generate_records_def small_filtered small_names silent_record small_aggregates
      small_recs empty_comments)

lemma lead_run:
  "generate_records exact_lib (build_employee_key exact_lib) answering three_keys
     wk_sheet lead_export 3 2 [] fresh
   = Inr ([(blank_row ''bob'')\<lparr>team_lead := ''Alice'', sn_count := CInt 1, sn_avg := CFloat 4,
          manual_count := CInt 1, manual_avg := CFloat 5\<rparr>], fresh)"
  by (simp add: generate_records_def small_filtered small_names silent_record small_aggregates
      small_recs empty_comments)

lemma blank_run:
  "generate_records exact_lib (build_employee_key exact_lib) answering three_keys
     blank_lead_sheet no_frame 3 2 [] fresh
   = Inr ([(blank_row ''carol'')\<lparr>team_lead := ''nan'', quality_assessors := ''nan''\<rparr>], fresh)"
  by (simp add: generate_records_def small_filtered small_names silent_record small_aggregates
      small_recs empty_comments)

lemma name_run:
  "generate_records exact_lib (build_employee_key exact_lib) answering three_keys
     name_sheet no_frame 3 2 [] fresh
   = Inr ([blank_row ''bob''], fresh)"
  by (simp add: generate_records_def small_filtered small_names silent_record small_aggregates
      small_recs empty_comments)

lemma dated_run:
  "generate_records exact_lib (build_employee_key exact_lib) answering three_keys
     dated_sheet no_frame 3 2 [] fresh
   = Inr ([blank_row ''bob''], fresh)"
  by (simp add: generate_records_def small_filtered dated_filtered dated_names silent_record
      small_aggregates dated_aggregates small_recs empty_comments)

lemma empty_run:
  "generate_records exact_lib (build_employee_key exact_lib) answering three_keys
     no_frame no_frame 3 2 [] fresh
   = Inr ([], fresh)"
  by (simp add: generate_records_def small_filtered small_names)

section \<open>Claim C3: rows kept, one row per key, twelve columns\<close>


lemma all_names_sorted:
  "sorted (all_names L bek mdf mc sdf sc) \<and> distinct (all_names L bek mdf mc sdf sc)"
  by (simp add: all_names_def)

lemma generate_tracker_returns:
  assumes "filtered L manual_df m w = Inr mdf" "filtered L sn_df m w = Inr sdf"
    and "1 \<le> m" "m \<le> 12" and "llm_returns W ks I" "I st"
  shows "\<exists>out st'. generate_tracker L bek W ks manual_df sn_df m w seed st = Inr (out, st')"
proof -
  from generate_records_returns [OF assms] obtain recs st' where
    "generate_records L bek W ks manual_df sn_df m w seed st = Inr (recs, st')"
    by blast
  then show ?thesis by (simp add: generate_tracker_def)
qed

lemma small_trackers:
  "generate_tracker exact_lib (build_employee_key exact_lib) answering three_keys
     wk_sheet no_frame 3 2 [] fresh
   = Inr (tracker_frame [(blank_row ''bob'')\<lparr>manual_count := CInt 1, manual_avg := CFloat 5\<rparr>],
                fresh)"
  "generate_tracker exact_lib (build_employee_key exact_lib) answering three_keys
     wk_sheet lead_export 3 2 [] fresh
   = Inr (tracker_frame [(blank_row ''bob'')\<lparr>team_lead := ''Alice'', sn_count := CInt 1,
          sn_avg := CFloat 4, manual_count := CInt 1, manual_avg := CFloat 5\<rparr>], fresh)"
  "generate_tracker exact_lib (build_employee_key exact_lib) answering three_keys
     blank_lead_sheet no_frame 3 2 [] fresh
   = Inr (tracker_frame [(blank_row ''carol'')\<lparr>team_lead := ''nan'', quality_assessors := ''nan''\<rparr>],
                fresh)"
  "generate_tracker exact_lib (build_employee_key exact_lib) answering three_keys
     name_sheet no_frame 3 2 [] fresh
   = Inr (tracker_frame [blank_row ''bob''], fresh)"
  "generate_tracker exact_lib (build_employee_key exact_lib) answering three_keys
     no_frame no_frame 3 2 [] fresh
   = Inr (tracker_frame [], fresh)"
  "generate_tracker exact_lib (build_employee_key exact_lib) answering three_keys
     dated_sheet no_frame 3 2 [] fresh
   = Inr (tracker_frame [blank_row ''bob''], fresh)"
  by (simp_all add: generate_tracker_def wk_run lead_run blank_run name_run empty_run dated_run)




section \<open>Claims C6 and C1: missing columns and blank cells\<close>

lemma silent_records_return:
  assumes "\<forall>name. comments (am name) = [] \<and> comments (as name) = []" and "1 \<le> m" "m \<le> 12"
  shows "\<exists>recs. tracker_records L W ks m w seed am as names st = Inr (recs, st)"
proof (induction names)
  case Nil
  then show ?case by simp
next
  case (Cons name names)
  from assms(2,3) obtain mon where "month_abbr m = Inr mon"
    by (auto simp: month_abbr_def)
  with assms(1) Cons show ?case
    by (auto simp: tracker_record_def synthesize_nothing)
qed

lemma unavailable_comments:
  "comments_col cols = None \<or> name_col cols = None \<Longrightarrow> comments (per_employee L bek df cols name) = []"
  by (auto simp: no_comments_column no_name_column label_true_def empty_aggregate_def)

lemma unavailable_team_leads:
  "tl_col cols = None \<or> name_col cols = None \<Longrightarrow> team_leads (per_employee L bek df cols name) = []"
  by (auto simp: no_team_lead_column no_name_column label_true_def empty_aggregate_def)

lemma unavailable_assessors:
  "qa_col cols = None \<or> name_col cols = None \<Longrightarrow> assessors (per_employee L bek df cols name) = []"
  by (auto simp: no_assessor_column no_name_column label_true_def empty_aggregate_def)

lemma unavailable_ratings:
  "sn_rating_col cols = None \<or> name_col cols = None \<Longrightarrow> sn_ratings (per_employee L bek df cols name) = []"
  by (auto simp: no_rating_column no_name_column label_true_def empty_aggregate_def)

lemma unavailable_grades:
  "manual_grade_col cols = None \<or> name_col cols = None \<Longrightarrow>
     manual_grades (per_employee L bek df cols name) = []"
  by (auto simp: no_grade_column no_name_column label_true_def empty_aggregate_def)

lemma make_rec_empty_fields:
  "team_leads am = [] \<Longrightarrow> team_leads as = [] \<Longrightarrow> team_lead (make_rec L mon w am as name t) = []"
  "assessors am = [] \<Longrightarrow> assessors as = [] \<Longrightarrow> quality_assessors (make_rec L mon w am as name t) = []"
  "sn_ratings as = [] \<Longrightarrow> sn_count (make_rec L mon w am as name t) = CStr []
      \<and> sn_avg (make_rec L mon w am as name t) = CStr []"
  "manual_grades am = [] \<Longrightarrow> manual_count (make_rec L mon w am as name t) = CStr []
      \<and> manual_avg (make_rec L mon w am as name t) = CStr []"
  by (simp_all add: make_rec_def team_lead_final_def assessors_final_def normed_def
      service_now_ratings_def service_now_avg_def manual_average_def List.map_filter_simps)

text \<open>
  C6, amended. The tracker merges the two tables, so a field read from both is empty when
  its column (or the name column) is unresolved in both: Team Lead, Quality Assessors and
  Areas to Improve. The Service Now count and average are empty when the rating or name
  column of the ticketing table is unresolved, the Manual count and average when the grade
  or name column of the manual table is. With no name column in either table there is no
  row. The run returns when both filters read their dates, the month is one of 1..12 and
  the text completions return; with no comments column in either table no completion is
  requested and the session is unchanged.
\<close>

theorem missing_columns_give_empty_fields:
  "(let mc = extract_people_fields manual_df; sc = extract_people_fields sn_df
    in (generate_tracker L bek W ks manual_df sn_df m w seed st = Inr (out, st') \<longrightarrow>
         (\<exists>recs. out = tracker_frame recs
            \<and> (\<forall>r\<in>set recs.
                  ((tl_col mc = None \<or> name_col mc = None) \<and> (tl_col sc = None \<or> name_col sc = None)
                     \<longrightarrow> team_lead r = [])
                  \<and> ((qa_col mc = None \<or> name_col mc = None) \<and> (qa_col sc = None \<or> name_col sc = None)
                     \<longrightarrow> quality_assessors r = [])
                  \<and> ((comments_col mc = None \<or> name_col mc = None)
                       \<and> (comments_col sc = None \<or> name_col sc = None)
                     \<longrightarrow> areas_to_improve r = [])
                  \<and> (sn_rating_col sc = None \<or> name_col sc = None
                     \<longrightarrow> sn_count r = CStr [] \<and> sn_avg r = CStr [])
                  \<and> (manual_grade_col mc = None \<or> name_col mc = None
                     \<longrightarrow> manual_count r = CStr [] \<and> manual_avg r = CStr []))
            \<and> (name_col mc = None \<and> name_col sc = None \<longrightarrow> recs = [])))
       \<and> ((\<exists>mdf. filtered L manual_df m w = Inr mdf) \<and> (\<exists>sdf. filtered L sn_df m w = Inr sdf)
            \<and> 1 \<le> m \<and> m \<le> 12 \<and> llm_returns W ks I \<and> I st
          \<longrightarrow> (\<exists>out st'. generate_tracker L bek W ks manual_df sn_df m w seed st
                            = Inr (out, st')))
       \<and> ((\<exists>mdf. filtered L manual_df m w = Inr mdf) \<and> (\<exists>sdf. filtered L sn_df m w = Inr sdf)
            \<and> 1 \<le> m \<and> m \<le> 12
            \<and> (comments_col mc = None \<or> name_col mc = None)
            \<and> (comments_col sc = None \<or> name_col sc = None)
          \<longrightarrow> (\<exists>out. generate_tracker L bek W ks manual_df sn_df m w seed st
                        = Inr (out, st))))"
proof -
  define mc where "mc = extract_people_fields manual_df"
  define sc where "sc = extract_people_fields sn_df"
  have fields: "\<exists>recs. out = tracker_frame recs
            \<and> (\<forall>r\<in>set recs.
                  ((tl_col mc = None \<or> name_col mc = None) \<and> (tl_col sc = None \<or> name_col sc = None)
                     \<longrightarrow> team_lead r = [])
                  \<and> ((qa_col mc = None \<or> name_col mc = None) \<and> (qa_col sc = None \<or> name_col sc = None)
                     \<longrightarrow> quality_assessors r = [])
                  \<and> ((comments_col mc = None \<or> name_col mc = None)
                       \<and> (comments_col sc = None \<or> name_col sc = None)
                     \<longrightarrow> areas_to_improve r = [])
                  \<and> (sn_rating_col sc = None \<or> name_col sc = None
                     \<longrightarrow> sn_count r = CStr [] \<and> sn_avg r = CStr [])
                  \<and> (manual_grade_col mc = None \<or> name_col mc = None
                     \<longrightarrow> manual_count r = CStr [] \<and> manual_avg r = CStr []))
            \<and> (name_col mc = None \<and> name_col sc = None \<longrightarrow> recs = [])"
    if run: "generate_tracker L bek W ks manual_df sn_df m w seed st = Inr (out, st')"
  proof -
    from run obtain recs where out: "out = tracker_frame recs"
      and recs: "generate_records L bek W ks manual_df sn_df m w seed st = Inr (recs, st')"
      by (rule generate_tracker_Inr)
    from recs obtain mdf sdf where
      t: "tracker_records L W ks m w seed (per_employee L bek mdf mc) (per_employee L bek sdf sc)
            (all_names L bek mdf mc sdf sc) st = Inr (recs, st')"
      unfolding mc_def sc_def by (rule generate_records_Inr)
    let ?am = "per_employee L bek mdf mc" and ?as = "per_employee L bek sdf sc"
    have each: "((tl_col mc = None \<or> name_col mc = None) \<and> (tl_col sc = None \<or> name_col sc = None)
                     \<longrightarrow> team_lead r = [])
                  \<and> ((qa_col mc = None \<or> name_col mc = None) \<and> (qa_col sc = None \<or> name_col sc = None)
                     \<longrightarrow> quality_assessors r = [])
                  \<and> ((comments_col mc = None \<or> name_col mc = None)
                       \<and> (comments_col sc = None \<or> name_col sc = None)
                     \<longrightarrow> areas_to_improve r = [])
                  \<and> (sn_rating_col sc = None \<or> name_col sc = None
                     \<longrightarrow> sn_count r = CStr [] \<and> sn_avg r = CStr [])
                  \<and> (manual_grade_col mc = None \<or> name_col mc = None
                     \<longrightarrow> manual_count r = CStr [] \<and> manual_avg r = CStr [])"
      if "r \<in> set recs" for r
    proof -
      from records_are_made [OF t] that obtain mon st1 st2 where
        syn: "synthesize_areas_to_improve W ks
                 (comments (?am (employee_name r)) @ comments (?as (employee_name r)))
                 (employee_name r) seed st1 = Inr (areas_to_improve r, st2)"
        and mk: "r = make_rec L mon w (?am (employee_name r)) (?as (employee_name r))
                   (employee_name r) (areas_to_improve r)"
        by blast
      have tl: "team_lead r = []"
        if "tl_col mc = None \<or> name_col mc = None" "tl_col sc = None \<or> name_col sc = None"
        by (subst mk) (simp add: make_rec_empty_fields unavailable_team_leads that)
      have qa: "quality_assessors r = []"
        if "qa_col mc = None \<or> name_col mc = None" "qa_col sc = None \<or> name_col sc = None"
        by (subst mk) (simp add: make_rec_empty_fields unavailable_assessors that)
      have cm: "areas_to_improve r = []"
        if "comments_col mc = None \<or> name_col mc = None" "comments_col sc = None \<or> name_col sc = None"
        using syn by (simp add: unavailable_comments that synthesize_nothing)
      have sr: "sn_count r = CStr [] \<and> sn_avg r = CStr []"
        if "sn_rating_col sc = None \<or> name_col sc = None"
        by (subst (1 2) mk) (simp add: make_rec_empty_fields unavailable_ratings that)
      have mg: "manual_count r = CStr [] \<and> manual_avg r = CStr []"
        if "manual_grade_col mc = None \<or> name_col mc = None"
        by (subst (1 2) mk) (simp add: make_rec_empty_fields unavailable_grades that)
      from tl qa cm sr mg show ?thesis by blast
    qed
    have none: "recs = []" if "name_col mc = None" "name_col sc = None"
    proof -
      from that have "all_names L bek mdf mc sdf sc = []"
        by (simp add: all_names_def no_name_keys label_true_def)
      with tracker_records_names [OF t] show ?thesis by simp
    qed
    show ?thesis
    proof (intro exI conjI ballI impI)
      show "out = tracker_frame recs" by (rule out)
    qed (use each none in \<open>blast+\<close>)
  qed
  have returns: "\<exists>out st'. generate_tracker L bek W ks manual_df sn_df m w seed st = Inr (out, st')"
    if "(\<exists>mdf. filtered L manual_df m w = Inr mdf) \<and> (\<exists>sdf. filtered L sn_df m w = Inr sdf)
            \<and> 1 \<le> m \<and> m \<le> 12 \<and> llm_returns W ks I \<and> I st"
    using that generate_tracker_returns by blast
  have silent: "\<exists>out. generate_tracker L bek W ks manual_df sn_df m w seed st = Inr (out, st)"
    if f: "(\<exists>mdf. filtered L manual_df m w = Inr mdf) \<and> (\<exists>sdf. filtered L sn_df m w = Inr sdf)"
      and m: "1 \<le> m" "m \<le> 12"
      and c: "comments_col mc = None \<or> name_col mc = None" "comments_col sc = None \<or> name_col sc = None"
  proof -
    from f obtain mdf sdf where
      f': "filtered L manual_df m w = Inr mdf" "filtered L sn_df m w = Inr sdf"
      by blast
    have "\<forall>name. comments (per_employee L bek mdf mc name) = []
             \<and> comments (per_employee L bek sdf sc name) = []"
      by (simp add: unavailable_comments c)
    from silent_records_return [OF this m]
    obtain recs where "tracker_records L W ks m w seed (per_employee L bek mdf mc)
        (per_employee L bek sdf sc) (all_names L bek mdf mc sdf sc) st = Inr (recs, st)"
      by blast
    with f' show ?thesis
      by (simp add: generate_tracker_def generate_records_def mc_def sc_def)
  qed
  from fields returns silent show ?thesis
    unfolding Let_def mc_def [symmetric] sc_def [symmetric] by blast
qed


text \<open>
  C6, as stated, fails for a manual sheet with no team-lead column: the row of its employee
  carries the team lead that the other table names.
\<close>

theorem missing_columns_give_empty_fields_counterexample:
  "tl_col (extract_people_fields wk_sheet) = None
   \<and> generate_tracker exact_lib (build_employee_key exact_lib) answering three_keys
        wk_sheet lead_export 3 2 [] fresh
      = Inr (tracker_frame [(blank_row ''bob'')\<lparr>team_lead := ''Alice'', sn_count := CInt 1,
          sn_avg := CFloat 4, manual_count := CInt 1, manual_avg := CFloat 5\<rparr>], fresh)
   \<and> team_lead ((blank_row ''bob'')\<lparr>team_lead := ''Alice'', sn_count := CInt 1,
          sn_avg := CFloat 4, manual_count := CInt 1, manual_avg := CFloat 5\<rparr>) \<noteq> []"
  by (simp add: small_trackers wk_fields no_fields_def)

theorem missing_columns_give_empty_fields_witness:
  "name_col (extract_people_fields name_sheet) = Some (Name ''Employee Name'')
   \<and> tl_col (extract_people_fields name_sheet) = None \<and> tl_col (extract_people_fields no_frame) = None
   \<and> qa_col (extract_people_fields name_sheet) = None \<and> qa_col (extract_people_fields no_frame) = None
   \<and> comments_col (extract_people_fields name_sheet) = None
   \<and> comments_col (extract_people_fields no_frame) = None
   \<and> sn_rating_col (extract_people_fields no_frame) = None
   \<and> manual_grade_col (extract_people_fields name_sheet) = None
   \<and> filtered exact_lib name_sheet 3 2 = Inr name_sheet
   \<and> filtered exact_lib no_frame 3 2 = Inr no_frame
   \<and> llm_returns answering three_keys steady \<and> steady fresh
   \<and> generate_tracker exact_lib (build_employee_key exact_lib) answering three_keys
        name_sheet no_frame 3 2 [] fresh
      = Inr (tracker_frame [blank_row ''bob''], fresh)
   \<and> (\<exists>recs. tracker_frame [blank_row ''bob''] = tracker_frame recs
         \<and> (\<forall>r\<in>set recs. team_lead r = [] \<and> quality_assessors r = [] \<and> areas_to_improve r = []
               \<and> sn_count r = CStr [] \<and> sn_avg r = CStr []
               \<and> manual_count r = CStr [] \<and> manual_avg r = CStr []))
   \<and> (\<exists>out. generate_tracker exact_lib (build_employee_key exact_lib) answering three_keys
          name_sheet no_frame 3 2 [] fresh = Inr (out, fresh))"
proof -
  have f: "name_col (extract_people_fields name_sheet) = Some (Name ''Employee Name'')"
    "tl_col (extract_people_fields name_sheet) = None" "tl_col (extract_people_fields no_frame) = None"
    "qa_col (extract_people_fields name_sheet) = None" "qa_col (extract_people_fields no_frame) = None"
    "comments_col (extract_people_fields name_sheet) = None"
    "comments_col (extract_people_fields no_frame) = None"
    "sn_rating_col (extract_people_fields no_frame) = None"
    "manual_grade_col (extract_people_fields name_sheet) = None"
    by (simp_all add: name_fields no_frame_fields no_fields_def)
  have g: "filtered exact_lib name_sheet 3 2 = Inr name_sheet"
    "filtered exact_lib no_frame 3 2 = Inr no_frame"
    "llm_returns answering three_keys steady" "steady fresh"
    by (simp_all add: small_filtered answering_returns steady_fresh)
  have r: "generate_tracker exact_lib (build_employee_key exact_lib) answering three_keys
        name_sheet no_frame 3 2 [] fresh
      = Inr (tracker_frame [blank_row ''bob''], fresh)"
    by (simp add: small_trackers)
  from missing_columns_give_empty_fields
    [where manual_df = name_sheet and sn_df = no_frame and L = exact_lib
       and bek = "build_employee_key exact_lib" and W = answering and ks = three_keys
       and m = 3 and w = 2 and seed = "[]" and st = fresh
       and out = "tracker_frame [blank_row ''bob'']" and st' = fresh and I = steady]
  show ?thesis
    unfolding Let_def by (simp only: f g r simp_thms) simp
qed

text \<open>
  C1, at a sheet with a blank team-lead and a blank assessor cell. The cell is the float
  \<open>NaN\<close>, which \<open>_norm\<close> reads as no value; \<open>per_employee\<close> tests it with \<open>if tl:\<close>, keeps it
  and stores \<open>str(tl)\<close>, and the row's Team Lead and Quality Assessors read \<open>nan\<close>.
\<close>

theorem blank_team_lead_cell_reads_nan:
  "rows blank_lead_sheet = [[CStr ''Carol'', CNaN, CNaN]]
   \<and> norm_cell exact_lib CNaN = None
   \<and> generate_tracker exact_lib (build_employee_key exact_lib) answering three_keys
        blank_lead_sheet no_frame 3 2 [] fresh
      = Inr (tracker_frame [(blank_row ''carol'')\<lparr>team_lead := ''nan'',
                     quality_assessors := ''nan''\<rparr>], fresh)"
  by (simp add: small_trackers small_shape norm_cell_def)

section \<open>Claim C2: the employee key\<close>

lemma is_upper_not_space: "is_upper c \<Longrightarrow> \<not> is_space c"
  by (auto simp add: is_upper_def is_space_def less_eq_char_def)

lemma lower_char_not_space: "is_upper c \<Longrightarrow> \<not> is_space (lower_char c)"
proof (cases c)
  case (Char b0 b1 b2 b3 b4 b5 b6 b7)
  assume "is_upper c"
  then show ?thesis
    unfolding Char lower_char_def is_upper_def is_space_def less_eq_char_def
    by (cases b0; cases b1; cases b2; cases b3; cases b4; cases b5; cases b6; cases b7; simp)
qed

lemma is_space_lower_char [simp]: "is_space (lower_char c) = is_space c"
proof (cases "is_upper c")
  case True
  then show ?thesis using is_upper_not_space lower_char_not_space by blast
next
  case False
  then show ?thesis by (simp add: lower_char_def)
qed

lemma lower_lstrip: "lower (lstrip s) = lstrip (lower s)"
  by (simp add: lower_def lstrip_def dropWhile_map comp_def)

lemma lower_rstrip: "lower (rstrip s) = rstrip (lower s)"
  by (simp add: lower_def rstrip_def dropWhile_map comp_def rev_map)

lemma lower_strip: "lower (strip s) = strip (lower s)"
  by (simp add: strip_def lower_lstrip lower_rstrip)

lemma rstrip_padding:
  assumes "list_all is_space post"
  shows "rstrip (s @ post) = rstrip s"
proof -
  from assms have "dropWhile is_space (rev post @ rev s) = dropWhile is_space (rev s)"
    by (intro dropWhile_append2) (simp add: list_all_iff)
  then show ?thesis by (simp add: rstrip_def)
qed

lemma strip_padding:
  assumes "list_all is_space pre" "list_all is_space post"
  shows "strip (pre @ core @ post) = strip core"
proof -
  from assms(1) have l: "lstrip (pre @ core @ post) = lstrip (core @ post)"
    unfolding lstrip_def by (intro dropWhile_append2) (simp add: list_all_iff)
  show ?thesis
  proof (cases "list_all is_space core")
    case True
    with assms(2) have "lstrip (core @ post) = []" "lstrip core = []"
      by (simp_all add: lstrip_def list_all_iff dropWhile_eq_Nil_conv)
    with l show ?thesis by (simp add: strip_def)
  next
    case False
    then obtain x where "x \<in> set core" "\<not> is_space x"
      by (auto simp add: list_all_iff)
    then have "lstrip (core @ post) = lstrip core @ post"
      by (simp add: lstrip_def dropWhile_append1)
    with l assms(2) show ?thesis by (simp add: strip_def rstrip_padding)
  qed
qed


lemma padded_key:
  assumes "list_all is_space pre" "list_all is_space post"
  shows "build_employee_key L (CStr (pre @ core @ post)) = Some (strip (lower core))"
  by (simp add: build_employee_key_def norm_cell_def strip_padding [OF assms] lower_strip)

lemma set_map_filter_conv: "set (List.map_filter f xs) = {y. \<exists>x\<in>set xs. f x = Some y}"
  by (induction xs) (auto simp add: map_filter_simps split: option.splits)

lemma name_keys_set:
  assumes "label_true col"
  shows "set (name_keys L bek df col)
         = {k. \<exists>row\<in>set (rows df). \<not> isna (cell_at df row (the col))
                  \<and> bek (CStr (py_str L (cell_at df row (the col)))) = Some k}"
  using assms by (auto simp add: name_keys_def set_map_filter_conv Let_def split: if_splits)

lemma name_keys_member:
  assumes "label_true col" "row \<in> set (rows df)" "cell_at df row (the col) = CStr s"
    "bek (CStr s) = Some key"
  shows "key \<in> set (name_keys L bek df col)"
  unfolding name_keys_set [OF assms(1)] using assms(2-4)
  by (auto simp add: isna_def py_str_def intro!: bexI [of _ row])

lemma per_employee_row_at:
  "per_employee_row L bek df cols row d k =
     (if k \<noteq> [] \<and> bek (cell_at df row (the (name_col cols))) = Some k
      then \<lparr> team_leads = team_leads (d k)
                 @ (if truthy (get_opt df row (tl_col cols))
                    then [py_str L (get_opt df row (tl_col cols))] else []),
             assessors = assessors (d k)
                 @ (if truthy (get_opt df row (qa_col cols))
                    then [py_str L (get_opt df row (qa_col cols))] else []),
             comments = comments (d k)
                 @ (if truthy (get_opt df row (comments_col cols))
                    then [py_str L (get_opt df row (comments_col cols))] else []),
             sn_ratings = sn_ratings (d k)
                 @ (if get_opt df row (sn_rating_col cols) \<noteq> CNone
                    then [get_opt df row (sn_rating_col cols)] else []),
             manual_grades = manual_grades (d k)
                 @ (if get_opt df row (manual_grade_col cols) \<noteq> CNone
                    then [get_opt df row (manual_grade_col cols)] else []) \<rparr>
      else d k)"
  by (auto simp add: per_employee_row_def Let_def split: option.splits)

lemma fold_per_employee_groups:
  assumes "k \<noteq> []"
  shows "team_leads (fold (per_employee_row L bek df cols) rs d k)
         = team_leads (d k)
           @ concat (map (\<lambda>row. if truthy (get_opt df row (tl_col cols))
                                then [py_str L (get_opt df row (tl_col cols))] else [])
                      (filter (\<lambda>row. bek (cell_at df row (the (name_col cols))) = Some k) rs))"
    and "assessors (fold (per_employee_row L bek df cols) rs d k)
         = assessors (d k)
           @ concat (map (\<lambda>row. if truthy (get_opt df row (qa_col cols))
                                then [py_str L (get_opt df row (qa_col cols))] else [])
                      (filter (\<lambda>row. bek (cell_at df row (the (name_col cols))) = Some k) rs))"
    and "comments (fold (per_employee_row L bek df cols) rs d k)
         = comments (d k)
           @ concat (map (\<lambda>row. if truthy (get_opt df row (comments_col cols))
                                then [py_str L (get_opt df row (comments_col cols))] else [])
                      (filter (\<lambda>row. bek (cell_at df row (the (name_col cols))) = Some k) rs))"
    and "sn_ratings (fold (per_employee_row L bek df cols) rs d k)
         = sn_ratings (d k)
           @ concat (map (\<lambda>row. if get_opt df row (sn_rating_col cols) \<noteq> CNone
                                then [get_opt df row (sn_rating_col cols)] else [])
                      (filter (\<lambda>row. bek (cell_at df row (the (name_col cols))) = Some k) rs))"
    and "manual_grades (fold (per_employee_row L bek df cols) rs d k)
         = manual_grades (d k)
           @ concat (map (\<lambda>row. if get_opt df row (manual_grade_col cols) \<noteq> CNone
                                then [get_opt df row (manual_grade_col cols)] else [])
                      (filter (\<lambda>row. bek (cell_at df row (the (name_col cols))) = Some k) rs))"
  using assms
  by (induction rs arbitrary: d; simp add: per_employee_row_at)+

lemma per_employee_groups:
  assumes "k \<noteq> []" "\<not> df_empty df" "label_true (name_col cols)"
  shows "team_leads (per_employee L bek df cols k)
         = concat (map (\<lambda>row. if truthy (get_opt df row (tl_col cols))
                              then [py_str L (get_opt df row (tl_col cols))] else [])
                    (filter (\<lambda>row. bek (cell_at df row (the (name_col cols))) = Some k) (rows df)))"
    and "assessors (per_employee L bek df cols k)
         = concat (map (\<lambda>row. if truthy (get_opt df row (qa_col cols))
                              then [py_str L (get_opt df row (qa_col cols))] else [])
                    (filter (\<lambda>row. bek (cell_at df row (the (name_col cols))) = Some k) (rows df)))"
    and "comments (per_employee L bek df cols k)
         = concat (map (\<lambda>row. if truthy (get_opt df row (comments_col cols))
                              then [py_str L (get_opt df row (comments_col cols))] else [])
                    (filter (\<lambda>row. bek (cell_at df row (the (name_col cols))) = Some k) (rows df)))"
    and "sn_ratings (per_employee L bek df cols k)
         = concat (map (\<lambda>row. if get_opt df row (sn_rating_col cols) \<noteq> CNone
                              then [get_opt df row (sn_rating_col cols)] else [])
                    (filter (\<lambda>row. bek (cell_at df row (the (name_col cols))) = Some k) (rows df)))"
    and "manual_grades (per_employee L bek df cols k)
         = concat (map (\<lambda>row. if get_opt df row (manual_grade_col cols) \<noteq> CNone
                              then [get_opt df row (manual_grade_col cols)] else [])
                    (filter (\<lambda>row. bek (cell_at df row (the (name_col cols))) = Some k) (rows df)))"
  using assms(2,3)
  by (simp_all add: per_employee_def fold_per_employee_groups [OF assms(1)] empty_aggregate_def)

lemma name_col_in_columns:
  "label_true (name_col (extract_people_fields df)) \<Longrightarrow>
     the (name_col (extract_people_fields df)) \<in> set (columns df)"
  by (cases "name_col (extract_people_fields df)")
     (auto simp: extract_people_fields_def label_true_def py_or_def
        split: if_splits dest: resolved_in_columns)

lemma one_of_distinct:
  "distinct (map f xs) \<Longrightarrow> k \<in> set (map f xs) \<Longrightarrow> \<exists>r. filter (\<lambda>x. f x = k) xs = [r]"
proof (induction xs)
  case Nil
  then show ?case by simp
next
  case (Cons x xs)
  show ?case
  proof (cases "f x = k")
    case True
    with Cons.prems have "f x \<notin> f ` set xs" by simp
    with True have "\<forall>y\<in>set xs. f y \<noteq> k" by (metis image_eqI)
    then have "filter (\<lambda>x. f x = k) xs = []"
      by (simp add: filter_empty_conv)
    with True show ?thesis by simp
  next
    case False
    with Cons show ?thesis by auto
  qed
qed


text \<open>
  C2. Two names that differ only in letter case or in surrounding whitespace have the same
  employee key, the trimmed name in lower case. \<open>per_employee\<close> groups the rows of a table
  by that key: the lists it holds under a key are the values, in row order, of exactly the
  rows whose name has the key. So when a row of the filtered manual table and a row of
  the filtered ticketing table carry such names, both are among the rows grouped under the
  one key, and the tracker has exactly one row for it, made from the two groups.
\<close>

theorem employee_key_groups_records:
  "(list_all is_space pre \<and> list_all is_space post \<and> list_all is_space pre' \<and> list_all is_space post'
      \<and> lower core = lower core'
    \<longrightarrow> build_employee_key L (CStr (pre @ core @ post)) = Some (strip (lower core))
        \<and> build_employee_key L (CStr (pre' @ core' @ post')) = Some (strip (lower core)))
   \<and> (k \<noteq> [] \<and> \<not> df_empty df \<and> label_true (name_col cols)
    \<longrightarrow> (let rs = filter (\<lambda>row. build_employee_key L (cell_at df row (the (name_col cols))) = Some k)
                       (rows df);
             a = per_employee L (build_employee_key L) df cols k
         in team_leads a
              = concat (map (\<lambda>row. if truthy (get_opt df row (tl_col cols))
                                   then [py_str L (get_opt df row (tl_col cols))] else []) rs)
            \<and> assessors a
              = concat (map (\<lambda>row. if truthy (get_opt df row (qa_col cols))
                                   then [py_str L (get_opt df row (qa_col cols))] else []) rs)
            \<and> comments a
              = concat (map (\<lambda>row. if truthy (get_opt df row (comments_col cols))
                                   then [py_str L (get_opt df row (comments_col cols))] else []) rs)
            \<and> sn_ratings a
              = concat (map (\<lambda>row. if get_opt df row (sn_rating_col cols) \<noteq> CNone
                                   then [get_opt df row (sn_rating_col cols)] else []) rs)
            \<and> manual_grades a
              = concat (map (\<lambda>row. if get_opt df row (manual_grade_col cols) \<noteq> CNone
                                   then [get_opt df row (manual_grade_col cols)] else []) rs)))
   \<and> (generate_tracker L (build_employee_key L) W ks manual_df sn_df m w seed st = Inr (out, st')
      \<and> filtered L manual_df m w = Inr mdf \<and> filtered L sn_df m w = Inr sdf
      \<and> list_all is_space pre \<and> list_all is_space post
      \<and> list_all is_space pre' \<and> list_all is_space post'
      \<and> lower core = lower core' \<and> strip (lower core) \<noteq> []
      \<and> name_col (extract_people_fields manual_df) = Some nc \<and> label_true (Some nc)
      \<and> row \<in> set (rows mdf) \<and> cell_at mdf row nc = CStr (pre @ core @ post)
      \<and> name_col (extract_people_fields sn_df) = Some nc' \<and> label_true (Some nc')
      \<and> row' \<in> set (rows sdf) \<and> cell_at sdf row' nc' = CStr (pre' @ core' @ post')
    \<longrightarrow> (\<exists>recs r mon.
          out = tracker_frame recs
          \<and> filter (\<lambda>r. employee_name r = strip (lower core)) recs = [r]
          \<and> r = make_rec L mon w
                  (per_employee L (build_employee_key L) mdf (extract_people_fields manual_df)
                     (strip (lower core)))
                  (per_employee L (build_employee_key L) sdf (extract_people_fields sn_df)
                     (strip (lower core)))
                  (strip (lower core)) (areas_to_improve r)
          \<and> row \<in> set (filter (\<lambda>row. build_employee_key L (cell_at mdf row nc)
                                         = Some (strip (lower core))) (rows mdf))
          \<and> row' \<in> set (filter (\<lambda>row. build_employee_key L (cell_at sdf row nc')
                                          = Some (strip (lower core))) (rows sdf))
          \<and> \<not> df_empty mdf \<and> \<not> df_empty sdf))"
proof -
  let ?bek = "build_employee_key L"
  let ?key = "strip (lower core)"
  have keys: "?bek (CStr (pre @ core @ post)) = Some ?key
        \<and> ?bek (CStr (pre' @ core' @ post')) = Some ?key"
    if "list_all is_space pre" "list_all is_space post" "list_all is_space pre'"
      "list_all is_space post'" "lower core = lower core'"
    using padded_key [OF that(1,2), of L core] padded_key [OF that(3,4), of L core'] that(5)
    by simp
  have groups: "let rs = filter (\<lambda>row. ?bek (cell_at df row (the (name_col cols))) = Some k) (rows df);
             a = per_employee L ?bek df cols k
         in team_leads a
              = concat (map (\<lambda>row. if truthy (get_opt df row (tl_col cols))
                                   then [py_str L (get_opt df row (tl_col cols))] else []) rs)
            \<and> assessors a
              = concat (map (\<lambda>row. if truthy (get_opt df row (qa_col cols))
                                   then [py_str L (get_opt df row (qa_col cols))] else []) rs)
            \<and> comments a
              = concat (map (\<lambda>row. if truthy (get_opt df row (comments_col cols))
                                   then [py_str L (get_opt df row (comments_col cols))] else []) rs)
            \<and> sn_ratings a
              = concat (map (\<lambda>row. if get_opt df row (sn_rating_col cols) \<noteq> CNone
                                   then [get_opt df row (sn_rating_col cols)] else []) rs)
            \<and> manual_grades a
              = concat (map (\<lambda>row. if get_opt df row (manual_grade_col cols) \<noteq> CNone
                                   then [get_opt df row (manual_grade_col cols)] else []) rs)"
    if "k \<noteq> []" "\<not> df_empty df" "label_true (name_col cols)"
    unfolding Let_def using per_employee_groups [OF that, of L ?bek] by blast
  have one: "\<exists>recs r mon.
          out = tracker_frame recs
          \<and> filter (\<lambda>r. employee_name r = ?key) recs = [r]
          \<and> r = make_rec L mon w
                  (per_employee L ?bek mdf (extract_people_fields manual_df) ?key)
                  (per_employee L ?bek sdf (extract_people_fields sn_df) ?key)
                  ?key (areas_to_improve r)
          \<and> row \<in> set (filter (\<lambda>row. ?bek (cell_at mdf row nc) = Some ?key) (rows mdf))
          \<and> row' \<in> set (filter (\<lambda>row. ?bek (cell_at sdf row nc') = Some ?key) (rows sdf))
          \<and> \<not> df_empty mdf \<and> \<not> df_empty sdf"
    if run: "generate_tracker L ?bek W ks manual_df sn_df m w seed st = Inr (out, st')"
      and f: "filtered L manual_df m w = Inr mdf" "filtered L sn_df m w = Inr sdf"
      and pad: "list_all is_space pre" "list_all is_space post" "list_all is_space pre'"
        "list_all is_space post'" "lower core = lower core'"
      and ne: "?key \<noteq> []"
      and n1: "name_col (extract_people_fields manual_df) = Some nc" "label_true (Some nc)"
        "row \<in> set (rows mdf)" "cell_at mdf row nc = CStr (pre @ core @ post)"
      and n2: "name_col (extract_people_fields sn_df) = Some nc'" "label_true (Some nc')"
        "row' \<in> set (rows sdf)" "cell_at sdf row' nc' = CStr (pre' @ core' @ post')"
  proof -
    let ?mc = "extract_people_fields manual_df" and ?sc = "extract_people_fields sn_df"
    from keys [OF pad] have k1: "?bek (CStr (pre @ core @ post)) = Some ?key"
      and k2: "?bek (CStr (pre' @ core' @ post')) = Some ?key"
      by simp_all
    from run obtain recs where out: "out = tracker_frame recs"
      and recs: "generate_records L ?bek W ks manual_df sn_df m w seed st = Inr (recs, st')"
      by (rule generate_tracker_Inr)
    from recs f have t: "tracker_records L W ks m w seed (per_employee L ?bek mdf ?mc)
           (per_employee L ?bek sdf ?sc) (all_names L ?bek mdf ?mc sdf ?sc) st = Inr (recs, st')"
      by (simp add: generate_records_def Let_def)
    from tracker_records_names [OF t]
    have n: "map employee_name recs = all_names L ?bek mdf ?mc sdf ?sc" .
    have "?key \<in> set (name_keys L ?bek mdf (name_col ?mc))"
      using n1 k1 by (intro name_keys_member [where row = row and s = "pre @ core @ post"]) simp_all
    then have "?key \<in> set (all_names L ?bek mdf ?mc sdf ?sc)"
      by (simp add: all_names_def)
    with n all_names_sorted [of L ?bek mdf ?mc sdf ?sc]
    have "distinct (map employee_name recs)" "?key \<in> set (map employee_name recs)"
      by simp_all
    from one_of_distinct [OF this] obtain r where r: "filter (\<lambda>r. employee_name r = ?key) recs = [r]"
      by blast
    then have "r \<in> set (filter (\<lambda>r. employee_name r = ?key) recs)" by simp
    then have rin: "r \<in> set recs" and rn: "employee_name r = ?key" by simp_all
    from records_are_made [OF t] rin obtain mon where
      "r = make_rec L mon w (per_employee L ?bek mdf ?mc (employee_name r))
             (per_employee L ?bek sdf ?sc (employee_name r)) (employee_name r) (areas_to_improve r)"
      by blast
    with rn have mk: "r = make_rec L mon w (per_employee L ?bek mdf ?mc ?key)
             (per_employee L ?bek sdf ?sc ?key) ?key (areas_to_improve r)"
      by simp
    from filtered_rows [OF f(1)] filtered_rows [OF f(2)]
    have cols: "columns mdf = columns manual_df" "columns sdf = columns sn_df"
      by simp_all
    from n1(1,2) name_col_in_columns [of manual_df] have "columns manual_df \<noteq> []" by auto
    with cols n1(3) have e1: "\<not> df_empty mdf" by (auto simp: df_empty_def)
    from n2(1,2) name_col_in_columns [of sn_df] have "columns sn_df \<noteq> []" by auto
    with cols n2(3) have e2: "\<not> df_empty sdf" by (auto simp: df_empty_def)
    from n1 n2 k1 k2 out r mk e1 e2 show ?thesis
      by (intro exI [of _ recs] exI [of _ r] exI [of _ mon]) simp
  qed
  from keys groups one show ?thesis by blast
qed


lemma latin_names:
  "list_all is_space [CHR 0xA0]" "list_all is_space '' ''" "list_all is_space []"
  "lower (''JOS'' @ [CHR 0xC9]) = lower (''jos'' @ [CHR 0xE9])"
  "strip (lower (''JOS'' @ [CHR 0xC9])) = ''jos'' @ [CHR 0xE9]"
  "lower ''Bob'' = lower ''BOB''" "strip (lower ''Bob'') = ''bob''"
  by (simp_all add: text_defs)

lemma first_rows:
  "[CStr ''Bob '', CStr ''Alice'', CStr ''Quinn'', CInt 2, CStr ''A'', CStr ''Did not verify the user.'']
     \<in> set (rows manual_week2)"
  "cell_at manual_week2
     [CStr ''Bob '', CStr ''Alice'', CStr ''Quinn'', CInt 2, CStr ''A'', CStr ''Did not verify the user.'']
     (Name ''Employee Name'') = CStr ([] @ ''Bob'' @ '' '')"
  "[CStr ''BOB'', CStr ''Alice'', CStr ''Quinn'', CDate 2024 3 5, CStr ''4.5'', CStr ''Probing was thin.'']
     \<in> set (rows sn_week2)"
  "cell_at sn_week2
     [CStr ''BOB'', CStr ''Alice'', CStr ''Quinn'', CDate 2024 3 5, CStr ''4.5'', CStr ''Probing was thin.'']
     (Name ''Analyst Name'') = CStr ([] @ ''BOB'' @ [])"
  by (simp_all add: week2_shape manual_shape sn_shape cell_at_def)

theorem employee_key_groups_records_witness:
  "build_employee_key exact_lib (CStr ([CHR 0xA0] @ (''JOS'' @ [CHR 0xC9]) @ '' ''))
     = Some (''jos'' @ [CHR 0xE9])
   \<and> build_employee_key exact_lib (CStr ([] @ (''jos'' @ [CHR 0xE9]) @ []))
     = Some (''jos'' @ [CHR 0xE9])
   \<and> \<not> df_empty manual_week2
   \<and> name_col (extract_people_fields manual_sheet) = Some (Name ''Employee Name'')
   \<and> name_col (extract_people_fields sn_sheet) = Some (Name ''Analyst Name'')
   \<and> concat (map (\<lambda>row. if truthy (get_opt manual_week2 row (tl_col (extract_people_fields manual_sheet)))
                         then [py_str exact_lib
                                 (get_opt manual_week2 row (tl_col (extract_people_fields manual_sheet)))]
                         else [])
               (filter (\<lambda>row. build_employee_key exact_lib
                                 (cell_at manual_week2 row
                                    (the (name_col (extract_people_fields manual_sheet))))
                               = Some ''bob'')
                  (rows manual_week2)))
     = [''Alice'', ''Alice'']
   \<and> generate_tracker exact_lib (build_employee_key exact_lib) answering three_keys
        manual_sheet sn_sheet 3 2 [] fresh
      = Inr (tracker_frame [bob_row, carol_row, erin_row],
             fresh\<lparr>groq_key_index := Some 0, requests := 6\<rparr>)
   \<and> filtered exact_lib manual_sheet 3 2 = Inr manual_week2
   \<and> filtered exact_lib sn_sheet 3 2 = Inr sn_week2
   \<and> (\<exists>recs r mon.
         tracker_frame [bob_row, carol_row, erin_row] = tracker_frame recs
         \<and> filter (\<lambda>r. employee_name r = ''bob'') recs = [r]
         \<and> r = make_rec exact_lib mon 2 (manual_aggregates ''bob'') (sn_aggregates ''bob'') ''bob''
                 (areas_to_improve r))"
proof -
  let ?bek = "build_employee_key exact_lib"
  have a: "build_employee_key exact_lib (CStr ([CHR 0xA0] @ (''JOS'' @ [CHR 0xC9]) @ '' ''))
             = Some (''jos'' @ [CHR 0xE9])
           \<and> build_employee_key exact_lib (CStr ([] @ (''jos'' @ [CHR 0xE9]) @ []))
             = Some (''jos'' @ [CHR 0xE9])"
    using employee_key_groups_records
      [where L = exact_lib and pre = "[CHR 0xA0]" and core = "''JOS'' @ [CHR 0xC9]"
        and post = "'' ''" and pre' = "[]" and core' = "''jos'' @ [CHR 0xE9]" and post' = "[]"]
      latin_names
    by simp
  have e: "\<not> df_empty manual_week2"
    by (simp add: df_empty_def week2_shape manual_shape)
  have nc: "name_col (extract_people_fields manual_sheet) = Some (Name ''Employee Name'')"
    "name_col (extract_people_fields sn_sheet) = Some (Name ''Analyst Name'')"
    by (simp_all add: manual_fields sn_fields)
  have lt: "label_true (Some (Name ''Employee Name''))" "label_true (Some (Name ''Analyst Name''))"
    "label_true (name_col (extract_people_fields manual_sheet))"
    by (simp_all add: nc label_true_def)
  have ag: "team_leads (per_employee exact_lib ?bek manual_week2 (extract_people_fields manual_sheet)
               ''bob'') = [''Alice'', ''Alice'']"
    by (simp add: manual_per_employee aggregates_at)
  note inst = employee_key_groups_records
      [where L = exact_lib and pre = "[]" and core = "''Bob''" and post = "'' ''"
        and pre' = "[]" and core' = "''BOB''" and post' = "[]"
        and k = "''bob''" and df = manual_week2 and cols = "extract_people_fields manual_sheet"
        and W = answering and ks = three_keys and manual_df = manual_sheet and sn_df = sn_sheet
        and m = 3 and w = 2 and seed = "[]" and st = fresh
        and out = "tracker_frame [bob_row, carol_row, erin_row]"
        and st' = "fresh\<lparr>groq_key_index := Some 0, requests := 6\<rparr>"
        and mdf = manual_week2 and sdf = sn_week2
        and nc = "Name ''Employee Name''" and nc' = "Name ''Analyst Name''"
        and row = "[CStr ''Bob '', CStr ''Alice'', CStr ''Quinn'', CInt 2, CStr ''A'',
                    CStr ''Did not verify the user.'']"
        and row' = "[CStr ''BOB'', CStr ''Alice'', CStr ''Quinn'', CDate 2024 3 5, CStr ''4.5'',
                     CStr ''Probing was thin.'']",
        unfolded Let_def]
  from inst e lt(3) ag
  have b: "concat (map (\<lambda>row. if truthy (get_opt manual_week2 row (tl_col (extract_people_fields manual_sheet)))
                         then [py_str exact_lib
                                 (get_opt manual_week2 row (tl_col (extract_people_fields manual_sheet)))]
                         else [])
               (filter (\<lambda>row. build_employee_key exact_lib
                                 (cell_at manual_week2 row
                                    (the (name_col (extract_people_fields manual_sheet))))
                               = Some ''bob'')
                  (rows manual_week2)))
     = [''Alice'', ''Alice'']"
    by simp
  from inst example_tracker manual_filtered sn_filtered latin_names first_rows nc lt
  have "\<exists>recs r mon.
         tracker_frame [bob_row, carol_row, erin_row] = tracker_frame recs
         \<and> filter (\<lambda>r. employee_name r = ''bob'') recs = [r]
         \<and> r = make_rec exact_lib mon 2
                 (per_employee exact_lib ?bek manual_week2 (extract_people_fields manual_sheet) ''bob'')
                 (per_employee exact_lib ?bek sn_week2 (extract_people_fields sn_sheet) ''bob'')
                 ''bob'' (areas_to_improve r)"
    by (simp only: simp_thms list.simps) blast
  then have c: "\<exists>recs r mon.
         tracker_frame [bob_row, carol_row, erin_row] = tracker_frame recs
         \<and> filter (\<lambda>r. employee_name r = ''bob'') recs = [r]
         \<and> r = make_rec exact_lib mon 2 (manual_aggregates ''bob'') (sn_aggregates ''bob'') ''bob''
                 (areas_to_improve r)"
    by (simp only: manual_per_employee sn_per_employee)
  from a b c e nc example_tracker manual_filtered sn_filtered show ?thesis
    by (simp only: simp_thms)
qed

end
